theory Spec2Isabelle
  imports Main "HOL-Library.Word"
begin

section \<open>The Azure NetApp Files NAS driver (storage\_drivers/azure/azure\_anf.go)\<close>

text \<open>
  The driver orchestrates an external backend client (field \<open>SDK\<close> of the driver, the
  interface \<open>api.Azure\<close>). The client is not part of the driver: it is modelled as a
  record of operations over an arbitrary backend state \<open>'s\<close>, each returning its result
  and the next backend state. The driver threads a \<open>world\<close>: the backend state, the
  list of backend calls issued so far (oldest first) and the messages logged at Info
  level and above. Debug and Trace log lines are left out.
\<close>

subsection \<open>Errors\<close>

text \<open>
  A Go \<open>error\<close> is a value. \<open>Errorf f args\<close> is \<open>fmt.Errorf\<close> (and \<open>errors.New\<close>)
  with the format string and its arguments kept apart, so that an error embedded with
  \<open>%v\<close> stays visible. \<open>VolumeCreatingError\<close> is the retryable
  \<open>errors.VolumeCreatingError(message)\<close>, \<open>VolumeExistsError\<close> is
  \<open>drivers.NewVolumeExistsError(name)\<close>, \<open>MultiError\<close> is the aggregate of
  go.uber.org/multierr.
\<close>

datatype error =
    Errorf string "fmtarg list"
  | VolumeCreatingError string "fmtarg list"
  | VolumeExistsError string
  | MultiError "error list"
and fmtarg =
    ArgS string
  | ArgE error
  | ArgU "64 word"
  | ArgI "64 word"
  | ArgB bool

text \<open>\<open>multierr.Combine\<close>: nil arguments are dropped, a single remaining error is returned
  as it is, several are flattened into one aggregate.\<close>

fun multierr_flatten :: "error \<Rightarrow> error list" where
  "multierr_flatten (MultiError es) = es"
| "multierr_flatten e = [e]"

definition multierr_Combine :: "error option list \<Rightarrow> error option" where
  "multierr_Combine errs =
     (case List.map_filter id errs of
        [] \<Rightarrow> None
      | [e] \<Rightarrow> Some e
      | es \<Rightarrow> Some (MultiError (concat (map multierr_flatten es))))"

subsection \<open>Constants\<close>

definition MinimumVolumeSizeBytes :: "64 word" where
  "MinimumVolumeSizeBytes = 1000000000"

definition MinimumANFVolumeSizeBytes :: "64 word" where
  "MinimumANFVolumeSizeBytes = 107374182400"

definition Size :: string where "Size = ''size''"
definition UnixPermissions :: string where "UnixPermissions = ''unixPermissions''"
definition ServiceLevel :: string where "ServiceLevel = ''serviceLevel''"
definition SnapshotDir :: string where "SnapshotDir = ''snapshotDir''"
definition ExportRuleAttr :: string where "ExportRuleAttr = ''exportRule''"
definition NetworkFeatures :: string where "NetworkFeatures = ''networkFeatures''"
definition Kerberos :: string where "Kerberos = ''kerberos''"

definition nfsVersion3 :: string where "nfsVersion3 = ''3''"
definition nfsVersion4 :: string where "nfsVersion4 = ''4''"
definition nfsVersion41 :: string where "nfsVersion41 = ''4.1''"

definition supportedNFSVersions :: "string list" where
  "supportedNFSVersions = [nfsVersion3, nfsVersion4, nfsVersion41]"

text \<open>
  Modelled from the spec: the packages \<open>api\<close>, \<open>storage_attribute\<close> (\<open>sa\<close>) and
  \<open>config\<close> are not among the sources, so the values of their string constants are
  taken from the spec's names. The provisioning states are the spec's enumeration
  (Accepted, Creating, Available, Error, Deleting, Deleted, Moving, Reverting), the
  kerberos modes its three flavors, the protocol types its protocol names.
  Only their being pairwise distinct matters below; the Go compiler enforces that for the
  constants sharing a \<open>switch\<close>.
\<close>

definition StateAccepted :: string where "StateAccepted = ''Accepted''"
definition StateCreating :: string where "StateCreating = ''Creating''"
definition StateAvailable :: string where "StateAvailable = ''Available''"
definition StateError :: string where "StateError = ''Error''"
definition StateDeleting :: string where "StateDeleting = ''Deleting''"
definition StateDeleted :: string where "StateDeleted = ''Deleted''"
definition StateMoving :: string where "StateMoving = ''Moving''"
definition StateReverting :: string where "StateReverting = ''Reverting''"

definition MountOptionKerberos5 :: string where "MountOptionKerberos5 = ''krb5''"
definition MountOptionKerberos5I :: string where "MountOptionKerberos5I = ''krb5i''"
definition MountOptionKerberos5P :: string where "MountOptionKerberos5P = ''krb5p''"

definition ProtocolTypeNFSv3 :: string where "ProtocolTypeNFSv3 = ''NFSv3''"
definition ProtocolTypeNFSv41 :: string where "ProtocolTypeNFSv41 = ''NFSv4.1''"
definition ProtocolTypeCIFS :: string where "ProtocolTypeCIFS = ''CIFS''"

definition FeatureUnixPermissions :: string where
  "FeatureUnixPermissions = ''ANFUnixPermissions''"

definition NFS :: string where "NFS = ''nfs''"
definition SMB :: string where "SMB = ''smb''"

definition ContextDocker :: string where "ContextDocker = ''docker''"

definition TridentLabelTag :: string where "TridentLabelTag = ''trident''"
definition ProvisioningLabelTag :: string where "ProvisioningLabelTag = ''provisioning''"

subsection \<open>Data\<close>

type_synonym duration = int

record ExportRule =
  AllowedClients :: string
  Cifs :: bool
  Nfsv3 :: bool
  Nfsv41 :: bool
  RuleIndex :: int
  UnixReadOnly :: bool
  UnixReadWrite :: bool
  Kerberos5ReadWrite :: bool
  Kerberos5IReadWrite :: bool
  Kerberos5PReadWrite :: bool

record ExportPolicy =
  Rules :: "ExportRule list"

text \<open>The zero value of \<open>api.ExportPolicy\<close> (\<open>var exportPolicy api.ExportPolicy\<close>).\<close>

definition zeroExportPolicy :: ExportPolicy where
  "zeroExportPolicy = \<lparr> Rules = [] \<rparr>"

text \<open>\<open>api.FileSystem\<close>, with the fields the driver reads. \<open>QuotaInBytes\<close> is an
  \<open>int64\<close>: a 64-bit word read as two's complement.\<close>

record FileSystem =
  fs_ID :: string
  fs_ResourceGroup :: string
  fs_NetAppAccount :: string
  fs_CapacityPool :: string
  fs_Name :: string
  fs_CreationToken :: string
  fs_ProvisioningState :: string
  fs_QuotaInBytes :: "64 word"
  fs_SnapshotDirectory :: bool
  fs_KerberosEnabled :: bool
  fs_ProtocolTypes :: "string list"
  fs_ExportPolicy :: ExportPolicy
  fs_UnixPermissions :: string
  fs_NetworkFeatures :: string
  fs_SubnetID :: string
  fs_Labels :: "string \<rightharpoonup> string"

record Snapshot =
  snap_Name :: string
  snap_SnapshotID :: string
  snap_ProvisioningState :: string

record CapacityPool =
  cp_Name :: string
  cp_ResourceGroup :: string
  cp_NetAppAccount :: string

record Subnet =
  subnet_ID :: string

record FilesystemCreateRequest =
  req_ResourceGroup :: string
  req_NetAppAccount :: string
  req_CapacityPool :: string
  req_Name :: string
  req_SubnetID :: string
  req_CreationToken :: string
  req_Labels :: "string \<rightharpoonup> string"
  req_ProtocolTypes :: "string list"
  req_QuotaInBytes :: "64 word"
  req_SnapshotDirectory :: bool
  req_NetworkFeatures :: string
  req_KerberosEnabled :: bool
  req_UnixPermissions :: string
  req_ExportPolicy :: ExportPolicy
  req_SnapshotID :: string

text \<open>\<open>storage.VolumeConfig\<close>, with the fields the modelled operations read or write.\<close>

record VolumeConfig =
  vc_Name :: string
  vc_InternalName :: string
  vc_InternalID :: string
  vc_Size :: string
  vc_ServiceLevel :: string
  vc_SnapshotDir :: string
  vc_UnixPermissions :: string
  vc_MountOptions :: string
  vc_ReadOnlyClone :: bool
  vc_CloneSourceVolumeInternal :: string
  vc_CloneSourceSnapshot :: string
  vc_CloneSourceSnapshotInternal :: string

text \<open>
  \<open>storage.Pool\<close>: its name, its internal attributes (a Go map: a missing key reads
  as the empty string) and the result of its method
  \<open>GetLabelsJSON(ctx, storage.ProvisioningLabelTag, api.MaxLabelLength)\<close>, which
  depends on the pool only.
\<close>

record Pool =
  pool_Name :: string
  InternalAttributes :: "string \<rightharpoonup> string"
  GetLabelsJSON :: "error + string"

definition attr :: "(string \<rightharpoonup> string) \<Rightarrow> string \<Rightarrow> string" where
  "attr m k = (case m k of None \<Rightarrow> [] | Some v \<Rightarrow> v)"

record Config =
  NASType :: string
  NfsMountOptions :: string
  StoragePrefix :: string
  SubscriptionID :: string
  DriverContext :: string
  LimitVolumeSize :: string

subsection \<open>The backend client and the world\<close>

datatype call =
    CallRefreshAzureResources
  | CallVolumeExists VolumeConfig
  | CallVolumeExistsByID string
  | CallVolume VolumeConfig
  | CallVolumes
  | CallCreateVolume FilesystemCreateRequest
  | CallDeleteVolume FileSystem
  | CallResizeVolume FileSystem "64 word"
  | CallWaitForVolumeState FileSystem string "string list" duration
  | CallRandomSubnetForStoragePool Pool
  | CallCapacityPoolsForStoragePool Pool string
  | CallSnapshotForVolume FileSystem string
  | CallCreateSnapshot FileSystem string
  | CallWaitForSnapshotState Snapshot FileSystem string "string list" duration

datatype level = Info | Warning | Error

text \<open>A log line: its level, its format string and arguments, and the error attached
  with \<open>WithError\<close>, if any.\<close>

record logline =
  log_level :: level
  log_format :: string
  log_args :: "fmtarg list"
  log_error :: "error option"

record 's world =
  backend :: 's
  calls :: "call list"
  logs :: "logline list"

text \<open>
  The methods of \<open>api.Azure\<close> the modelled operations call. \<open>VolumeExists\<close> returns
  \<open>(bool, *FileSystem, error)\<close> in Go; here \<open>Inr None\<close> is "does not exist" and
  \<open>Inr (Some v)\<close> is "exists, and this is it". \<open>WaitForVolumeState\<close> returns the last
  state seen together with its error.
\<close>

record 's Azure =
  RefreshAzureResources :: "'s \<Rightarrow> error option \<times> 's"
  VolumeExists :: "VolumeConfig \<Rightarrow> 's \<Rightarrow> (error + FileSystem option) \<times> 's"
  VolumeExistsByID :: "string \<Rightarrow> 's \<Rightarrow> (error + FileSystem option) \<times> 's"
  Volume :: "VolumeConfig \<Rightarrow> 's \<Rightarrow> (error + FileSystem) \<times> 's"
  Volumes :: "'s \<Rightarrow> (error + FileSystem list) \<times> 's"
  CreateVolume :: "FilesystemCreateRequest \<Rightarrow> 's \<Rightarrow> (error + FileSystem) \<times> 's"
  DeleteVolume :: "FileSystem \<Rightarrow> 's \<Rightarrow> error option \<times> 's"
  ResizeVolume :: "FileSystem \<Rightarrow> 64 word \<Rightarrow> 's \<Rightarrow> error option \<times> 's"
  WaitForVolumeState ::
    "FileSystem \<Rightarrow> string \<Rightarrow> string list \<Rightarrow> duration \<Rightarrow> 's \<Rightarrow> (string \<times> error option) \<times> 's"
  HasFeature :: "string \<Rightarrow> bool"
  RandomSubnetForStoragePool :: "Pool \<Rightarrow> 's \<Rightarrow> Subnet option \<times> 's"
  CapacityPoolsForStoragePool :: "Pool \<Rightarrow> string \<Rightarrow> 's \<Rightarrow> CapacityPool list \<times> 's"
  SnapshotForVolume :: "FileSystem \<Rightarrow> string \<Rightarrow> 's \<Rightarrow> (error + Snapshot) \<times> 's"
  CreateSnapshot :: "FileSystem \<Rightarrow> string \<Rightarrow> 's \<Rightarrow> (error + Snapshot) \<times> 's"
  WaitForSnapshotState ::
    "Snapshot \<Rightarrow> FileSystem \<Rightarrow> string \<Rightarrow> string list \<Rightarrow> duration \<Rightarrow> 's \<Rightarrow> error option \<times> 's"

text \<open>
  Code the driver calls that lives in other packages of the repository or outside it,
  none of it among the sources: taken as parameters.
  \<^item> \<open>ConvertSizeToBytes\<close> is \<open>utils.ConvertSizeToBytes\<close>;
  \<^item> \<open>CheckVolumeSizeLimits\<close> is \<open>drivers.CheckVolumeSizeLimits\<close> applied to the
    size and the driver's common configuration (only its error is used);
  \<^item> \<open>Title\<close> is \<open>utils.Title\<close>;
  \<^item> \<open>nfsVersionInMountOptions\<close> is the scan of a mount option string for an NFS
    version inside \<open>utils.GetNFSVersionFromMountOptions\<close>;
  \<^item> \<open>IsFeatureEnabled\<close> is \<open>acp.API().IsFeatureEnabled(ctx, acp.FeatureInflightEncryption)\<close>;
  \<^item> \<open>telemetryLabels\<close> is the JSON text \<open>getTelemetryLabels\<close> marshals;
  \<^item> \<open>snapshotNameNow\<close> is \<open>time.Now().UTC().Format(storage.SnapshotNameFormat)\<close>;
  \<^item> \<open>CreateVolumeID\<close> is \<open>api.CreateVolumeID\<close>;
  \<^item> \<open>baseLabelsJSON\<close> is \<open>GetLabelsJSON\<close> of the temporary pool built from the
    configured labels in \<open>CreateClone\<close>;
  \<^item> the four timeout constants of \<open>defaultCreateTimeout\<close> and \<open>defaultTimeout\<close>;
  \<^item> \<open>SnapshotTimeout\<close> is \<open>api.SnapshotTimeout\<close>;
  \<^item> \<open>errorString\<close> is the method \<open>Error()\<close> of an error value, the text that
    \<open>%v\<close> prints for it.
\<close>

record externals =
  ConvertSizeToBytes :: "string \<Rightarrow> error + string"
  CheckVolumeSizeLimits :: "64 word \<Rightarrow> error option"
  Title :: "string \<Rightarrow> string"
  nfsVersionInMountOptions :: "string \<Rightarrow> string option"
  IsFeatureEnabled :: "error option"
  telemetryLabels :: string
  snapshotNameNow :: string
  CreateVolumeID :: "string \<Rightarrow> string \<Rightarrow> string \<Rightarrow> string \<Rightarrow> string \<Rightarrow> string"
  baseLabelsJSON :: "error + string"
  DockerCreateTimeout :: duration
  VolumeCreateTimeout :: duration
  DockerDefaultTimeout :: duration
  DefaultTimeout :: duration
  SnapshotTimeout :: duration
  errorString :: "error \<Rightarrow> string"

text \<open>\<open>NASStorageDriver\<close>.\<close>

record 's NASStorageDriver =
  Config :: Config
  SDK :: "'s Azure"
  pools :: "string \<rightharpoonup> Pool"
  volumeCreateTimeout :: duration
  ext :: externals

definition defaultCreateTimeout :: "'s NASStorageDriver \<Rightarrow> duration" where
  "defaultCreateTimeout d =
     (if DriverContext (Config d) = ContextDocker then DockerCreateTimeout (ext d)
      else VolumeCreateTimeout (ext d))"

definition defaultTimeout :: "'s NASStorageDriver \<Rightarrow> duration" where
  "defaultTimeout d =
     (if DriverContext (Config d) = ContextDocker then DockerDefaultTimeout (ext d)
      else DefaultTimeout (ext d))"

text \<open>Logging, and the calls to the backend client: each call is appended to \<open>calls\<close>
  and moves the backend state.\<close>

definition logc ::
  "level \<Rightarrow> string \<Rightarrow> fmtarg list \<Rightarrow> error option \<Rightarrow> 's world \<Rightarrow> 's world" where
  "logc lv f args err w =
     w\<lparr>logs := logs w @ [\<lparr>log_level = lv, log_format = f, log_args = args, log_error = err\<rparr>]\<rparr>"

definition invoke :: "call \<Rightarrow> ('s \<Rightarrow> 'a \<times> 's) \<Rightarrow> 's world \<Rightarrow> 'a \<times> 's world" where
  "invoke c f w =
     (case f (backend w) of (r, b) \<Rightarrow> (r, w\<lparr>backend := b, calls := calls w @ [c]\<rparr>))"

definition sdkRefreshAzureResources ::
  "'s NASStorageDriver \<Rightarrow> 's world \<Rightarrow> error option \<times> 's world" where
  "sdkRefreshAzureResources d = invoke CallRefreshAzureResources (RefreshAzureResources (SDK d))"

definition sdkVolumeExists ::
  "'s NASStorageDriver \<Rightarrow> VolumeConfig \<Rightarrow> 's world \<Rightarrow> (error + FileSystem option) \<times> 's world" where
  "sdkVolumeExists d vc = invoke (CallVolumeExists vc) (VolumeExists (SDK d) vc)"

definition sdkVolumeExistsByID ::
  "'s NASStorageDriver \<Rightarrow> string \<Rightarrow> 's world \<Rightarrow> (error + FileSystem option) \<times> 's world" where
  "sdkVolumeExistsByID d i = invoke (CallVolumeExistsByID i) (VolumeExistsByID (SDK d) i)"

definition sdkVolume ::
  "'s NASStorageDriver \<Rightarrow> VolumeConfig \<Rightarrow> 's world \<Rightarrow> (error + FileSystem) \<times> 's world" where
  "sdkVolume d vc = invoke (CallVolume vc) (Volume (SDK d) vc)"

definition sdkVolumes ::
  "'s NASStorageDriver \<Rightarrow> 's world \<Rightarrow> (error + FileSystem list) \<times> 's world" where
  "sdkVolumes d = invoke CallVolumes (Volumes (SDK d))"

definition sdkCreateVolume ::
  "'s NASStorageDriver \<Rightarrow> FilesystemCreateRequest \<Rightarrow> 's world \<Rightarrow> (error + FileSystem) \<times> 's world" where
  "sdkCreateVolume d r = invoke (CallCreateVolume r) (CreateVolume (SDK d) r)"

definition sdkDeleteVolume ::
  "'s NASStorageDriver \<Rightarrow> FileSystem \<Rightarrow> 's world \<Rightarrow> error option \<times> 's world" where
  "sdkDeleteVolume d v = invoke (CallDeleteVolume v) (DeleteVolume (SDK d) v)"

definition sdkResizeVolume ::
  "'s NASStorageDriver \<Rightarrow> FileSystem \<Rightarrow> 64 word \<Rightarrow> 's world \<Rightarrow> error option \<times> 's world" where
  "sdkResizeVolume d v n = invoke (CallResizeVolume v n) (ResizeVolume (SDK d) v n)"

definition sdkWaitForVolumeState ::
  "'s NASStorageDriver \<Rightarrow> FileSystem \<Rightarrow> string \<Rightarrow> string list \<Rightarrow> duration \<Rightarrow> 's world
     \<Rightarrow> (string \<times> error option) \<times> 's world" where
  "sdkWaitForVolumeState d v desired errStates t =
     invoke (CallWaitForVolumeState v desired errStates t)
       (WaitForVolumeState (SDK d) v desired errStates t)"

definition sdkRandomSubnetForStoragePool ::
  "'s NASStorageDriver \<Rightarrow> Pool \<Rightarrow> 's world \<Rightarrow> Subnet option \<times> 's world" where
  "sdkRandomSubnetForStoragePool d p =
     invoke (CallRandomSubnetForStoragePool p) (RandomSubnetForStoragePool (SDK d) p)"

definition sdkCapacityPoolsForStoragePool ::
  "'s NASStorageDriver \<Rightarrow> Pool \<Rightarrow> string \<Rightarrow> 's world \<Rightarrow> CapacityPool list \<times> 's world" where
  "sdkCapacityPoolsForStoragePool d p sl =
     invoke (CallCapacityPoolsForStoragePool p sl) (CapacityPoolsForStoragePool (SDK d) p sl)"

definition sdkSnapshotForVolume ::
  "'s NASStorageDriver \<Rightarrow> FileSystem \<Rightarrow> string \<Rightarrow> 's world \<Rightarrow> (error + Snapshot) \<times> 's world" where
  "sdkSnapshotForVolume d v n = invoke (CallSnapshotForVolume v n) (SnapshotForVolume (SDK d) v n)"

definition sdkCreateSnapshot ::
  "'s NASStorageDriver \<Rightarrow> FileSystem \<Rightarrow> string \<Rightarrow> 's world \<Rightarrow> (error + Snapshot) \<times> 's world" where
  "sdkCreateSnapshot d v n = invoke (CallCreateSnapshot v n) (CreateSnapshot (SDK d) v n)"

definition sdkWaitForSnapshotState ::
  "'s NASStorageDriver \<Rightarrow> Snapshot \<Rightarrow> FileSystem \<Rightarrow> string \<Rightarrow> string list \<Rightarrow> duration \<Rightarrow> 's world
     \<Rightarrow> error option \<times> 's world" where
  "sdkWaitForSnapshotState d sn v desired errStates t =
     invoke (CallWaitForSnapshotState sn v desired errStates t)
       (WaitForSnapshotState (SDK d) sn v desired errStates t)"

subsection \<open>Go library functions\<close>

text \<open>\<open>strings.HasPrefix\<close>.\<close>

definition HasPrefix :: "string \<Rightarrow> string \<Rightarrow> bool" where
  "HasPrefix s p = (length p \<le> length s \<and> take (length p) s = p)"

text \<open>\<open>strconv.FormatUint(n, 10)\<close>.\<close>

fun decimal :: "nat \<Rightarrow> string" where
  "decimal n =
     (if n < 10 then [char_of (48 + n)] else decimal (n div 10) @ [char_of (48 + n mod 10)])"

declare decimal.simps [simp del]

definition FormatUint :: "64 word \<Rightarrow> string" where
  "FormatUint n = decimal (unat n)"

text \<open>\<open>strconv.ParseUint(s, 10, 64)\<close>: one or more decimal digits, no sign, and the value
  below \<open>2^64\<close>.\<close>

definition isDigit :: "char \<Rightarrow> bool" where
  "isDigit c = (48 \<le> (of_char c :: nat) \<and> (of_char c :: nat) \<le> 57)"

definition digitsValue :: "string \<Rightarrow> nat" where
  "digitsValue s = foldl (\<lambda>acc c. 10 * acc + ((of_char c :: nat) - 48)) 0 s"

definition ParseUint :: "string \<Rightarrow> error + 64 word" where
  "ParseUint s =
     (if s = [] \<or> \<not> list_all isDigit s then
        Inl (Errorf ''strconv.ParseUint: parsing %q: invalid syntax'' [ArgS s])
      else if 2 ^ 64 \<le> digitsValue s then
        Inl (Errorf ''strconv.ParseUint: parsing %q: value out of range'' [ArgS s])
      else Inr (of_nat (digitsValue s)))"

text \<open>\<open>strconv.ParseBool\<close>.\<close>

definition ParseBool :: "string \<Rightarrow> error + bool" where
  "ParseBool s =
     (if s \<in> set [''1'', ''t'', ''T'', ''TRUE'', ''true'', ''True''] then Inr True
      else if s \<in> set [''0'', ''f'', ''F'', ''FALSE'', ''false'', ''False''] then Inr False
      else Inl (Errorf ''strconv.ParseBool: parsing %q: invalid syntax'' [ArgS s]))"

subsection \<open>Name validation\<close>

definition isLetter :: "char \<Rightarrow> bool" where
  "isLetter c =
     ((97 \<le> (of_char c :: nat) \<and> (of_char c :: nat) \<le> 122) \<or>
      (65 \<le> (of_char c :: nat) \<and> (of_char c :: nat) \<le> 90))"

text \<open>\<open>volumeNameRegex\<close> is \<^verbatim>\<open>^[a-zA-Z][a-zA-Z\d-_]{0,63}$\<close>.\<close>

definition volumeNameRegex :: "string \<Rightarrow> bool" where
  "volumeNameRegex s =
     (case s of
        [] \<Rightarrow> False
      | c # cs \<Rightarrow> isLetter c \<and> length cs \<le> 63 \<and>
          list_all (\<lambda>x. isLetter x \<or> isDigit x \<or> x = CHR ''-'' \<or> x = CHR ''_'') cs)"

text \<open>\<open>volumeCreationTokenRegex\<close> is \<^verbatim>\<open>^[a-zA-Z][a-zA-Z\d-]{0,79}$\<close>.\<close>

definition volumeCreationTokenRegex :: "string \<Rightarrow> bool" where
  "volumeCreationTokenRegex s =
     (case s of
        [] \<Rightarrow> False
      | c # cs \<Rightarrow> isLetter c \<and> length cs \<le> 79 \<and>
          list_all (\<lambda>x. isLetter x \<or> isDigit x \<or> x = CHR ''-'') cs)"

definition validateVolumeName :: "string \<Rightarrow> error option" where
  "validateVolumeName name =
     (if \<not> volumeNameRegex name then
        Some (Errorf (''volume name '' @ [CHR 0x27] @ ''%s'' @ [CHR 0x27] @
          '' is not allowed; it must be 1-64 characters long, begin with a letter, and contain only letters, digits, hyphens, and underscores'')
          [ArgS name])
      else None)"

definition validateCreationToken :: "string \<Rightarrow> error option" where
  "validateCreationToken name =
     (if \<not> volumeCreationTokenRegex name then
        Some (Errorf (''volume internal name '' @ [CHR 0x27] @ ''%s'' @ [CHR 0x27] @
          '' is not allowed; it must be 1-80 characters long, begin with a letter, and contain only letters, digits, and hyphens'')
          [ArgS name])
      else None)"

subsection \<open>List\<close>

text \<open>The loop of \<open>List\<close> over the backend's volumes; \<open>names\<close> is \<open>volumeNames\<close>.\<close>

fun List_loop :: "string \<Rightarrow> FileSystem list \<Rightarrow> string list \<Rightarrow> string list" where
  "List_loop prefix [] names = names"
| "List_loop prefix (volume # rest) names =
     (if fs_ProvisioningState volume = StateDeleting
         \<or> fs_ProvisioningState volume = StateDeleted
         \<or> fs_ProvisioningState volume = StateError then List_loop prefix rest names
      else if \<not> HasPrefix (fs_CreationToken volume) prefix then List_loop prefix rest names
      else List_loop prefix rest (names @ [drop (length prefix) (fs_CreationToken volume)]))"

definition List_volumes :: "'s NASStorageDriver \<Rightarrow> 's world \<Rightarrow> (error + string list) \<times> 's world" where
  "List_volumes d w =
     (case sdkRefreshAzureResources d w of
        (Some err, w1) \<Rightarrow> (Inl (Errorf ''could not update ANF resource cache; %v'' [ArgE err]), w1)
      | (None, w1) \<Rightarrow>
          (case sdkVolumes d w1 of
             (Inl err, w2) \<Rightarrow> (Inl err, w2)
           | (Inr volumes, w2) \<Rightarrow> (Inr (List_loop (StoragePrefix (Config d)) volumes []), w2)))"

subsection \<open>Mount paths\<close>

definition constructVolumeAccessPath :: "VolumeConfig \<Rightarrow> FileSystem \<Rightarrow> string \<Rightarrow> string" where
  "constructVolumeAccessPath volConfig volume protocol =
     (if protocol = NFS then
        (if vc_ReadOnlyClone volConfig then
           ''/'' @ vc_CloneSourceVolumeInternal volConfig @ ''/'' @ ''.snapshot'' @ ''/''
             @ vc_CloneSourceSnapshot volConfig
         else ''/'' @ fs_CreationToken volume)
      else if protocol = SMB then
        (if vc_ReadOnlyClone volConfig then
           [CHR 0x5C] @ vc_CloneSourceVolumeInternal volConfig @ [CHR 0x5C] @ ''~snapshot''
             @ [CHR 0x5C] @ vc_CloneSourceSnapshot volConfig
         else [CHR 0x5C] @ fs_CreationToken volume)
      else [])"

subsection \<open>Waiting for a created volume\<close>

text \<open>
  \<open>waitForVolumeCreate\<close>. The \<open>switch\<close> on the last state seen has no \<open>return\<close> but
  in its first case; every other case falls out of the \<open>if\<close> to the final
  \<open>return nil\<close>.
\<close>

definition waitForVolumeCreate ::
  "'s NASStorageDriver \<Rightarrow> FileSystem \<Rightarrow> 's world \<Rightarrow> error option \<times> 's world" where
  "waitForVolumeCreate d volume w =
     (case sdkWaitForVolumeState d volume StateAvailable [StateError] (volumeCreateTimeout d) w of
        ((state, None), w1) \<Rightarrow> (None, w1)
      | ((state, Some err), w1) \<Rightarrow>
          if state = StateAccepted \<or> state = StateCreating then
            (Some (VolumeCreatingError ''%s'' [ArgE err]), w1)
          else if state = StateDeleting then
            (case sdkWaitForVolumeState d volume StateDeleted [StateError] (defaultTimeout d) w1 of
               ((_, Some errDelete), w2) \<Rightarrow>
                 (None, logc Error ''Volume could not be cleaned up and must be manually deleted.'' []
                          (Some errDelete) w2)
             | ((_, None), w2) \<Rightarrow> (None, w2))
          else if state = StateError then
            (case sdkDeleteVolume d volume w1 of
               (Some errDelete, w2) \<Rightarrow>
                 (None, logc Error ''Volume could not be cleaned up and must be manually deleted.'' []
                          (Some errDelete) w2)
             | (None, w2) \<Rightarrow> (None, logc Info ''Volume deleted.'' [] None w2))
          else
            (None, logc Error ''unexpected volume state %s found for volume'' [ArgS state] None w1))"

subsection \<open>Destroy\<close>

definition Destroy ::
  "'s NASStorageDriver \<Rightarrow> VolumeConfig \<Rightarrow> 's world \<Rightarrow> error option \<times> 's world" where
  "Destroy d volConfig w =
     (case sdkRefreshAzureResources d w of
        (Some err, w1) \<Rightarrow> (Some (Errorf ''could not update ANF resource cache; %v'' [ArgE err]), w1)
      | (None, w1) \<Rightarrow>
          (case sdkVolumeExists d volConfig w1 of
             (Inl err, w2) \<Rightarrow>
               (Some (Errorf ''error checking for existing volume %s; %v''
                        [ArgS (vc_InternalName volConfig), ArgE err]), w2)
           | (Inr None, w2) \<Rightarrow> (None, logc Warning ''Volume already deleted.'' [] None w2)
           | (Inr (Some extantVolume), w2) \<Rightarrow>
               if fs_ProvisioningState extantVolume = StateDeleting then
                 (case sdkWaitForVolumeState d extantVolume StateDeleted [StateError]
                         (volumeCreateTimeout d) w2 of
                    ((_, err), w3) \<Rightarrow> (err, w3))
               else
                 (case sdkDeleteVolume d extantVolume w2 of
                    (Some err, w3) \<Rightarrow> (Some err, w3)
                  | (None, w3) \<Rightarrow>
                      (case sdkWaitForVolumeState d extantVolume StateDeleted [StateError]
                              (defaultTimeout d) (logc Info ''Volume deleted.'' [] None w3) of
                         ((_, err), w4) \<Rightarrow> (err, w4)))))"

subsection \<open>Resize\<close>

text \<open>
  \<open>Resize\<close> returns its error and the volume configuration, which it updates in place.
  \<open>sizeBytes\<close> is a \<open>uint64\<close> and \<open>volume.QuotaInBytes\<close> an \<open>int64\<close>: the
  conversion \<open>int64(sizeBytes)\<close> keeps the 64 bits, so the two comparisons are equality
  of words and the signed order \<open><s\<close>; \<open>uint64(volume.QuotaInBytes)\<close> keeps them too.
\<close>

definition Resize ::
  "'s NASStorageDriver \<Rightarrow> VolumeConfig \<Rightarrow> 64 word \<Rightarrow> 's world
     \<Rightarrow> (error option \<times> VolumeConfig) \<times> 's world" where
  "Resize d volConfig sizeBytes w =
     (case sdkRefreshAzureResources d w of
        (Some err, w1) \<Rightarrow>
          ((Some (Errorf ''could not update ANF resource cache; %v'' [ArgE err]), volConfig), w1)
      | (None, w1) \<Rightarrow>
          (case sdkVolume d volConfig w1 of
             (Inl err, w2) \<Rightarrow>
               ((Some (Errorf ''could not find volume %s; %v''
                         [ArgS (vc_InternalName volConfig), ArgE err]), volConfig), w2)
           | (Inr volume, w2) \<Rightarrow>
               let volConfig1 =
                     (if vc_InternalID volConfig = [] then volConfig\<lparr>vc_InternalID := fs_ID volume\<rparr>
                      else volConfig)
               in
               if fs_ProvisioningState volume \<noteq> StateAvailable then
                 ((Some (Errorf ''volume %s state is %s, not %s''
                           [ArgS (vc_InternalName volConfig), ArgS (fs_ProvisioningState volume),
                            ArgS StateAvailable]), volConfig1), w2)
               else
                 let volConfig2 = volConfig1\<lparr>vc_Size := FormatUint (fs_QuotaInBytes volume)\<rparr> in
                 if sizeBytes = fs_QuotaInBytes volume then ((None, volConfig2), w2)
                 else if sizeBytes <s fs_QuotaInBytes volume then
                   ((Some (Errorf ''requested size %d is less than existing volume size %d''
                             [ArgU sizeBytes, ArgI (fs_QuotaInBytes volume)]), volConfig2), w2)
                 else
                   (case CheckVolumeSizeLimits (ext d) sizeBytes of
                      Some err \<Rightarrow> ((Some err, volConfig2), w2)
                    | None \<Rightarrow>
                        (case sdkResizeVolume d volume sizeBytes w2 of
                           (Some err, w3) \<Rightarrow> ((Some err, volConfig2), w3)
                         | (None, w3) \<Rightarrow>
                             ((None, volConfig2\<lparr>vc_Size := FormatUint sizeBytes\<rparr>), w3)))))"

subsection \<open>Create\<close>

text \<open>
  Modelled from the spec: \<open>utils.GetNFSVersionFromMountOptions\<close> is not among the
  sources. The spec: "the desired NFS version is parsed from mount options (default v3)
  and must be one of {3, 4, 4.1}". The scan of the option string is the parameter
  \<open>nfsVersionInMountOptions\<close>; the default and the list of supported versions are
  the arguments \<open>Create\<close> passes.
\<close>

definition GetNFSVersionFromMountOptions ::
  "(string \<Rightarrow> string option) \<Rightarrow> string \<Rightarrow> string \<Rightarrow> string list \<Rightarrow> error + string" where
  "GetNFSVersionFromMountOptions scan mountOptions defaultVersion supportedVersions =
     (let version = (case scan mountOptions of None \<Rightarrow> defaultVersion | Some v \<Rightarrow> v)
      in if version \<in> set supportedVersions then Inr version
         else Inl (Errorf ''unsupported NFS version: %s'' [ArgS version]))"

text \<open>
  Modelled from the spec: \<open>drivers.CheckMinVolumeSize\<close> is not among the sources. The
  spec: the size is "enforced against a generic minimum".
\<close>

definition CheckMinVolumeSize :: "64 word \<Rightarrow> 64 word \<Rightarrow> error option" where
  "CheckMinVolumeSize requestedSizeBytes minimumVolumeSizeBytes =
     (if requestedSizeBytes < minimumVolumeSizeBytes then
        Some (Errorf ''requested volume size (%d bytes) is too small; the minimum volume size is %d bytes''
                [ArgU requestedSizeBytes, ArgU minimumVolumeSizeBytes])
      else None)"

text \<open>
  \<open>Create\<close> is one long function; it is modelled in the order of its source, with
  its parts named: the checks up to the existence check (refresh to "If the volume
  already exists, bail out"), the size ("Determine volume size in bytes"), the
  attributes, with the protocol and export policy among them ("Determine protocol from
  mount options"), and the loop over the capacity pools ("Try each capacity pool until
  one works").
\<close>

definition Create_checks ::
  "'s NASStorageDriver \<Rightarrow> VolumeConfig \<Rightarrow> Pool option \<Rightarrow> 's world \<Rightarrow> (error + Pool) \<times> 's world" where
  "Create_checks d volConfig storagePool w =
     (let name = vc_InternalName volConfig in
      case sdkRefreshAzureResources d w of
        (Some err, w1) \<Rightarrow> (Inl (Errorf ''could not update ANF resource cache; %v'' [ArgE err]), w1)
      | (None, w1) \<Rightarrow>
          (case validateVolumeName (vc_Name volConfig) of
             Some err \<Rightarrow> (Inl err, w1)
           | None \<Rightarrow>
          (case validateCreationToken name of
             Some err \<Rightarrow> (Inl err, w1)
           | None \<Rightarrow>
          (case storagePool of
             None \<Rightarrow> (Inl (Errorf ''pool not specified'' []), w1)
           | Some sp \<Rightarrow>
          (case pools d (pool_Name sp) of
             None \<Rightarrow> (Inl (Errorf ''pool %s does not exist'' [ArgS (pool_Name sp)]), w1)
           | Some pool \<Rightarrow>
          (case (if attr (InternalAttributes pool) Kerberos \<noteq> [] then IsFeatureEnabled (ext d)
                 else None) of
             Some err \<Rightarrow>
               (Inl (Errorf ''feature %s requires ACP; %w'' [ArgS ''InflightEncryption'', ArgE err]),
                logc Error ''Failed to create volume.'' [] (Some err) w1)
           | None \<Rightarrow>
          (case sdkVolumeExists d volConfig w1 of
             (Inl err, w2) \<Rightarrow>
               (Inl (Errorf ''error checking for existing volume %s; %v'' [ArgS name, ArgE err]), w2)
           | (Inr (Some extantVolume), w2) \<Rightarrow>
               if fs_ProvisioningState extantVolume = StateCreating then
                 (Inl (VolumeCreatingError ''volume state is still %s, not %s''
                         [ArgS StateCreating, ArgS StateAvailable]), w2)
               else
                 (Inl (VolumeExistsError name), logc Warning ''Volume already exists.'' [] None w2)
           | (Inr None, w2) \<Rightarrow> (Inr pool, w2))))))))"

text \<open>\<open>strconv.ParseUint\<close> returns a value beside its error, and \<open>Create\<close> drops the
  error when it parses the pool's default size: 0 after a syntax error, the largest
  \<open>uint64\<close> after a range error. \<open>ConvertSizeToBytes\<close> is taken to return the empty
  string beside an error.\<close>

definition ParseUint_value :: "string \<Rightarrow> 64 word" where
  "ParseUint_value s =
     (if s = [] \<or> \<not> list_all isDigit s then 0
      else if 2 ^ 64 \<le> digitsValue s then - 1
      else of_nat (digitsValue s))"

definition Create_size ::
  "'s NASStorageDriver \<Rightarrow> VolumeConfig \<Rightarrow> Pool \<Rightarrow> 's world \<Rightarrow> (error + 64 word) \<times> 's world" where
  "Create_size d volConfig pool w =
     (case ConvertSizeToBytes (ext d) (vc_Size volConfig) of
        Inl err \<Rightarrow>
          (Inl (Errorf ''could not convert volume size %s; %v'' [ArgS (vc_Size volConfig), ArgE err]), w)
      | Inr requestedSize \<Rightarrow>
     (case ParseUint requestedSize of
        Inl err \<Rightarrow>
          (Inl (Errorf ''%v is an invalid volume size; %v'' [ArgS (vc_Size volConfig), ArgE err]), w)
      | Inr parsed \<Rightarrow>
          let sizeBytes =
                (if parsed = 0 then
                   ParseUint_value
                     (case ConvertSizeToBytes (ext d) (attr (InternalAttributes pool) Size) of
                        Inl _ \<Rightarrow> [] | Inr defaultSize \<Rightarrow> defaultSize)
                 else parsed)
          in
          (case CheckMinVolumeSize sizeBytes MinimumVolumeSizeBytes of
             Some err \<Rightarrow> (Inl err, w)
           | None \<Rightarrow>
               let w1 = (if sizeBytes < MinimumANFVolumeSizeBytes then
                           logc Warning
                             ''Requested size is too small. Setting volume size to the minimum allowable (100 GB).''
                             [] None w
                         else w);
                   sizeBytes1 = (if sizeBytes < MinimumANFVolumeSizeBytes
                                 then MinimumANFVolumeSizeBytes else sizeBytes)
               in
               (case CheckVolumeSizeLimits (ext d) sizeBytes1 of
                  Some err \<Rightarrow> (Inl err, w1)
                | None \<Rightarrow> (Inr sizeBytes1, w1)))))"

text \<open>The result of the protocol part: \<open>protocolTypes\<close>, \<open>exportPolicy\<close> and
  \<open>kerberosEnabled\<close>.\<close>

definition Create_protocol ::
  "'s NASStorageDriver \<Rightarrow> Pool \<Rightarrow> string \<Rightarrow> error + (string list \<times> ExportPolicy \<times> bool)" where
  "Create_protocol d pool mountOptions =
     (let kerberos = attr (InternalAttributes pool) Kerberos in
      if kerberos \<noteq> MountOptionKerberos5 \<and> kerberos \<noteq> MountOptionKerberos5I
         \<and> kerberos \<noteq> MountOptionKerberos5P \<and> kerberos \<noteq> [] then
        Inl (Errorf ''unsupported kerberos type: %s'' [ArgS kerberos])
      else
        let kerberosEnabled = (kerberos \<noteq> []) in
        if NASType (Config d) = SMB then Inr ([ProtocolTypeCIFS], zeroExportPolicy, kerberosEnabled)
        else
          (case GetNFSVersionFromMountOptions (nfsVersionInMountOptions (ext d)) mountOptions
                  nfsVersion3 supportedNFSVersions of
             Inl err \<Rightarrow> Inl err
           | Inr nfsVersion \<Rightarrow>
               let nfsV3Access = (nfsVersion = nfsVersion3);
                   nfsV41Access = (nfsVersion = nfsVersion4 \<or> nfsVersion = nfsVersion41);
                   protocolTypes =
                     (if nfsVersion = nfsVersion3 then [ProtocolTypeNFSv3]
                      else if nfsVersion = nfsVersion4 \<or> nfsVersion = nfsVersion41
                      then [ProtocolTypeNFSv41] else []);
                   apiExportRule =
                     \<lparr> AllowedClients = attr (InternalAttributes pool) ExportRuleAttr,
                       Cifs = False,
                       Nfsv3 = nfsV3Access,
                       Nfsv41 = nfsV41Access,
                       RuleIndex = 1,
                       UnixReadOnly = False,
                       UnixReadWrite = True,
                       Kerberos5ReadWrite = False,
                       Kerberos5IReadWrite = False,
                       Kerberos5PReadWrite = False \<rparr>;
                   protocolTypes1 = (if kerberosEnabled then [ProtocolTypeNFSv41] else protocolTypes);
                   apiExportRule1 =
                     (if kerberosEnabled then
                        let r = apiExportRule\<lparr> Nfsv3 := False, Nfsv41 := True,
                                  UnixReadOnly := False, UnixReadWrite := False \<rparr>
                        in if kerberos = MountOptionKerberos5 then r\<lparr>Kerberos5ReadWrite := True\<rparr>
                           else if kerberos = MountOptionKerberos5I then r\<lparr>Kerberos5IReadWrite := True\<rparr>
                           else if kerberos = MountOptionKerberos5P then r\<lparr>Kerberos5PReadWrite := True\<rparr>
                           else r
                      else apiExportRule)
               in Inr (protocolTypes1, \<lparr> Rules = [apiExportRule1] \<rparr>, kerberosEnabled)))"

text \<open>The local variables of \<open>Create\<close> that the loop over the capacity pools reads,
  but for \<open>subnet\<close>, which is passed beside them.\<close>

record CreateLocals =
  l_name :: string
  l_sizeBytes :: "64 word"
  l_serviceLevel :: string
  l_snapshotDirBool :: bool
  l_unixPermissions :: string
  l_protocolTypes :: "string list"
  l_exportPolicy :: ExportPolicy
  l_kerberosEnabled :: bool
  l_labels :: "string \<rightharpoonup> string"
  l_networkFeatures :: string

definition Create_request ::
  "'s NASStorageDriver \<Rightarrow> VolumeConfig \<Rightarrow> CreateLocals \<Rightarrow> Subnet \<Rightarrow> CapacityPool
     \<Rightarrow> FilesystemCreateRequest" where
  "Create_request d volConfig l subnet cPool =
     \<lparr> req_ResourceGroup = cp_ResourceGroup cPool,
       req_NetAppAccount = cp_NetAppAccount cPool,
       req_CapacityPool = cp_Name cPool,
       req_Name = vc_Name volConfig,
       req_SubnetID = subnet_ID subnet,
       req_CreationToken = l_name l,
       req_Labels = l_labels l,
       req_ProtocolTypes = l_protocolTypes l,
       req_QuotaInBytes = l_sizeBytes l,
       req_SnapshotDirectory = l_snapshotDirBool l,
       req_NetworkFeatures = l_networkFeatures l,
       req_KerberosEnabled = l_kerberosEnabled l,
       req_UnixPermissions = (if NASType (Config d) = NFS then l_unixPermissions l else []),
       req_ExportPolicy = (if NASType (Config d) = NFS then l_exportPolicy l else zeroExportPolicy),
       req_SnapshotID = [] \<rparr>"

text \<open>
  The message of a failed attempt, \<open>errMessage := fmt.Sprintf("ANF pool %s; error
  creating volume %s: %v", cPool.Name, name, createErr)\<close>: a text, in which \<open>%s\<close>
  is replaced by the string and \<open>%v\<close> by the text of the error. The source logs this
  text with \<open>Logc(ctx).Error(errMessage)\<close> and makes it an error with
  \<open>fmt.Errorf(errMessage)\<close>: the text is the format string of that error, and there
  are no arguments.
\<close>

definition createErrMessage :: "(error \<Rightarrow> string) \<Rightarrow> CapacityPool \<Rightarrow> string \<Rightarrow> error \<Rightarrow> string" where
  "createErrMessage errText cPool name createErr =
     ''ANF pool '' @ cp_Name cPool @ ''; error creating volume '' @ name @ '': '' @ errText createErr"

fun Create_loop ::
  "'s NASStorageDriver \<Rightarrow> VolumeConfig \<Rightarrow> CreateLocals \<Rightarrow> Subnet \<Rightarrow> CapacityPool list
     \<Rightarrow> error option \<Rightarrow> 's world \<Rightarrow> (error option \<times> VolumeConfig) \<times> 's world" where
  "Create_loop d volConfig l subnet [] createErrors w = ((createErrors, volConfig), w)"
| "Create_loop d volConfig l subnet (cPool # rest) createErrors w =
     (case sdkCreateVolume d (Create_request d volConfig l subnet cPool) w of
        (Inl createErr, w1) \<Rightarrow>
          (let errMessage = createErrMessage (errorString (ext d)) cPool (l_name l) createErr
           in Create_loop d volConfig l subnet rest
                (multierr_Combine [createErrors, Some (Errorf errMessage [])])
                (logc Error errMessage [] None w1))
      | (Inr volume, w1) \<Rightarrow>
          (case waitForVolumeCreate d volume w1 of
             (err, w2) \<Rightarrow> ((err, volConfig\<lparr>vc_InternalID := fs_ID volume\<rparr>), w2)))"

text \<open>
  The attributes of the new volume, from "Take service level from volume config first"
  to "Update config to reflect values used to create volume": an error, or the updated
  volume configuration and the local variables. No backend call is made here but the
  pure \<open>HasFeature\<close>.
\<close>

definition Create_attributes ::
  "'s NASStorageDriver \<Rightarrow> VolumeConfig \<Rightarrow> Pool \<Rightarrow> 64 word \<Rightarrow> error + (VolumeConfig \<times> CreateLocals)" where
  "Create_attributes d volConfig pool sizeBytes =
     (let serviceLevel =
            (if Title (ext d) (vc_ServiceLevel volConfig) = []
             then attr (InternalAttributes pool) ServiceLevel
             else Title (ext d) (vc_ServiceLevel volConfig));
          snapshotDir =
            (if vc_SnapshotDir volConfig = [] then attr (InternalAttributes pool) SnapshotDir
             else vc_SnapshotDir volConfig)
      in
      case ParseBool snapshotDir of
        Inl err \<Rightarrow> Inl (Errorf ''invalid value for snapshotDir; %v'' [ArgE err])
      | Inr snapshotDirBool \<Rightarrow>
          let unixPermissions0 =
                (if vc_UnixPermissions volConfig = []
                 then attr (InternalAttributes pool) UnixPermissions
                 else vc_UnixPermissions volConfig);
              unixPermissions =
                (if unixPermissions0 = [] \<and> HasFeature (SDK d) FeatureUnixPermissions
                 then ''0777'' else unixPermissions0);
              mountOptions =
                (if vc_MountOptions volConfig \<noteq> [] then vc_MountOptions volConfig
                 else NfsMountOptions (Config d))
          in
          (case Create_protocol d pool mountOptions of
             Inl err \<Rightarrow> Inl err
           | Inr (protocolTypes, exportPolicy, kerberosEnabled) \<Rightarrow>
               (case GetLabelsJSON pool of
                  Inl err \<Rightarrow> Inl err
                | Inr poolLabels \<Rightarrow>
                    Inr (volConfig\<lparr> vc_Size := FormatUint sizeBytes,
                                     vc_ServiceLevel := serviceLevel,
                                     vc_SnapshotDir := snapshotDir,
                                     vc_UnixPermissions := unixPermissions \<rparr>,
                         \<lparr> l_name = vc_InternalName volConfig,
                           l_sizeBytes = sizeBytes,
                           l_serviceLevel = serviceLevel,
                           l_snapshotDirBool = snapshotDirBool,
                           l_unixPermissions = unixPermissions,
                           l_protocolTypes = protocolTypes,
                           l_exportPolicy = exportPolicy,
                           l_kerberosEnabled = kerberosEnabled,
                           l_labels = [TridentLabelTag \<mapsto> telemetryLabels (ext d),
                                       ProvisioningLabelTag \<mapsto> poolLabels],
                           l_networkFeatures = attr (InternalAttributes pool) NetworkFeatures \<rparr>))))"

text \<open>Everything \<open>Create\<close> does before the loop: an error to return (with the volume
  configuration as it then is), or the updated configuration, the local variables, the
  subnet and the capacity pools to try, which are not empty.\<close>

definition Create_prepare ::
  "'s NASStorageDriver \<Rightarrow> VolumeConfig \<Rightarrow> Pool option \<Rightarrow> 's world
     \<Rightarrow> ((error \<times> VolumeConfig) + (VolumeConfig \<times> CreateLocals \<times> Subnet \<times> CapacityPool list))
        \<times> 's world" where
  "Create_prepare d volConfig storagePool w =
     (case Create_checks d volConfig storagePool w of
        (Inl err, w1) \<Rightarrow> (Inl (err, volConfig), w1)
      | (Inr pool, w1) \<Rightarrow>
     (case Create_size d volConfig pool w1 of
        (Inl err, w2) \<Rightarrow> (Inl (err, volConfig), w2)
      | (Inr sizeBytes, w2) \<Rightarrow>
     (case Create_attributes d volConfig pool sizeBytes of
        Inl err \<Rightarrow> (Inl (err, volConfig), w2)
      | Inr (volConfig1, l) \<Rightarrow>
     (case sdkRandomSubnetForStoragePool d pool w2 of
        (None, w3) \<Rightarrow>
          (Inl (Errorf ''no subnets found for storage pool %s'' [ArgS (pool_Name pool)], volConfig1), w3)
      | (Some subnet, w3) \<Rightarrow>
     (case sdkCapacityPoolsForStoragePool d pool (l_serviceLevel l) w3 of
        (cPools, w4) \<Rightarrow>
          if length cPools = 0 then
            (Inl (Errorf ''no capacity pools found for storage pool %s'' [ArgS (pool_Name pool)],
                  volConfig1), w4)
          else (Inr (volConfig1, l, subnet, cPools), w4))))))"

text \<open>\<open>Create\<close>: the preparation, then the loop, entered with
  \<open>createErrors := multierr.Combine()\<close>.\<close>

definition Create ::
  "'s NASStorageDriver \<Rightarrow> VolumeConfig \<Rightarrow> Pool option \<Rightarrow> 's world
     \<Rightarrow> (error option \<times> VolumeConfig) \<times> 's world" where
  "Create d volConfig storagePool w =
     (case Create_prepare d volConfig storagePool w of
        (Inl (err, volConfig1), w1) \<Rightarrow> ((Some err, volConfig1), w1)
      | (Inr (volConfig1, l, subnet, cPools), w1) \<Rightarrow>
          Create_loop d volConfig1 l subnet cPools (multierr_Combine []) w1)"

subsection \<open>CreateClone\<close>

text \<open>The source snapshot of a clone: the one named, which must be Available, or a new
  one named after the current time ("if snapshot != "" ... else ...").\<close>

definition CreateClone_snapshot ::
  "'s NASStorageDriver \<Rightarrow> FileSystem \<Rightarrow> string \<Rightarrow> 's world \<Rightarrow> (error + Snapshot) \<times> 's world" where
  "CreateClone_snapshot d sourceVolume snapshot w =
     (if snapshot \<noteq> [] then
        (case sdkSnapshotForVolume d sourceVolume snapshot w of
           (Inl err, w1) \<Rightarrow> (Inl (Errorf ''could not find source snapshot; %v'' [ArgE err]), w1)
         | (Inr sourceSnapshot, w1) \<Rightarrow>
             if snap_ProvisioningState sourceSnapshot \<noteq> StateAvailable then
               (Inl (Errorf ''source snapshot state is %s, it must be %s''
                       [ArgS (snap_ProvisioningState sourceSnapshot), ArgS StateAvailable]), w1)
             else (Inr sourceSnapshot, w1))
      else
        (let snapName = snapshotNameNow (ext d) in
         case sdkCreateSnapshot d sourceVolume snapName w of
           (Inl err, w1) \<Rightarrow> (Inl (Errorf ''could not create source snapshot; %v'' [ArgE err]), w1)
         | (Inr created, w1) \<Rightarrow>
             (case sdkWaitForSnapshotState d created sourceVolume StateAvailable [StateError]
                     (SnapshotTimeout (ext d)) w1 of
                (Some err, w2) \<Rightarrow> (Inl err, w2)
              | (None, w2) \<Rightarrow>
                  (case sdkSnapshotForVolume d sourceVolume snapName w2 of
                     (Inl err, w3) \<Rightarrow> (Inl (Errorf ''could not retrieve newly-created snapshot'' []), w3)
                   | (Inr sourceSnapshot, w3) \<Rightarrow> (Inr sourceSnapshot, w3)))))"

text \<open>
  \<open>CreateClone\<close>. \<open>storagePoolUnset\<close> is \<open>storage.IsStoragePoolUnset(storagePool)\<close>.
  The result carries the clone's configuration, whose \<open>InternalID\<close> the function sets.
\<close>

definition CreateClone ::
  "'s NASStorageDriver \<Rightarrow> VolumeConfig \<Rightarrow> VolumeConfig \<Rightarrow> bool \<Rightarrow> 's world
     \<Rightarrow> (error option \<times> VolumeConfig) \<times> 's world" where
  "CreateClone d sourceVolConfig cloneVolConfig storagePoolUnset w =
     (let name = vc_InternalName cloneVolConfig;
          snapshot = vc_CloneSourceSnapshotInternal cloneVolConfig in
      case sdkRefreshAzureResources d w of
        (Some err, w1) \<Rightarrow>
          ((Some (Errorf ''could not update ANF resource cache; %v'' [ArgE err]), cloneVolConfig), w1)
      | (None, w1) \<Rightarrow>
     (case validateVolumeName (vc_Name cloneVolConfig) of
        Some err \<Rightarrow> ((Some err, cloneVolConfig), w1)
      | None \<Rightarrow>
     (case validateCreationToken name of
        Some err \<Rightarrow> ((Some err, cloneVolConfig), w1)
      | None \<Rightarrow>
     (case sdkVolume d sourceVolConfig w1 of
        (Inl err, w2) \<Rightarrow>
          ((Some (Errorf ''could not find source volume; %v'' [ArgE err]), cloneVolConfig), w2)
      | (Inr sourceVolume, w2) \<Rightarrow>
     (case (if fs_KerberosEnabled sourceVolume then IsFeatureEnabled (ext d) else None) of
        Some err \<Rightarrow>
          ((Some (Errorf ''feature %s requires ACP; %w'' [ArgS ''InflightEncryption'', ArgE err]),
            cloneVolConfig),
           logc Error ''Failed to clone volume.'' [] (Some err) w2)
      | None \<Rightarrow>
          let cloneID = CreateVolumeID (ext d) (SubscriptionID (Config d))
                          (fs_ResourceGroup sourceVolume) (fs_NetAppAccount sourceVolume)
                          (fs_CapacityPool sourceVolume) (vc_Name cloneVolConfig)
          in
     (case sdkVolumeExistsByID d cloneID w2 of
        (Inl err, w3) \<Rightarrow>
          ((Some (Errorf ''error checking for existing volume %s; %v'' [ArgS name, ArgE err]),
            cloneVolConfig), w3)
      | (Inr (Some extantVolume), w3) \<Rightarrow>
          if fs_ProvisioningState extantVolume = StateCreating then
            ((Some (VolumeCreatingError ''volume state is still %s, not %s''
                      [ArgS StateCreating, ArgS StateAvailable]), cloneVolConfig), w3)
          else ((Some (VolumeExistsError name), cloneVolConfig), w3)
      | (Inr None, w3) \<Rightarrow>
     (case CreateClone_snapshot d sourceVolume snapshot w3 of
        (Inl err, w4) \<Rightarrow> ((Some err, cloneVolConfig), w4)
      | (Inr sourceSnapshot, w4) \<Rightarrow>
          if vc_ReadOnlyClone cloneVolConfig then
            (if \<not> fs_SnapshotDirectory sourceVolume then
               ((Some (Errorf ''snapshot directory access is set to %t and readOnly clone is set to %t ''
                         [ArgB (fs_SnapshotDirectory sourceVolume),
                          ArgB (vc_ReadOnlyClone cloneVolConfig)]), cloneVolConfig), w4)
             else ((None, cloneVolConfig), w4))
          else
     (case (if storagePoolUnset then baseLabelsJSON (ext d) else Inr []) of
        Inl err \<Rightarrow> ((Some err, cloneVolConfig), w4)
      | Inr poolLabels \<Rightarrow>
          let labels0 = (fs_Labels sourceVolume)(TridentLabelTag \<mapsto> telemetryLabels (ext d));
              labels = (if storagePoolUnset then labels0(ProvisioningLabelTag \<mapsto> poolLabels)
                        else labels0);
              createRequest =
                \<lparr> req_ResourceGroup = fs_ResourceGroup sourceVolume,
                  req_NetAppAccount = fs_NetAppAccount sourceVolume,
                  req_CapacityPool = fs_CapacityPool sourceVolume,
                  req_Name = vc_Name cloneVolConfig,
                  req_SubnetID = fs_SubnetID sourceVolume,
                  req_CreationToken = name,
                  req_Labels = labels,
                  req_ProtocolTypes = fs_ProtocolTypes sourceVolume,
                  req_QuotaInBytes = fs_QuotaInBytes sourceVolume,
                  req_SnapshotDirectory = fs_SnapshotDirectory sourceVolume,
                  req_NetworkFeatures = fs_NetworkFeatures sourceVolume,
                  req_KerberosEnabled =
                    (if NASType (Config d) = NFS then fs_KerberosEnabled sourceVolume else False),
                  req_UnixPermissions =
                    (if NASType (Config d) = NFS then fs_UnixPermissions sourceVolume else []),
                  req_ExportPolicy =
                    (if NASType (Config d) = NFS then fs_ExportPolicy sourceVolume
                     else zeroExportPolicy),
                  req_SnapshotID = snap_SnapshotID sourceSnapshot \<rparr>
          in
     (case sdkCreateVolume d createRequest w4 of
        (Inl err, w5) \<Rightarrow> ((Some err, cloneVolConfig), w5)
      | (Inr clone, w5) \<Rightarrow>
          (case waitForVolumeCreate d clone w5 of
             (err, w6) \<Rightarrow> ((err, cloneVolConfig\<lparr>vc_InternalID := fs_ID clone\<rparr>), w6)))))))))))"

section \<open>Observations on a run\<close>

text \<open>The create, delete and resize requests among a list of backend calls.\<close>

definition createRequests :: "call list \<Rightarrow> FilesystemCreateRequest list" where
  "createRequests cs =
     List.map_filter (\<lambda>c. case c of CallCreateVolume r \<Rightarrow> Some r | _ \<Rightarrow> None) cs"

definition deleteRequests :: "call list \<Rightarrow> FileSystem list" where
  "deleteRequests cs =
     List.map_filter (\<lambda>c. case c of CallDeleteVolume v \<Rightarrow> Some v | _ \<Rightarrow> None) cs"

definition resizeRequests :: "call list \<Rightarrow> (FileSystem \<times> 64 word) list" where
  "resizeRequests cs =
     List.map_filter (\<lambda>c. case c of CallResizeVolume v n \<Rightarrow> Some (v, n) | _ \<Rightarrow> None) cs"

text \<open>A volume that \<open>List\<close> reports: not being deleted, not deleted, not failed, and with
  the storage prefix in front of its creation token.\<close>

definition listed :: "string \<Rightarrow> FileSystem \<Rightarrow> bool" where
  "listed prefix v =
     (fs_ProvisioningState v \<noteq> StateDeleting \<and> fs_ProvisioningState v \<noteq> StateDeleted
      \<and> fs_ProvisioningState v \<noteq> StateError \<and> HasPrefix (fs_CreationToken v) prefix)"

text \<open>
  A run of create calls that all fail: the candidates are tried in the order of the
  list, each on the world its predecessor left (with the failure logged), and the
  result is the list of their errors, in that order, with the last world. \<open>None\<close> as
  soon as one of them succeeds.
\<close>

fun failedAttempts ::
  "'s NASStorageDriver \<Rightarrow> VolumeConfig \<Rightarrow> CreateLocals \<Rightarrow> Subnet \<Rightarrow> CapacityPool list \<Rightarrow> 's world
     \<Rightarrow> (error list \<times> 's world) option" where
  "failedAttempts d volConfig l subnet [] w = Some ([], w)"
| "failedAttempts d volConfig l subnet (cPool # rest) w =
     (case sdkCreateVolume d (Create_request d volConfig l subnet cPool) w of
        (Inr volume, w1) \<Rightarrow> None
      | (Inl createErr, w1) \<Rightarrow>
          (case failedAttempts d volConfig l subnet rest
                  (logc Error (createErrMessage (errorString (ext d)) cPool (l_name l) createErr)
                     [] None w1) of
             None \<Rightarrow> None
           | Some (errs, w2) \<Rightarrow> Some (createErr # errs, w2)))"

text \<open>The combined error of the failures \<open>errs\<close> of the candidates \<open>cPools\<close>: nothing
  for none, the one error for one, the aggregate of all of them, in order, for more.\<close>

definition combinedError ::
  "(error \<Rightarrow> string) \<Rightarrow> string \<Rightarrow> CapacityPool list \<Rightarrow> error list \<Rightarrow> error option" where
  "combinedError errText name cPools errs =
     (case map2 (\<lambda>cPool createErr. Errorf (createErrMessage errText cPool name createErr) [])
             cPools errs of
        [] \<Rightarrow> None
      | [m] \<Rightarrow> Some m
      | ms \<Rightarrow> Some (MultiError ms))"

section \<open>A small backend to run the driver on\<close>

text \<open>
  A backend whose state is the list of its volumes. A create request fails on a
  capacity pool of the account \<open>exhausted\<close>; a volume named \<open>bad\<close> is created in
  the Error state and cannot be deleted; a wait reaches the desired state when its
  timeout is at least 60, and reports an error state at once; the snapshot \<open>gone\<close> is
  not found.
\<close>

definition toyVolume :: "string \<Rightarrow> string \<Rightarrow> string \<Rightarrow> FileSystem" where
  "toyVolume name token st =
     \<lparr> fs_ID = ''/volumes/'' @ name,
       fs_ResourceGroup = ''rg'',
       fs_NetAppAccount = ''account'',
       fs_CapacityPool = ''cp'',
       fs_Name = name,
       fs_CreationToken = token,
       fs_ProvisioningState = st,
       fs_QuotaInBytes = 107374182400,
       fs_SnapshotDirectory = True,
       fs_KerberosEnabled = False,
       fs_ProtocolTypes = [ProtocolTypeNFSv3],
       fs_ExportPolicy = zeroExportPolicy,
       fs_UnixPermissions = ''0755'',
       fs_NetworkFeatures = [],
       fs_SubnetID = ''subnet-1'',
       fs_Labels = Map.empty \<rparr>"

definition toyFind :: "string \<Rightarrow> FileSystem list \<Rightarrow> FileSystem option" where
  "toyFind token s = find (\<lambda>v. fs_CreationToken v = token) s"

definition toySetState :: "string \<Rightarrow> string \<Rightarrow> FileSystem list \<Rightarrow> FileSystem list" where
  "toySetState token st s =
     map (\<lambda>v. if fs_CreationToken v = token then v\<lparr>fs_ProvisioningState := st\<rparr> else v) s"

text \<open>The errors of the small backend for a capacity pool without space and for a wait
  that timed out, and the text of an error: the errors of the small backend have no
  arguments, so that their text is their format string (the text given to the other
  errors is not used).\<close>

definition toyNoSpace :: "string \<Rightarrow> error" where
  "toyNoSpace cpName = Errorf (''capacity pool '' @ cpName @ '' has no space left'') []"

fun toyErrorString :: "error \<Rightarrow> string" where
  "toyErrorString (Errorf f args) = f"
| "toyErrorString (VolumeCreatingError f args) = f"
| "toyErrorString (VolumeExistsError name) = ''volume '' @ name @ '' already exists''"
| "toyErrorString (MultiError es) = ''several errors''"

definition toyTimeout :: error where
  "toyTimeout = Errorf ''timed out waiting for the volume'' []"

definition toyWait ::
  "FileSystem \<Rightarrow> string \<Rightarrow> string list \<Rightarrow> duration \<Rightarrow> FileSystem list
     \<Rightarrow> (string \<times> error option) \<times> FileSystem list" where
  "toyWait v desired errStates t s =
     (case toyFind (fs_CreationToken v) s of
        None \<Rightarrow>
          if desired = StateDeleted then ((StateDeleted, None), s)
          else (([], Some (Errorf ''volume not found'' [])), s)
      | Some x \<Rightarrow>
          if fs_ProvisioningState x = desired then ((desired, None), s)
          else if fs_ProvisioningState x \<in> set errStates then
            ((fs_ProvisioningState x, Some (Errorf ''volume is in an error state'' [])), s)
          else if t < 60 then
            ((fs_ProvisioningState x, Some toyTimeout), s)
          else if desired = StateDeleted then
            ((desired, None), filter (\<lambda>y. fs_CreationToken y \<noteq> fs_CreationToken v) s)
          else ((desired, None), toySetState (fs_CreationToken v) desired s))"

definition toyCreate ::
  "FilesystemCreateRequest \<Rightarrow> FileSystem list \<Rightarrow> (error + FileSystem) \<times> FileSystem list" where
  "toyCreate r s =
     (if req_NetAppAccount r = ''exhausted'' then
        (Inl (toyNoSpace (req_CapacityPool r)), s)
      else
        let v = (toyVolume (req_Name r) (req_CreationToken r)
                   (if req_Name r = ''bad'' then StateError else StateCreating))
                  \<lparr> fs_CapacityPool := req_CapacityPool r,
                    fs_QuotaInBytes := req_QuotaInBytes r,
                    fs_ProtocolTypes := req_ProtocolTypes r,
                    fs_ExportPolicy := req_ExportPolicy r \<rparr>
        in (Inr v, s @ [v]))"

definition toyP1 :: CapacityPool where
  "toyP1 = \<lparr> cp_Name = ''p1'', cp_ResourceGroup = ''rg'', cp_NetAppAccount = ''exhausted'' \<rparr>"

definition toyP2 :: CapacityPool where
  "toyP2 = \<lparr> cp_Name = ''p2'', cp_ResourceGroup = ''rg'', cp_NetAppAccount = ''account'' \<rparr>"

definition toyP3 :: CapacityPool where
  "toyP3 = \<lparr> cp_Name = ''p3'', cp_ResourceGroup = ''rg'', cp_NetAppAccount = ''account'' \<rparr>"

definition toyU1 :: CapacityPool where
  "toyU1 = \<lparr> cp_Name = ''u1'', cp_ResourceGroup = ''rg'', cp_NetAppAccount = ''exhausted'' \<rparr>"

definition toyU2 :: CapacityPool where
  "toyU2 = \<lparr> cp_Name = ''u2'', cp_ResourceGroup = ''rg'', cp_NetAppAccount = ''exhausted'' \<rparr>"

definition toyCapacityPools :: "string \<Rightarrow> CapacityPool list" where
  "toyCapacityPools serviceLevel =
     (if serviceLevel = ''Ultra'' then [toyU1, toyU2] else [toyP1, toyP2, toyP3])"

definition toySDK :: "(FileSystem list) Azure" where
  "toySDK =
     \<lparr> RefreshAzureResources = (\<lambda>s. (None, s)),
       VolumeExists = (\<lambda>vc s. (Inr (toyFind (vc_InternalName vc) s), s)),
       VolumeExistsByID = (\<lambda>i s. (Inr (find (\<lambda>v. fs_ID v = i) s), s)),
       Volume = (\<lambda>vc s.
         (case toyFind (vc_InternalName vc) s of
            None \<Rightarrow> Inl (Errorf ''volume not found'' []) | Some v \<Rightarrow> Inr v, s)),
       Volumes = (\<lambda>s. (Inr s, s)),
       CreateVolume = toyCreate,
       DeleteVolume = (\<lambda>v s.
         if fs_Name v = ''bad'' then (Some (Errorf ''volume is locked'' []), s)
         else (None, toySetState (fs_CreationToken v) StateDeleting s)),
       ResizeVolume = (\<lambda>v n s.
         (None, map (\<lambda>x. if fs_CreationToken x = fs_CreationToken v
                            then x\<lparr>fs_QuotaInBytes := n\<rparr> else x) s)),
       WaitForVolumeState = toyWait,
       HasFeature = (\<lambda>_. False),
       RandomSubnetForStoragePool = (\<lambda>p s. (Some \<lparr> subnet_ID = ''subnet-1'' \<rparr>, s)),
       CapacityPoolsForStoragePool = (\<lambda>p serviceLevel s. (toyCapacityPools serviceLevel, s)),
       SnapshotForVolume = (\<lambda>v n s.
         (if n = ''gone'' then Inl (Errorf ''snapshot not found'' [])
          else Inr \<lparr> snap_Name = n, snap_SnapshotID = ''/snapshots/'' @ n,
                     snap_ProvisioningState = StateAvailable \<rparr>, s)),
       CreateSnapshot = (\<lambda>v n s.
         (Inr \<lparr> snap_Name = n, snap_SnapshotID = ''/snapshots/'' @ n,
                 snap_ProvisioningState = StateCreating \<rparr>, s)),
       WaitForSnapshotState = (\<lambda>sn v desired errStates t s. (None, s)) \<rparr>"

text \<open>The externals: sizes are written in bytes, the size limit is 1 TiB, the NFS version
  is read from the two option strings used below.\<close>

definition toyExt :: externals where
  "toyExt =
     \<lparr> ConvertSizeToBytes = (\<lambda>s. Inr s),
       CheckVolumeSizeLimits = (\<lambda>n.
         if 1099511627776 < n then Some (Errorf ''requested size is above the limit'' []) else None),
       Title = (\<lambda>s. s),
       nfsVersionInMountOptions = (\<lambda>s.
         if s = ''nfsvers=3'' then Some ''3''
         else if s = ''nfsvers=4.1'' then Some ''4.1''
         else if s = ''nfsvers=4'' then Some ''4''
         else if s = ''nfsvers=2'' then Some ''2''
         else None),
       IsFeatureEnabled = None,
       telemetryLabels = ''{}'',
       snapshotNameNow = ''snapshot-20240101T000000Z'',
       CreateVolumeID = (\<lambda>sub rg acct cp name. ''/volumes/'' @ name),
       baseLabelsJSON = Inr ''{}'',
       DockerCreateTimeout = 180,
       VolumeCreateTimeout = 10,
       DockerDefaultTimeout = 120,
       DefaultTimeout = 30,
       SnapshotTimeout = 240,
       errorString = toyErrorString \<rparr>"

definition toyPool :: "string \<Rightarrow> Pool" where
  "toyPool kerberos =
     \<lparr> pool_Name = ''pool'',
       InternalAttributes =
         [Size \<mapsto> ''107374182400'', SnapshotDir \<mapsto> ''false'', ExportRuleAttr \<mapsto> ''0.0.0.0/0'',
          ServiceLevel \<mapsto> ''Premium'', Kerberos \<mapsto> kerberos],
       GetLabelsJSON = Inr ''{}'' \<rparr>"

definition toyDriver :: "string \<Rightarrow> string \<Rightarrow> (FileSystem list) NASStorageDriver" where
  "toyDriver nasType kerberos =
     \<lparr> Config = \<lparr> NASType = nasType, NfsMountOptions = ''nfsvers=3'', StoragePrefix = ''trident-'',
                  SubscriptionID = ''sub'', DriverContext = ''csi'', LimitVolumeSize = [] \<rparr>,
       SDK = toySDK,
       pools = [''pool'' \<mapsto> toyPool kerberos],
       volumeCreateTimeout = 10,
       ext = toyExt \<rparr>"

definition toyWorld :: "FileSystem list \<Rightarrow> (FileSystem list) world" where
  "toyWorld s = \<lparr> backend = s, calls = [], logs = [] \<rparr>"

definition toyConfig :: "string \<Rightarrow> string \<Rightarrow> string \<Rightarrow> VolumeConfig" where
  "toyConfig name sz mountOptions =
     \<lparr> vc_Name = name,
       vc_InternalName = ''trident-'' @ name,
       vc_InternalID = [],
       vc_Size = sz,
       vc_ServiceLevel = [],
       vc_SnapshotDir = [],
       vc_UnixPermissions = [],
       vc_MountOptions = mountOptions,
       vc_ReadOnlyClone = False,
       vc_CloneSourceVolumeInternal = [],
       vc_CloneSourceSnapshot = [],
       vc_CloneSourceSnapshotInternal = [] \<rparr>"

definition toyVolumes :: "FileSystem list" where
  "toyVolumes =
     [toyVolume ''a'' ''trident-a'' StateAvailable,
      toyVolume ''b'' ''trident-b'' StateDeleting,
      toyVolume ''c'' ''other-c'' StateAvailable,
      toyVolume ''d'' ''trident-d'' StateCreating,
      toyVolume ''e'' ''trident-e'' StateError,
      toyVolume ''f'' ''trident-f'' StateDeleted]"

definition toyConfigSL :: "string \<Rightarrow> string \<Rightarrow> string \<Rightarrow> string \<Rightarrow> VolumeConfig" where
  "toyConfigSL name sz mountOptions serviceLevel =
     (toyConfig name sz mountOptions)\<lparr> vc_ServiceLevel := serviceLevel \<rparr>"

definition toyBad :: FileSystem where
  "toyBad = toyVolume ''bad'' ''trident-bad'' StateError"

definition toyClone :: VolumeConfig where
  "toyClone = (toyConfig ''clone1'' [] [])
     \<lparr> vc_ReadOnlyClone := True, vc_CloneSourceVolumeInternal := ''trident-a'',
       vc_CloneSourceSnapshot := ''snap1'', vc_CloneSourceSnapshotInternal := ''snap1'' \<rparr>"

definition toyCloneGone :: VolumeConfig where
  "toyCloneGone =
     toyClone\<lparr> vc_CloneSourceSnapshot := ''gone'', vc_CloneSourceSnapshotInternal := ''gone'' \<rparr>"

section \<open>Basic facts\<close>

lemmas state_defs = StateAccepted_def StateCreating_def StateAvailable_def StateError_def
  StateDeleting_def StateDeleted_def StateMoving_def StateReverting_def

lemmas sdk_defs = sdkRefreshAzureResources_def sdkVolumeExists_def sdkVolumeExistsByID_def
  sdkVolume_def sdkVolumes_def sdkCreateVolume_def sdkDeleteVolume_def sdkResizeVolume_def
  sdkWaitForVolumeState_def sdkRandomSubnetForStoragePool_def sdkCapacityPoolsForStoragePool_def
  sdkSnapshotForVolume_def sdkCreateSnapshot_def sdkWaitForSnapshotState_def

lemmas toy_defs = toyDriver_def toySDK_def toyWorld_def toyExt_def toyConfig_def toyVolume_def
  toyFind_def toySetState_def toyPool_def

lemmas toy_data = toyConfig_def toyVolume_def toyFind_def toySetState_def toyVolumes_def

lemma createRequests_append [simp]:
  "createRequests (xs @ ys) = createRequests xs @ createRequests ys"
  by (simp add: createRequests_def map_filter_def)

lemma deleteRequests_append [simp]:
  "deleteRequests (xs @ ys) = deleteRequests xs @ deleteRequests ys"
  by (simp add: deleteRequests_def map_filter_def)

lemma resizeRequests_append [simp]:
  "resizeRequests (xs @ ys) = resizeRequests xs @ resizeRequests ys"
  by (simp add: resizeRequests_def map_filter_def)

lemma resizeRequests_simps [simp]:
  "resizeRequests [] = []"
  "resizeRequests (c # cs) =
     (case c of CallResizeVolume v n \<Rightarrow> [(v, n)] | _ \<Rightarrow> []) @ resizeRequests cs"
  by (simp_all add: resizeRequests_def map_filter_def split: call.splits)

lemma createRequests_simps [simp]:
  "createRequests [] = []"
  "createRequests (c # cs) =
     (case c of CallCreateVolume r \<Rightarrow> [r] | _ \<Rightarrow> []) @ createRequests cs"
  by (simp_all add: createRequests_def map_filter_def split: call.splits)

lemma deleteRequests_simps [simp]:
  "deleteRequests [] = []"
  "deleteRequests (c # cs) =
     (case c of CallDeleteVolume v \<Rightarrow> [v] | _ \<Rightarrow> []) @ deleteRequests cs"
  by (simp_all add: deleteRequests_def map_filter_def split: call.splits)

lemma invoke_calls: "invoke c f w = (r, w') \<Longrightarrow> calls w' = calls w @ [c] \<and> logs w' = logs w"
  by (auto simp: invoke_def split: prod.splits)

lemma invoke_simps [simp]:
  "fst (invoke c f w) = fst (f (backend w))"
  "backend (snd (invoke c f w)) = snd (f (backend w))"
  "calls (snd (invoke c f w)) = calls w @ [c]"
  "logs (snd (invoke c f w)) = logs w"
  by (simp_all add: invoke_def split: prod.splits)

lemma invoke_eq: "invoke c f w = (fst (f (backend w)), snd (invoke c f w))"
  by (simp add: invoke_def split: prod.splits)

lemma sdkRefresh_calls:
  "sdkRefreshAzureResources d w = (r, w') \<Longrightarrow> calls w' = calls w @ [CallRefreshAzureResources]"
  by (auto simp: sdkRefreshAzureResources_def dest: invoke_calls)

lemma sdkVolume_calls: "sdkVolume d vc w = (r, w') \<Longrightarrow> calls w' = calls w @ [CallVolume vc]"
  by (auto simp: sdkVolume_def dest: invoke_calls)

lemma sdkResizeVolume_calls:
  "sdkResizeVolume d v n w = (r, w') \<Longrightarrow> calls w' = calls w @ [CallResizeVolume v n]"
  by (auto simp: sdkResizeVolume_def dest: invoke_calls)

text \<open>A \<open>uint64\<close> and an \<open>int64\<close> with the same 64 bits.\<close>

lemma sint_le_uint: "sint (a :: 64 word) \<le> uint a"
proof -
  have "- (2 ^ 63) \<le> uint a"
    by (rule order_trans [of _ 0]) simp_all
  then show ?thesis
    by (simp add: sint_uint signed_take_bit_int_less_eq_self_iff)
qed

lemma word_eq_of_uint_sint:
  fixes a b :: "64 word"
  assumes "uint a = sint b" shows "a = b"
  by (metis assms of_int_sint scast_id word_of_int_uint)

lemma word_sless_of_uint_sint:
  fixes a b :: "64 word"
  assumes "uint a < sint b" shows "a <s b"
  using assms sint_le_uint [of a] by (simp add: word_sless_alt)

lemma sint_eq_uint_small:
  fixes a :: "64 word"
  assumes "uint a < 2 ^ 63" shows "sint a = uint a"
proof -
  have "- (2 ^ 63) \<le> uint a"
    by (rule order_trans [of _ 0]) simp_all
  with assms show ?thesis
    by (simp add: sint_uint signed_take_bit_int_eq_self_iff)
qed

lemma calls_logc [simp]: "calls (logc lv f args e w) = calls w"
  by (simp add: logc_def)

lemma logs_logc [simp]:
  "logs (logc lv f args e w) =
     logs w @ [\<lparr>log_level = lv, log_format = f, log_args = args, log_error = e\<rparr>]"
  by (simp add: logc_def)

lemma HasPrefix_iff: "HasPrefix s p \<longleftrightarrow> (\<exists>n. s = p @ n)"
  by (metis HasPrefix_def append_eq_conv_conj append_take_drop_id length_append le_add1)

lemma HasPrefix_drop: "HasPrefix s p \<Longrightarrow> p @ drop (length p) s = s"
  by (auto simp: HasPrefix_iff)

lemma sdk_calls [simp]:
  "calls (snd (sdkRefreshAzureResources d w)) = calls w @ [CallRefreshAzureResources]"
  "calls (snd (sdkVolumeExists d vc w)) = calls w @ [CallVolumeExists vc]"
  "calls (snd (sdkVolumeExistsByID d i w)) = calls w @ [CallVolumeExistsByID i]"
  "calls (snd (sdkVolume d vc w)) = calls w @ [CallVolume vc]"
  "calls (snd (sdkVolumes d w)) = calls w @ [CallVolumes]"
  "calls (snd (sdkCreateVolume d r w)) = calls w @ [CallCreateVolume r]"
  "calls (snd (sdkDeleteVolume d v w)) = calls w @ [CallDeleteVolume v]"
  "calls (snd (sdkResizeVolume d v n w)) = calls w @ [CallResizeVolume v n]"
  "calls (snd (sdkWaitForVolumeState d v st errs t w)) = calls w @ [CallWaitForVolumeState v st errs t]"
  "calls (snd (sdkRandomSubnetForStoragePool d p w)) = calls w @ [CallRandomSubnetForStoragePool p]"
  "calls (snd (sdkCapacityPoolsForStoragePool d p sl w)) = calls w @ [CallCapacityPoolsForStoragePool p sl]"
  "calls (snd (sdkSnapshotForVolume d v n' w)) = calls w @ [CallSnapshotForVolume v n']"
  "calls (snd (sdkCreateSnapshot d v n' w)) = calls w @ [CallCreateSnapshot v n']"
  "calls (snd (sdkWaitForSnapshotState d sn v st errs t w)) = calls w @ [CallWaitForSnapshotState sn v st errs t]"
  by (simp_all add: sdk_defs)

lemma sdk_logs [simp]:
  "logs (snd (sdkRefreshAzureResources d w)) = logs w"
  "logs (snd (sdkVolumeExists d vc w)) = logs w"
  "logs (snd (sdkVolumeExistsByID d i w)) = logs w"
  "logs (snd (sdkVolume d vc w)) = logs w"
  "logs (snd (sdkVolumes d w)) = logs w"
  "logs (snd (sdkCreateVolume d r w)) = logs w"
  "logs (snd (sdkDeleteVolume d v w)) = logs w"
  "logs (snd (sdkResizeVolume d v n w)) = logs w"
  "logs (snd (sdkWaitForVolumeState d v st errs t w)) = logs w"
  "logs (snd (sdkRandomSubnetForStoragePool d p w)) = logs w"
  "logs (snd (sdkCapacityPoolsForStoragePool d p sl w)) = logs w"
  "logs (snd (sdkSnapshotForVolume d v n' w)) = logs w"
  "logs (snd (sdkCreateSnapshot d v n' w)) = logs w"
  "logs (snd (sdkWaitForSnapshotState d sn v st errs t w)) = logs w"
  by (simp_all add: sdk_defs)

lemma CreateClone_snapshot_createRequests:
  "createRequests (calls (snd (CreateClone_snapshot d sourceVolume snapshot w)))
     = createRequests (calls w)"
  by (simp add: CreateClone_snapshot_def Let_def case_prod_beta split: sum.split option.split)

lemma toyDriver_simps [simp]:
  "SDK (toyDriver n k) = toySDK"
  "ext (toyDriver n k) = toyExt"
  "volumeCreateTimeout (toyDriver n k) = 10"
  "NASType (Config (toyDriver n k)) = n"
  "NfsMountOptions (Config (toyDriver n k)) = ''nfsvers=3''"
  "StoragePrefix (Config (toyDriver n k)) = ''trident-''"
  "SubscriptionID (Config (toyDriver n k)) = ''sub''"
  "DriverContext (Config (toyDriver n k)) = ''csi''"
  "pools (toyDriver n k) = [''pool'' \<mapsto> toyPool k]"
  by (simp_all add: toyDriver_def)

lemma toySDK_simps [simp]:
  "RefreshAzureResources toySDK s = (None, s)"
  "VolumeExists toySDK vc s = (Inr (toyFind (vc_InternalName vc) s), s)"
  "VolumeExistsByID toySDK i s = (Inr (find (\<lambda>v. fs_ID v = i) s), s)"
  "Volume toySDK vc s =
     (case toyFind (vc_InternalName vc) s of
        None \<Rightarrow> Inl (Errorf ''volume not found'' []) | Some v \<Rightarrow> Inr v, s)"
  "Volumes toySDK s = (Inr s, s)"
  "CreateVolume toySDK = toyCreate"
  "DeleteVolume toySDK v s =
     (if fs_Name v = ''bad'' then (Some (Errorf ''volume is locked'' []), s)
      else (None, toySetState (fs_CreationToken v) StateDeleting s))"
  "ResizeVolume toySDK v n s =
     (None, map (\<lambda>x. if fs_CreationToken x = fs_CreationToken v
                        then x\<lparr>fs_QuotaInBytes := n\<rparr> else x) s)"
  "WaitForVolumeState toySDK = toyWait"
  "HasFeature toySDK f = False"
  "RandomSubnetForStoragePool toySDK p s = (Some \<lparr> subnet_ID = ''subnet-1'' \<rparr>, s)"
  "CapacityPoolsForStoragePool toySDK p sl s = (toyCapacityPools sl, s)"
  "SnapshotForVolume toySDK v nm s =
     (if nm = ''gone'' then Inl (Errorf ''snapshot not found'' [])
      else Inr \<lparr> snap_Name = nm, snap_SnapshotID = ''/snapshots/'' @ nm,
                 snap_ProvisioningState = StateAvailable \<rparr>, s)"
  "CreateSnapshot toySDK v nm s =
     (Inr \<lparr> snap_Name = nm, snap_SnapshotID = ''/snapshots/'' @ nm,
             snap_ProvisioningState = StateCreating \<rparr>, s)"
  "WaitForSnapshotState toySDK sn v desired errStates t s = (None, s)"
  by (simp_all add: toySDK_def)

lemma toyWorld_simps [simp]:
  "backend (toyWorld s) = s" "calls (toyWorld s) = []" "logs (toyWorld s) = []"
  by (simp_all add: toyWorld_def)

lemma defaultTimeout_toy [simp]: "defaultTimeout (toyDriver n k) = 30"
  by (simp add: defaultTimeout_def toyExt_def ContextDocker_def)


section \<open>List\<close>

lemma List_loop_eq:
  "List_loop prefix volumes names =
     names @ map (\<lambda>v. drop (length prefix) (fs_CreationToken v)) (filter (listed prefix) volumes)"
  by (induction volumes arbitrary: names) (auto simp: listed_def)

text \<open>
  C9. When the refresh and the listing of the backend's volumes succeed, \<open>List\<close>
  returns, in the backend's order, the creation tokens with the storage prefix
  dropped, of exactly the volumes whose token starts with the prefix and whose state
  is none of Deleting, Deleted and Error. A volume in any other state, Creating
  included, is kept.
\<close>

theorem List_names:
  assumes "sdkRefreshAzureResources d w = (None, w1)"
      and "sdkVolumes d w1 = (Inr volumes, w2)"
  shows "List_volumes d w =
           (Inr (map (\<lambda>v. drop (length (StoragePrefix (Config d))) (fs_CreationToken v))
                  (filter (\<lambda>v. HasPrefix (fs_CreationToken v) (StoragePrefix (Config d))
                              \<and> fs_ProvisioningState v \<noteq> StateDeleting
                              \<and> fs_ProvisioningState v \<noteq> StateDeleted
                              \<and> fs_ProvisioningState v \<noteq> StateError) volumes)), w2)"
proof -
  have "listed (StoragePrefix (Config d)) =
          (\<lambda>v. HasPrefix (fs_CreationToken v) (StoragePrefix (Config d))
              \<and> fs_ProvisioningState v \<noteq> StateDeleting
              \<and> fs_ProvisioningState v \<noteq> StateDeleted
              \<and> fs_ProvisioningState v \<noteq> StateError)"
    by (auto simp: listed_def fun_eq_iff)
  with assms show ?thesis
    by (simp add: List_volumes_def List_loop_eq)
qed

theorem List_names_witness:
  "fst (List_volumes (toyDriver NFS []) (toyWorld toyVolumes)) = Inr [''a'', ''d'']"
proof -
  let ?d = "toyDriver NFS []" and ?w = "toyWorld toyVolumes"
  have 1: "sdkRefreshAzureResources ?d ?w = (None, snd (sdkRefreshAzureResources ?d ?w))"
    by (simp add: sdk_defs prod_eq_iff toyDriver_def toySDK_def)
  have 2: "sdkVolumes ?d (snd (sdkRefreshAzureResources ?d ?w))
             = (Inr toyVolumes, snd (sdkVolumes ?d (snd (sdkRefreshAzureResources ?d ?w))))"
    by (simp add: sdk_defs prod_eq_iff toyDriver_def toySDK_def toyWorld_def)
  show ?thesis
    unfolding List_names [OF 1 2]
    by (simp add: toyVolumes_def toyVolume_def toyDriver_def HasPrefix_def state_defs)
qed

section \<open>Resize\<close>

text \<open>
  C6. For a \<open>Resize\<close> call whose refresh succeeds and whose volume is found:
  a volume that is not Available makes it fail with no further backend call; on an
  Available volume, a requested size equal to the current quota succeeds with no
  further backend call, and a smaller one fails with no further backend call; a larger
  one (below \<open>2^63\<close>, so that \<open>int64(sizeBytes)\<close> is the same number) is first
  checked against the size limit, whose error is returned with no resize call, and only
  when the limit check passes is it resized, by one resize call with the requested size. In every run, a resize call
  is issued only on an Available volume and after the limit check has passed.
\<close>

theorem Resize_checks:
  assumes refresh: "sdkRefreshAzureResources d w = (None, w1)"
      and found: "sdkVolume d volConfig w1 = (Inr volume, w2)"
  shows "(fs_ProvisioningState volume \<noteq> StateAvailable \<longrightarrow>
            fst (fst (Resize d volConfig sizeBytes w)) \<noteq> None
            \<and> snd (Resize d volConfig sizeBytes w) = w2)
       \<and> (fs_ProvisioningState volume = StateAvailable
            \<and> uint sizeBytes = sint (fs_QuotaInBytes volume) \<longrightarrow>
            fst (fst (Resize d volConfig sizeBytes w)) = None
            \<and> snd (Resize d volConfig sizeBytes w) = w2)
       \<and> (fs_ProvisioningState volume = StateAvailable
            \<and> uint sizeBytes < sint (fs_QuotaInBytes volume) \<longrightarrow>
            fst (fst (Resize d volConfig sizeBytes w)) \<noteq> None
            \<and> snd (Resize d volConfig sizeBytes w) = w2)
       \<and> (fs_ProvisioningState volume = StateAvailable
            \<and> sint (fs_QuotaInBytes volume) < uint sizeBytes \<and> uint sizeBytes < 2 ^ 63
            \<and> CheckVolumeSizeLimits (ext d) sizeBytes = Some err \<longrightarrow>
            fst (fst (Resize d volConfig sizeBytes w)) = Some err
            \<and> snd (Resize d volConfig sizeBytes w) = w2)
       \<and> (fs_ProvisioningState volume = StateAvailable
            \<and> sint (fs_QuotaInBytes volume) < uint sizeBytes \<and> uint sizeBytes < 2 ^ 63
            \<and> CheckVolumeSizeLimits (ext d) sizeBytes = None \<longrightarrow>
            fst (fst (Resize d volConfig sizeBytes w)) = fst (sdkResizeVolume d volume sizeBytes w2)
            \<and> calls (snd (Resize d volConfig sizeBytes w))
                = calls w2 @ [CallResizeVolume volume sizeBytes])
       \<and> (resizeRequests (calls (snd (Resize d volConfig sizeBytes w))) \<noteq> resizeRequests (calls w) \<longrightarrow>
            fs_ProvisioningState volume = StateAvailable
            \<and> CheckVolumeSizeLimits (ext d) sizeBytes = None
            \<and> resizeRequests (calls (snd (Resize d volConfig sizeBytes w)))
                = resizeRequests (calls w) @ [(volume, sizeBytes)])"
proof -
  have c2: "resizeRequests (calls w2) = resizeRequests (calls w)"
    using sdkRefresh_calls [OF refresh] sdkVolume_calls [OF found] by simp
  have A: "fs_ProvisioningState volume \<noteq> StateAvailable \<Longrightarrow>
            fst (fst (Resize d volConfig sizeBytes w)) \<noteq> None
            \<and> snd (Resize d volConfig sizeBytes w) = w2"
    using assms by (simp add: Resize_def Let_def)
  have B: "fs_ProvisioningState volume = StateAvailable \<Longrightarrow> sizeBytes = fs_QuotaInBytes volume \<Longrightarrow>
            fst (fst (Resize d volConfig sizeBytes w)) = None
            \<and> snd (Resize d volConfig sizeBytes w) = w2"
    using assms by (simp add: Resize_def Let_def)
  have C: "fs_ProvisioningState volume = StateAvailable \<Longrightarrow> sizeBytes <s fs_QuotaInBytes volume \<Longrightarrow>
            fst (fst (Resize d volConfig sizeBytes w)) \<noteq> None
            \<and> snd (Resize d volConfig sizeBytes w) = w2"
    using assms by (auto simp: Resize_def Let_def)
  have D: "fs_ProvisioningState volume = StateAvailable \<Longrightarrow> fs_QuotaInBytes volume <s sizeBytes \<Longrightarrow>
            (CheckVolumeSizeLimits (ext d) sizeBytes = Some err \<longrightarrow>
               fst (fst (Resize d volConfig sizeBytes w)) = Some err
               \<and> snd (Resize d volConfig sizeBytes w) = w2)
          \<and> (CheckVolumeSizeLimits (ext d) sizeBytes = None \<longrightarrow>
               fst (fst (Resize d volConfig sizeBytes w)) = fst (sdkResizeVolume d volume sizeBytes w2)
               \<and> calls (snd (Resize d volConfig sizeBytes w))
                   = calls w2 @ [CallResizeVolume volume sizeBytes])"
    using assms
    by (auto simp: Resize_def Let_def case_prod_beta word_sless_alt split: option.split)
  have E: "resizeRequests (calls (snd (Resize d volConfig sizeBytes w))) \<noteq> resizeRequests (calls w) \<Longrightarrow>
            fs_ProvisioningState volume = StateAvailable
            \<and> CheckVolumeSizeLimits (ext d) sizeBytes = None
            \<and> resizeRequests (calls (snd (Resize d volConfig sizeBytes w)))
                = resizeRequests (calls w) @ [(volume, sizeBytes)]"
    using assms c2
    by (simp add: Resize_def Let_def case_prod_beta split: option.splits if_splits)
  show ?thesis
    using A B C D E
    by (metis word_eq_of_uint_sint word_sless_of_uint_sint sint_eq_uint_small word_sless_alt)
qed



theorem Resize_checks_witness:
  "fst (fst (Resize (toyDriver NFS []) (toyConfig ''a'' [] []) 214748364800 (toyWorld toyVolumes))) = None
   \<and> resizeRequests (calls (snd (Resize (toyDriver NFS []) (toyConfig ''a'' [] []) 214748364800
                                    (toyWorld toyVolumes))))
       = [(toyVolume ''a'' ''trident-a'' StateAvailable, 214748364800)]
   \<and> fst (fst (Resize (toyDriver NFS []) (toyConfig ''a'' [] []) 107374182400 (toyWorld toyVolumes))) = None
   \<and> resizeRequests (calls (snd (Resize (toyDriver NFS []) (toyConfig ''a'' [] []) 107374182400
                                    (toyWorld toyVolumes)))) = []
   \<and> fst (fst (Resize (toyDriver NFS []) (toyConfig ''a'' [] []) 53687091200 (toyWorld toyVolumes))) \<noteq> None
   \<and> resizeRequests (calls (snd (Resize (toyDriver NFS []) (toyConfig ''a'' [] []) 53687091200
                                    (toyWorld toyVolumes)))) = []
   \<and> fst (fst (Resize (toyDriver NFS []) (toyConfig ''d'' [] []) 214748364800 (toyWorld toyVolumes))) \<noteq> None
   \<and> resizeRequests (calls (snd (Resize (toyDriver NFS []) (toyConfig ''d'' [] []) 214748364800
                                    (toyWorld toyVolumes)))) = []"
proof -
  let ?d = "toyDriver NFS []" and ?w = "toyWorld toyVolumes"
  let ?w1 = "snd (sdkRefreshAzureResources ?d ?w)"
  let ?a = "toyVolume ''a'' ''trident-a'' StateAvailable"
  let ?dd = "toyVolume ''d'' ''trident-d'' StateCreating"
  let ?va = "toyConfig ''a'' [] []" and ?vd = "toyConfig ''d'' [] []"
  have 1: "sdkRefreshAzureResources ?d ?w = (None, ?w1)"
    by (simp add: sdk_defs prod_eq_iff toyDriver_def toySDK_def)
  have 2: "sdkVolume ?d ?va ?w1 = (Inr ?a, snd (sdkVolume ?d ?va ?w1))"
    by (simp add: sdk_defs prod_eq_iff toy_defs toyVolumes_def)
  have 3: "sdkVolume ?d ?vd ?w1 = (Inr ?dd, snd (sdkVolume ?d ?vd ?w1))"
    by (simp add: sdk_defs prod_eq_iff toy_defs toyVolumes_def)
  have c2: "resizeRequests (calls (snd (sdkVolume ?d vc ?w1))) = []" for vc
    by (simp add: sdk_defs toyWorld_def)
  have c0: "resizeRequests (calls ?w) = []"
    by (simp add: toyWorld_def)
  have r: "fst (sdkResizeVolume ?d v n w') = None" for v n w'
    by (simp add: sdk_defs toyDriver_def toySDK_def)
  have lim: "CheckVolumeSizeLimits (ext ?d) 214748364800 = None"
    by (simp add: toyDriver_def toyExt_def)
  have sa: "fs_ProvisioningState ?a = StateAvailable" "fs_QuotaInBytes ?a = 107374182400"
    by (simp_all add: toyVolume_def)
  have sd: "fs_ProvisioningState ?dd \<noteq> StateAvailable"
    by (simp add: toyVolume_def state_defs)
  have n1: "sint (107374182400 :: 64 word) < uint (214748364800 :: 64 word)"
    "uint (214748364800 :: 64 word) < 2 ^ 63"
    "uint (107374182400 :: 64 word) = sint (107374182400 :: 64 word)"
    "uint (53687091200 :: 64 word) < sint (107374182400 :: 64 word)"
    by simp_all
  have pa: "fs_ProvisioningState ?a = StateAvailable
              \<and> sint (fs_QuotaInBytes ?a) < uint (214748364800 :: 64 word)
              \<and> uint (214748364800 :: 64 word) < 2 ^ 63
              \<and> CheckVolumeSizeLimits (ext ?d) 214748364800 = None"
    using sa lim n1 by simp
  have pb: "fs_ProvisioningState ?a = StateAvailable
              \<and> uint (107374182400 :: 64 word) = sint (fs_QuotaInBytes ?a)"
    using sa n1 by simp
  have pc: "fs_ProvisioningState ?a = StateAvailable
              \<and> uint (53687091200 :: 64 word) < sint (fs_QuotaInBytes ?a)"
    using sa n1 by simp
  note A = Resize_checks [OF 1 2, of 214748364800, THEN conjunct2, THEN conjunct2, THEN conjunct2,
             THEN conjunct2, THEN conjunct1, rule_format, OF pa]
  note B = Resize_checks [OF 1 2, of 107374182400, THEN conjunct2, THEN conjunct1, rule_format, OF pb]
  note C = Resize_checks [OF 1 2, of 53687091200, THEN conjunct2, THEN conjunct2, THEN conjunct1,
             rule_format, OF pc]
  note D = Resize_checks [OF 1 3, of 214748364800, THEN conjunct1, rule_format, OF sd]
  have a: "fst (fst (Resize ?d ?va 214748364800 ?w)) = None
        \<and> resizeRequests (calls (snd (Resize ?d ?va 214748364800 ?w))) = [(?a, 214748364800)]"
    using A r by simp
  have b: "fst (fst (Resize ?d ?va 107374182400 ?w)) = None
        \<and> resizeRequests (calls (snd (Resize ?d ?va 107374182400 ?w))) = []"
    using B by simp
  have c: "fst (fst (Resize ?d ?va 53687091200 ?w)) \<noteq> None
        \<and> resizeRequests (calls (snd (Resize ?d ?va 53687091200 ?w))) = []"
    using C by simp
  have d: "fst (fst (Resize ?d ?vd 214748364800 ?w)) \<noteq> None
        \<and> resizeRequests (calls (snd (Resize ?d ?vd 214748364800 ?w))) = []"
    using D by simp
  from a b c d show ?thesis by blast
qed

section \<open>Read-only clones and mount paths\<close>

text \<open>
  C8, amended. For every \<open>CreateClone\<close> call with the read-only-clone flag set, no backend
  volume create call is issued, whatever else happens. If the source volume the
  backend returns has no snapshot-directory access, the call fails. When the call
  reaches the read-only decision (the refresh, the two name checks, the source
  lookup, the entitlement check, the existence check and the source snapshot all
  passed), it succeeds if the source volume has snapshot-directory access and fails
  otherwise, with no backend call after the snapshot step. The NFS mount path of a
  read-only clone is \<open>/<CloneSourceVolumeInternal>/.snapshot/<CloneSourceSnapshot>\<close>,
  that of any other volume is \<open>/<CreationToken>\<close> of the volume itself.
\<close>

theorem CreateClone_readonly:
  assumes ro: "vc_ReadOnlyClone cloneVolConfig"
  shows "createRequests (calls (snd (CreateClone d sourceVolConfig cloneVolConfig unset w)))
           = createRequests (calls w)
       \<and> (\<forall>sv. fst (sdkVolume d sourceVolConfig (snd (sdkRefreshAzureResources d w))) = Inr sv
                \<and> \<not> fs_SnapshotDirectory sv \<longrightarrow>
              fst (fst (CreateClone d sourceVolConfig cloneVolConfig unset w)) \<noteq> None)
       \<and> (sdkRefreshAzureResources d w = (None, w1)
            \<and> validateVolumeName (vc_Name cloneVolConfig) = None
            \<and> validateCreationToken (vc_InternalName cloneVolConfig) = None
            \<and> sdkVolume d sourceVolConfig w1 = (Inr sourceVolume, w2)
            \<and> (fs_KerberosEnabled sourceVolume \<longrightarrow> IsFeatureEnabled (ext d) = None)
            \<and> sdkVolumeExistsByID d
                 (CreateVolumeID (ext d) (SubscriptionID (Config d)) (fs_ResourceGroup sourceVolume)
                    (fs_NetAppAccount sourceVolume) (fs_CapacityPool sourceVolume)
                    (vc_Name cloneVolConfig)) w2 = (Inr None, w3)
            \<and> CreateClone_snapshot d sourceVolume (vc_CloneSourceSnapshotInternal cloneVolConfig) w3
                 = (Inr sourceSnapshot, w4) \<longrightarrow>
            snd (CreateClone d sourceVolConfig cloneVolConfig unset w) = w4
            \<and> (fs_SnapshotDirectory sourceVolume \<longrightarrow>
                  fst (fst (CreateClone d sourceVolConfig cloneVolConfig unset w)) = None)
            \<and> (\<not> fs_SnapshotDirectory sourceVolume \<longrightarrow>
                  fst (fst (CreateClone d sourceVolConfig cloneVolConfig unset w)) \<noteq> None))
       \<and> constructVolumeAccessPath cloneVolConfig volume NFS
           = ''/'' @ vc_CloneSourceVolumeInternal cloneVolConfig @ ''/.snapshot/''
               @ vc_CloneSourceSnapshot cloneVolConfig
       \<and> (\<forall>volConfig. \<not> vc_ReadOnlyClone volConfig \<longrightarrow>
             constructVolumeAccessPath volConfig volume NFS = ''/'' @ fs_CreationToken volume)"
proof -
  have A: "createRequests (calls (snd (CreateClone d sourceVolConfig cloneVolConfig unset w)))
             = createRequests (calls w)"
    using ro
    by (simp add: CreateClone_def Let_def case_prod_beta CreateClone_snapshot_createRequests
             split: sum.split option.split)
  have B: "fst (fst (CreateClone d sourceVolConfig cloneVolConfig unset w)) \<noteq> None"
    if "fst (sdkVolume d sourceVolConfig (snd (sdkRefreshAzureResources d w))) = Inr sv"
      and "\<not> fs_SnapshotDirectory sv" for sv
    using ro that
    by (simp add: CreateClone_def Let_def case_prod_beta split: sum.split option.split)
  have C: "snd (CreateClone d sourceVolConfig cloneVolConfig unset w) = w4
            \<and> (fs_SnapshotDirectory sourceVolume \<longrightarrow>
                  fst (fst (CreateClone d sourceVolConfig cloneVolConfig unset w)) = None)
            \<and> (\<not> fs_SnapshotDirectory sourceVolume \<longrightarrow>
                  fst (fst (CreateClone d sourceVolConfig cloneVolConfig unset w)) \<noteq> None)"
    if "sdkRefreshAzureResources d w = (None, w1)"
      and "validateVolumeName (vc_Name cloneVolConfig) = None"
      and "validateCreationToken (vc_InternalName cloneVolConfig) = None"
      and "sdkVolume d sourceVolConfig w1 = (Inr sourceVolume, w2)"
      and "fs_KerberosEnabled sourceVolume \<longrightarrow> IsFeatureEnabled (ext d) = None"
      and "sdkVolumeExistsByID d
                 (CreateVolumeID (ext d) (SubscriptionID (Config d)) (fs_ResourceGroup sourceVolume)
                    (fs_NetAppAccount sourceVolume) (fs_CapacityPool sourceVolume)
                    (vc_Name cloneVolConfig)) w2 = (Inr None, w3)"
      and "CreateClone_snapshot d sourceVolume (vc_CloneSourceSnapshotInternal cloneVolConfig) w3
                 = (Inr sourceSnapshot, w4)"
    using ro that by (simp add: CreateClone_def Let_def)
  have D: "constructVolumeAccessPath cloneVolConfig volume NFS
           = ''/'' @ vc_CloneSourceVolumeInternal cloneVolConfig @ ''/.snapshot/''
               @ vc_CloneSourceSnapshot cloneVolConfig"
    using ro by (simp add: constructVolumeAccessPath_def)
  have E: "constructVolumeAccessPath volConfig volume NFS = ''/'' @ fs_CreationToken volume"
    if "\<not> vc_ReadOnlyClone volConfig" for volConfig
    using that by (simp add: constructVolumeAccessPath_def)
  from A B C D E show ?thesis by blast
qed

theorem CreateClone_readonly_witness:
  "fst (fst (CreateClone (toyDriver NFS []) (toyConfig ''a'' [] []) toyClone False
               (toyWorld toyVolumes))) = None
   \<and> createRequests (calls (snd (CreateClone (toyDriver NFS []) (toyConfig ''a'' [] []) toyClone
                                    False (toyWorld toyVolumes)))) = []
   \<and> constructVolumeAccessPath toyClone (toyVolume ''a'' ''trident-a'' StateAvailable) NFS
       = ''/trident-a/.snapshot/snap1''
   \<and> constructVolumeAccessPath (toyConfig ''a'' [] []) (toyVolume ''a'' ''trident-a'' StateAvailable) NFS
       = ''/trident-a''"
proof -
  let ?d = "toyDriver NFS []" and ?w = "toyWorld toyVolumes" and ?src = "toyConfig ''a'' [] []"
  let ?w1 = "snd (sdkRefreshAzureResources ?d ?w)"
  let ?a = "toyVolume ''a'' ''trident-a'' StateAvailable"
  let ?w2 = "snd (sdkVolume ?d ?src ?w1)"
  let ?id = "CreateVolumeID (ext ?d) (SubscriptionID (Config ?d)) (fs_ResourceGroup ?a)
                    (fs_NetAppAccount ?a) (fs_CapacityPool ?a) (vc_Name toyClone)"
  let ?w3 = "snd (sdkVolumeExistsByID ?d ?id ?w2)"
  let ?snap = "\<lparr> snap_Name = ''snap1'', snap_SnapshotID = ''/snapshots/snap1'',
                  snap_ProvisioningState = StateAvailable \<rparr>"
  let ?w4 = "snd (CreateClone_snapshot ?d ?a (vc_CloneSourceSnapshotInternal toyClone) ?w3)"
  have ro: "vc_ReadOnlyClone toyClone"
    by (simp add: toyClone_def)
  have 1: "sdkRefreshAzureResources ?d ?w = (None, ?w1)"
    by (simp add: prod_eq_iff sdk_defs)
  have 2: "validateVolumeName (vc_Name toyClone) = None"
    by (simp add: toyClone_def toyConfig_def validateVolumeName_def volumeNameRegex_def
          isLetter_def isDigit_def)
  have 3: "validateCreationToken (vc_InternalName toyClone) = None"
    by (simp add: toyClone_def toyConfig_def validateCreationToken_def volumeCreationTokenRegex_def
          isLetter_def isDigit_def)
  have 4: "sdkVolume ?d ?src ?w1 = (Inr ?a, ?w2)"
    by (simp add: prod_eq_iff sdk_defs toy_data)
  have 5: "fs_KerberosEnabled ?a \<longrightarrow> IsFeatureEnabled (ext ?d) = None"
    by (simp add: toyVolume_def)
  have 6: "sdkVolumeExistsByID ?d ?id ?w2 = (Inr None, ?w3)"
    by (simp add: prod_eq_iff sdk_defs toy_data toyExt_def toyClone_def)
  have 7: "CreateClone_snapshot ?d ?a (vc_CloneSourceSnapshotInternal toyClone) ?w3 = (Inr ?snap, ?w4)"
    by (simp add: prod_eq_iff CreateClone_snapshot_def case_prod_beta sdk_defs toyClone_def
          toyConfig_def)
  have 8: "fs_SnapshotDirectory ?a"
    by (simp add: toyVolume_def)
  have 9: "\<not> vc_ReadOnlyClone ?src"
    by (simp add: toyConfig_def)
  note T = CreateClone_readonly [OF ro, of ?d ?src False ?w ?w1 ?a ?w2 ?w3 ?snap ?w4 ?a]
  note T3 = T [THEN conjunct2, THEN conjunct2, THEN conjunct1, rule_format,
               OF conjI [OF 1 conjI [OF 2 conjI [OF 3 conjI [OF 4 conjI [OF 5 conjI [OF 6 7]]]]]]]
  show ?thesis
    using T [THEN conjunct1] T3 8 9 T [THEN conjunct2, THEN conjunct2, THEN conjunct2]
    by (simp add: toyClone_def toyConfig_def toyVolume_def)
qed

text \<open>
  C8 as stated has every read-only clone of a source with snapshot-directory access
  succeed. On the small backend the snapshot \<open>gone\<close> is not found: the read-only
  clone of volume \<open>a\<close>, which has snapshot-directory access, from that snapshot fails
  at the snapshot step, before the read-only decision.
\<close>

theorem CreateClone_missing_snapshot_counterexample:
  "vc_ReadOnlyClone toyCloneGone
   \<and> fst (sdkVolume (toyDriver NFS []) (toyConfig ''a'' [] [])
            (snd (sdkRefreshAzureResources (toyDriver NFS []) (toyWorld toyVolumes))))
       = Inr (toyVolume ''a'' ''trident-a'' StateAvailable)
   \<and> fs_SnapshotDirectory (toyVolume ''a'' ''trident-a'' StateAvailable)
   \<and> fst (fst (CreateClone (toyDriver NFS []) (toyConfig ''a'' [] []) toyCloneGone False
                  (toyWorld toyVolumes)))
       = Some (Errorf ''could not find source snapshot; %v'' [ArgE (Errorf ''snapshot not found'' [])])"
proof -
  let ?d = "toyDriver NFS []" and ?w = "toyWorld toyVolumes" and ?src = "toyConfig ''a'' [] []"
  let ?a = "toyVolume ''a'' ''trident-a'' StateAvailable"
  let ?id = "CreateVolumeID (ext ?d) (SubscriptionID (Config ?d)) (fs_ResourceGroup ?a)
                    (fs_NetAppAccount ?a) (fs_CapacityPool ?a) (vc_Name toyCloneGone)"
  let ?e = "Errorf ''could not find source snapshot; %v'' [ArgE (Errorf ''snapshot not found'' [])]"
  have ro: "vc_ReadOnlyClone toyCloneGone"
    by (simp add: toyCloneGone_def toyClone_def)
  have "sdkRefreshAzureResources ?d ?w = (None, snd (sdkRefreshAzureResources ?d ?w))
        \<and> backend (snd (sdkRefreshAzureResources ?d ?w)) = toyVolumes"
    by (simp add: prod_eq_iff sdk_defs)
  then obtain w1 where
    1: "sdkRefreshAzureResources ?d ?w = (None, w1)" and b1: "backend w1 = toyVolumes"
    by blast
  have 2: "validateVolumeName (vc_Name toyCloneGone) = None"
    by (simp add: toyCloneGone_def toyClone_def toyConfig_def validateVolumeName_def volumeNameRegex_def
          isLetter_def isDigit_def)
  have 3: "validateCreationToken (vc_InternalName toyCloneGone) = None"
    by (simp add: toyCloneGone_def toyClone_def toyConfig_def validateCreationToken_def
          volumeCreationTokenRegex_def isLetter_def isDigit_def)
  have "sdkVolume ?d ?src w1 = (Inr ?a, snd (sdkVolume ?d ?src w1))
        \<and> backend (snd (sdkVolume ?d ?src w1)) = toyVolumes"
    using b1 by (simp add: prod_eq_iff sdk_defs toy_data)
  then obtain w2 where 4: "sdkVolume ?d ?src w1 = (Inr ?a, w2)" and b2: "backend w2 = toyVolumes"
    by blast
  have 5: "\<not> fs_KerberosEnabled ?a" "fs_SnapshotDirectory ?a"
    by (simp_all add: toyVolume_def)
  have "sdkVolumeExistsByID ?d ?id w2 = (Inr None, snd (sdkVolumeExistsByID ?d ?id w2))"
    using b2 by (simp add: prod_eq_iff sdk_defs toy_data toyExt_def toyCloneGone_def toyClone_def)
  then obtain w3 where 6: "sdkVolumeExistsByID ?d ?id w2 = (Inr None, w3)"
    by blast
  have "CreateClone_snapshot ?d ?a (vc_CloneSourceSnapshotInternal toyCloneGone) w3
          = (Inl ?e, snd (CreateClone_snapshot ?d ?a (vc_CloneSourceSnapshotInternal toyCloneGone) w3))"
    by (simp add: prod_eq_iff CreateClone_snapshot_def case_prod_beta sdk_defs toyCloneGone_def
          toyClone_def toyConfig_def)
  then obtain w4 where
    7: "CreateClone_snapshot ?d ?a (vc_CloneSourceSnapshotInternal toyCloneGone) w3 = (Inl ?e, w4)"
    by blast
  have r: "fst (fst (CreateClone ?d ?src toyCloneGone False ?w)) = Some ?e"
    using 1 2 3 4 5 6 7 by (simp add: CreateClone_def Let_def del: toyDriver_simps)
  have v: "fst (sdkVolume ?d ?src (snd (sdkRefreshAzureResources ?d ?w))) = Inr ?a"
    using 1 4 by simp
  from ro v 5(2) r show ?thesis by blast
qed

section \<open>Cleanup after a failed create\<close>

text \<open>
  What \<open>waitForVolumeCreate\<close> does when the wait after a create submission ends in
  the Error state with an error: it issues exactly one delete of the failed volume,
  logs the failure of that delete at Error level (with the delete's error attached) or
  logs "Volume deleted." at Info level, and then leaves the switch, which has no
  return in this case, for the final \<open>return nil\<close>.
\<close>

lemma waitForVolumeCreate_error_state:
  assumes "sdkWaitForVolumeState d volume StateAvailable [StateError] (volumeCreateTimeout d) w
             = ((StateError, Some err), w1)"
  shows "fst (waitForVolumeCreate d volume w) = None
       \<and> calls (snd (waitForVolumeCreate d volume w))
           = calls w @ [CallWaitForVolumeState volume StateAvailable [StateError] (volumeCreateTimeout d),
                        CallDeleteVolume volume]
       \<and> (\<forall>errDelete. fst (sdkDeleteVolume d volume w1) = Some errDelete \<longrightarrow>
             logs (snd (waitForVolumeCreate d volume w))
               = logs w @ [\<lparr> log_level = Error,
                              log_format = ''Volume could not be cleaned up and must be manually deleted.'',
                              log_args = [], log_error = Some errDelete \<rparr>])
       \<and> (fst (sdkDeleteVolume d volume w1) = None \<longrightarrow>
             logs (snd (waitForVolumeCreate d volume w))
               = logs w @ [\<lparr> log_level = Info, log_format = ''Volume deleted.'',
                              log_args = [], log_error = None \<rparr>])"
proof -
  have c1: "calls w1 = calls w @ [CallWaitForVolumeState volume StateAvailable [StateError] (volumeCreateTimeout d)]"
    and l1: "logs w1 = logs w"
    using assms sdk_calls(9) [of d volume StateAvailable "[StateError]" "volumeCreateTimeout d" w]
      sdk_logs(9) [of d volume StateAvailable "[StateError]" "volumeCreateTimeout d" w]
    by simp_all
  show ?thesis
    using assms c1 l1
    by (simp add: waitForVolumeCreate_def case_prod_beta state_defs split: option.split)
qed

text \<open>
  C3. When the volume reaches the Error state during the wait after a create
  submission, the driver deletes the failed volume, and a failure of that delete is
  only logged: so far the code does what the spec says. The spec also has the original
  error, the one that triggered the cleanup, returned to the caller; the code drops it.
  On the small backend the wait on the failed volume \<open>bad\<close> ends in state Error with
  the error "volume is in an error state"; \<open>waitForVolumeCreate\<close> issues the delete,
  which fails, logs that failure and returns nil, so that \<open>Create\<close>, which returns
  what \<open>waitForVolumeCreate\<close> returns, reports a failed volume as created.
\<close>

theorem waitForVolumeCreate_error_returns_nil:
  "fst (sdkWaitForVolumeState (toyDriver NFS []) toyBad StateAvailable [StateError]
          (volumeCreateTimeout (toyDriver NFS [])) (toyWorld [toyBad]))
     = (StateError, Some (Errorf ''volume is in an error state'' []))
   \<and> fst (waitForVolumeCreate (toyDriver NFS []) toyBad (toyWorld [toyBad])) = None
   \<and> deleteRequests (calls (snd (waitForVolumeCreate (toyDriver NFS []) toyBad (toyWorld [toyBad]))))
       = [toyBad]
   \<and> logs (snd (waitForVolumeCreate (toyDriver NFS []) toyBad (toyWorld [toyBad])))
       = [\<lparr> log_level = Error,
             log_format = ''Volume could not be cleaned up and must be manually deleted.'',
             log_args = [], log_error = Some (Errorf ''volume is locked'' []) \<rparr>]"
proof -
  let ?d = "toyDriver NFS []" and ?w = "toyWorld [toyBad]"
  let ?w1 = "snd (sdkWaitForVolumeState ?d toyBad StateAvailable [StateError] (volumeCreateTimeout ?d) ?w)"
  have 1: "sdkWaitForVolumeState ?d toyBad StateAvailable [StateError] (volumeCreateTimeout ?d) ?w
             = ((StateError, Some (Errorf ''volume is in an error state'' [])), ?w1)"
    by (simp add: prod_eq_iff sdk_defs toy_data toyBad_def toyWait_def state_defs)
  have 2: "fst (sdkDeleteVolume ?d toyBad ?w1) = Some (Errorf ''volume is locked'' [])"
    by (simp add: sdk_defs toy_data toyBad_def)
  have 3: "fst (sdkWaitForVolumeState ?d toyBad StateAvailable [StateError] (volumeCreateTimeout ?d) ?w)
             = (StateError, Some (Errorf ''volume is in an error state'' []))"
    using arg_cong [OF 1, of fst] by simp
  show ?thesis
    using waitForVolumeCreate_error_state [OF 1] 2 3 by simp
qed

section \<open>Destroy\<close>

text \<open>
  C7, amended. After a successful refresh: if the volume does not exist, \<open>Destroy\<close>
  returns nil with no further backend call; if it exists in state Deleting,
  \<open>Destroy\<close> issues no delete and makes one wait for Deleted with the creation
  timeout of the driver, its field \<open>volumeCreateTimeout\<close>, whatever its length, and
  returns that wait's error or nil; otherwise it issues the delete, returns the
  delete's error if there is one, and else makes one wait for Deleted with the default
  timeout and returns that wait's error or nil. A second \<open>Destroy\<close> is a call like
  any other: it returns an error when its wait or its delete does.
\<close>

theorem Destroy_cases:
  assumes refresh: "sdkRefreshAzureResources d w = (None, w1)"
  shows "(sdkVolumeExists d volConfig w1 = (Inr None, w2) \<longrightarrow>
            fst (Destroy d volConfig w) = None
            \<and> calls (snd (Destroy d volConfig w)) = calls w2)
       \<and> (sdkVolumeExists d volConfig w1 = (Inr (Some extantVolume), w2)
            \<and> fs_ProvisioningState extantVolume = StateDeleting \<longrightarrow>
            fst (Destroy d volConfig w)
              = snd (fst (sdkWaitForVolumeState d extantVolume StateDeleted [StateError]
                            (volumeCreateTimeout d) w2))
            \<and> calls (snd (Destroy d volConfig w))
                = calls w2 @ [CallWaitForVolumeState extantVolume StateDeleted [StateError]
                                (volumeCreateTimeout d)])
       \<and> (sdkVolumeExists d volConfig w1 = (Inr (Some extantVolume), w2)
            \<and> fs_ProvisioningState extantVolume \<noteq> StateDeleting
            \<and> sdkDeleteVolume d extantVolume w2 = (Some err, w3) \<longrightarrow>
            fst (Destroy d volConfig w) = Some err
            \<and> calls (snd (Destroy d volConfig w)) = calls w2 @ [CallDeleteVolume extantVolume])
       \<and> (sdkVolumeExists d volConfig w1 = (Inr (Some extantVolume), w2)
            \<and> fs_ProvisioningState extantVolume \<noteq> StateDeleting
            \<and> sdkDeleteVolume d extantVolume w2 = (None, w3) \<longrightarrow>
            fst (Destroy d volConfig w)
              = snd (fst (sdkWaitForVolumeState d extantVolume StateDeleted [StateError]
                            (defaultTimeout d) (logc Info ''Volume deleted.'' [] None w3)))
            \<and> calls (snd (Destroy d volConfig w))
                = calls w2 @ [CallDeleteVolume extantVolume,
                              CallWaitForVolumeState extantVolume StateDeleted [StateError]
                                (defaultTimeout d)])"
proof -
  have c3: "calls w3 = calls w2 @ [CallDeleteVolume extantVolume]"
    if "sdkDeleteVolume d extantVolume w2 = (r, w3)" for r
    using that sdk_calls(7) [of d extantVolume w2] by simp
  show ?thesis
    using refresh c3
    by (auto simp: Destroy_def case_prod_beta)
qed

theorem Destroy_cases_witness:
  "fst (Destroy (toyDriver NFS []) (toyConfig ''zzz'' [] []) (toyWorld toyVolumes)) = None
   \<and> calls (snd (Destroy (toyDriver NFS []) (toyConfig ''zzz'' [] []) (toyWorld toyVolumes)))
       = [CallRefreshAzureResources, CallVolumeExists (toyConfig ''zzz'' [] [])]
   \<and> fst (Destroy (toyDriver NFS []) (toyConfig ''b'' [] []) (toyWorld toyVolumes))
       = Some toyTimeout
   \<and> calls (snd (Destroy (toyDriver NFS []) (toyConfig ''b'' [] []) (toyWorld toyVolumes)))
       = [CallRefreshAzureResources, CallVolumeExists (toyConfig ''b'' [] []),
          CallWaitForVolumeState (toyVolume ''b'' ''trident-b'' StateDeleting) StateDeleted
            [StateError] 10]
   \<and> calls (snd (Destroy (toyDriver NFS []) (toyConfig ''a'' [] []) (toyWorld toyVolumes)))
       = [CallRefreshAzureResources, CallVolumeExists (toyConfig ''a'' [] []),
          CallDeleteVolume (toyVolume ''a'' ''trident-a'' StateAvailable),
          CallWaitForVolumeState (toyVolume ''a'' ''trident-a'' StateAvailable) StateDeleted
            [StateError] 30]"
proof -
  let ?d = "toyDriver NFS []" and ?w = "toyWorld toyVolumes"
  let ?w1 = "snd (sdkRefreshAzureResources ?d ?w)"
  let ?a = "toyVolume ''a'' ''trident-a'' StateAvailable"
  let ?b = "toyVolume ''b'' ''trident-b'' StateDeleting"
  have 1: "sdkRefreshAzureResources ?d ?w = (None, ?w1)"
    by (simp add: prod_eq_iff sdk_defs)
  have z: "sdkVolumeExists ?d (toyConfig ''zzz'' [] []) ?w1
             = (Inr None, snd (sdkVolumeExists ?d (toyConfig ''zzz'' [] []) ?w1))"
    by (simp add: prod_eq_iff sdk_defs toy_data)
  have b: "sdkVolumeExists ?d (toyConfig ''b'' [] []) ?w1
             = (Inr (Some ?b), snd (sdkVolumeExists ?d (toyConfig ''b'' [] []) ?w1))"
    by (simp add: prod_eq_iff sdk_defs toy_data state_defs)
  have a: "sdkVolumeExists ?d (toyConfig ''a'' [] []) ?w1
             = (Inr (Some ?a), snd (sdkVolumeExists ?d (toyConfig ''a'' [] []) ?w1))"
    by (simp add: prod_eq_iff sdk_defs toy_data state_defs)
  have sa: "fs_ProvisioningState ?a \<noteq> StateDeleting" "fs_ProvisioningState ?b = StateDeleting"
    by (simp_all add: toyVolume_def state_defs)
  have da: "sdkDeleteVolume ?d ?a (snd (sdkVolumeExists ?d (toyConfig ''a'' [] []) ?w1))
              = (None, snd (sdkDeleteVolume ?d ?a (snd (sdkVolumeExists ?d (toyConfig ''a'' [] []) ?w1))))"
    by (simp add: prod_eq_iff sdk_defs toyVolume_def)
  have wb: "snd (fst (sdkWaitForVolumeState ?d ?b StateDeleted [StateError] (volumeCreateTimeout ?d)
                        (snd (sdkVolumeExists ?d (toyConfig ''b'' [] []) ?w1))))
              = Some toyTimeout"
    by (simp add: sdk_defs toy_data toyWait_def state_defs)
  note Z = Destroy_cases [OF 1, of "toyConfig ''zzz'' [] []", THEN conjunct1, rule_format, OF z]
  note B = Destroy_cases [OF 1, of "toyConfig ''b'' [] []", THEN conjunct2, THEN conjunct1,
             rule_format, OF conjI [OF b sa(2)]]
  note A = Destroy_cases [OF 1, of "toyConfig ''a'' [] []", THEN conjunct2, THEN conjunct2,
             THEN conjunct2, rule_format, OF conjI [OF a conjI [OF sa(1) da]]]
  show ?thesis
    using Z B A wb by simp
qed

lemma toyDestroy_timeout:
  assumes "backend w = toySetState ''trident-a'' st toyVolumes" and "st \<noteq> StateDeleted"
  shows "fst (Destroy (toyDriver NFS []) (toyConfig ''a'' [] []) w)
           = Some toyTimeout
       \<and> backend (snd (Destroy (toyDriver NFS []) (toyConfig ''a'' [] []) w))
           = toySetState ''trident-a'' StateDeleting toyVolumes"
  using assms
  by (simp add: Destroy_def case_prod_beta sdk_defs toy_data toyWait_def state_defs logc_def)

lemma toyDestroy_retry_calls:
  assumes "backend w = toySetState ''trident-a'' StateDeleting toyVolumes"
  shows "calls (snd (Destroy (toyDriver NFS []) (toyConfig ''a'' [] []) w))
           = calls w @ [CallRefreshAzureResources, CallVolumeExists (toyConfig ''a'' [] []),
                        CallWaitForVolumeState (toyVolume ''a'' ''trident-a'' StateDeleting)
                          StateDeleted [StateError] 10]"
  using assms
  by (simp add: Destroy_def case_prod_beta sdk_defs toy_data toyWait_def state_defs logc_def)

text \<open>
  C7 as stated says that a second \<open>Destroy\<close> never returns an error, and that the
  wait of a retry uses the longer timeout. On the small backend every wait shorter
  than 60 times out, and the driver has a creation timeout of 10, below its default
  timeout of 30: the first \<open>Destroy\<close> of volume \<open>a\<close> issues the delete and times
  out, the second finds the volume in state Deleting, waits with the timeout of 10 and
  returns the timeout error.
\<close>

theorem Destroy_twice_counterexample:
  "fst (Destroy (toyDriver NFS []) (toyConfig ''a'' [] [])
          (snd (Destroy (toyDriver NFS []) (toyConfig ''a'' [] []) (toyWorld toyVolumes))))
     = Some toyTimeout
   \<and> last (calls (snd (Destroy (toyDriver NFS []) (toyConfig ''a'' [] [])
                         (snd (Destroy (toyDriver NFS []) (toyConfig ''a'' [] []) (toyWorld toyVolumes))))))
       = CallWaitForVolumeState (toyVolume ''a'' ''trident-a'' StateDeleting) StateDeleted [StateError] 10
   \<and> volumeCreateTimeout (toyDriver NFS []) = 10
   \<and> defaultTimeout (toyDriver NFS []) = 30"
proof -
  have 0: "backend (toyWorld toyVolumes) = toySetState ''trident-a'' StateAvailable toyVolumes"
    by (simp add: toy_data)
  have s: "StateAvailable \<noteq> StateDeleted" "StateDeleting \<noteq> StateDeleted"
    by (simp_all add: state_defs)
  note first = toyDestroy_timeout [OF 0 s(1)]
  from toyDestroy_timeout [OF first [THEN conjunct2] s(2)]
    toyDestroy_retry_calls [OF first [THEN conjunct2]] show ?thesis
    by simp
qed

section \<open>Create: the calls it makes and the requests it sends\<close>

lemma waitForVolumeCreate_createRequests:
  "createRequests (calls (snd (waitForVolumeCreate d v w))) = createRequests (calls w)"
proof -
  obtain st e w1 where 1:
    "sdkWaitForVolumeState d v StateAvailable [StateError] (volumeCreateTimeout d) w = ((st, e), w1)"
    by (metis prod.exhaust)
  have c1: "createRequests (calls w1) = createRequests (calls w)"
    using sdk_calls(9) [of d v StateAvailable "[StateError]" "volumeCreateTimeout d" w] 1 by simp
  show ?thesis
  proof (cases e)
    case None
    with 1 c1 show ?thesis by (simp add: waitForVolumeCreate_def)
  next
    case (Some err)
    obtain r2 w2 where 2: "sdkWaitForVolumeState d v StateDeleted [StateError] (defaultTimeout d) w1 = (r2, w2)"
      by (metis prod.exhaust)
    have c2: "createRequests (calls w2) = createRequests (calls w1)"
      using sdk_calls(9) [of d v StateDeleted "[StateError]" "defaultTimeout d" w1] 2 by simp
    obtain r3 w3 where 3: "sdkDeleteVolume d v w1 = (r3, w3)"
      by (metis prod.exhaust)
    have c3: "createRequests (calls w3) = createRequests (calls w1)"
      using sdk_calls(7) [of d v w1] 3 by simp
    from 1 Some c1 2 c2 3 c3 show ?thesis
      by (simp add: waitForVolumeCreate_def split: option.split prod.split)
  qed
qed

lemma Create_checks_createRequests:
  "createRequests (calls (snd (Create_checks d vc sp w))) = createRequests (calls w)"
proof -
  obtain r1 w1 where 1: "sdkRefreshAzureResources d w = (r1, w1)"
    by (metis prod.exhaust)
  have c1: "createRequests (calls w1) = createRequests (calls w)"
    using sdk_calls(1) [of d w] 1 by simp
  obtain r2 w2 where 2: "sdkVolumeExists d vc w1 = (r2, w2)"
    by (metis prod.exhaust)
  have c2: "createRequests (calls w2) = createRequests (calls w1)"
    using sdk_calls(2) [of d vc w1] 2 by simp
  from 1 c1 2 c2 show ?thesis
    by (simp add: Create_checks_def Let_def split: option.split sum.split)
qed

lemma Create_checks_Inr:
  assumes "Create_checks d vc sp w = (Inr pool, w1)"
  shows "\<exists>sp0. sp = Some sp0 \<and> pools d (pool_Name sp0) = Some pool"
proof -
  obtain r1 w1 where 1: "sdkRefreshAzureResources d w = (r1, w1)"
    by (metis prod.exhaust)
  obtain r2 w2 where 2: "sdkVolumeExists d vc w1 = (r2, w2)"
    by (metis prod.exhaust)
  from assms 1 2 show ?thesis
    by (simp add: Create_checks_def Let_def split: option.splits sum.splits if_splits)
qed

lemma calls_if_logc: "calls (if b then logc lv f a e w else w) = calls w"
  by simp

lemma Create_size_calls: "calls (snd (Create_size d vc pool w)) = calls w"
proof (cases "ConvertSizeToBytes (ext d) (vc_Size vc)")
  case (Inl e)
  then show ?thesis by (simp add: Create_size_def)
next
  case c: (Inr requestedSize)
  show ?thesis
  proof (cases "ParseUint requestedSize")
    case (Inl e)
    with c show ?thesis by (simp add: Create_size_def)
  next
    case p: (Inr parsed)
    from c p show ?thesis
      by (simp add: Create_size_def Let_def calls_if_logc split: option.split del: if_split)
  qed
qed

lemma Create_prepare_createRequests:
  "createRequests (calls (snd (Create_prepare d vc sp w))) = createRequests (calls w)"
proof -
  obtain r1 w1 where 1: "Create_checks d vc sp w = (r1, w1)"
    by (metis prod.exhaust)
  have c1: "createRequests (calls w1) = createRequests (calls w)"
    using Create_checks_createRequests [of d vc sp w] 1 by simp
  show ?thesis
  proof (cases r1)
    case (Inl e)
    with 1 c1 show ?thesis by (simp add: Create_prepare_def)
  next
    case (Inr pool)
    obtain r2 w2 where 2: "Create_size d vc pool w1 = (r2, w2)"
      by (metis prod.exhaust)
    have c2: "createRequests (calls w2) = createRequests (calls w)"
      using Create_size_calls [of d vc pool w1] 2 c1 by simp
    show ?thesis
    proof (cases r2)
      case (Inl e)
      with 1 Inr 2 c2 show ?thesis by (simp add: Create_prepare_def)
    next
      case sz: (Inr sizeBytes)
      obtain r3 w3 where 3: "sdkRandomSubnetForStoragePool d pool w2 = (r3, w3)"
        by (metis prod.exhaust)
      have c3: "createRequests (calls w3) = createRequests (calls w)"
        using sdk_calls(10) [of d pool w2] 3 c2 by simp
      from 1 Inr 2 sz 3 c2 c3 show ?thesis
        by (simp add: Create_prepare_def case_prod_beta
              split: sum.split option.split del: if_split)
    qed
  qed
qed

lemma Create_attributes_Inr:
  assumes "Create_attributes d vc pool sizeBytes = Inr (vc1, l)"
  shows "Create_protocol d pool
             (if vc_MountOptions vc \<noteq> [] then vc_MountOptions vc else NfsMountOptions (Config d))
           = Inr (l_protocolTypes l, l_exportPolicy l, l_kerberosEnabled l)
         \<and> l_sizeBytes l = sizeBytes \<and> l_name l = vc_InternalName vc"
  using assms
  by (auto simp: Create_attributes_def Let_def split: sum.splits prod.splits)

lemma Create_prepare_Inr:
  assumes "Create_prepare d vc sp w = (Inr (vc1, l, subnet, cPools), w4)"
  shows "\<exists>pool w1 w2.
           Create_checks d vc sp w = (Inr pool, w1)
           \<and> Create_size d vc pool w1 = (Inr (l_sizeBytes l), w2)
           \<and> Create_protocol d pool
                 (if vc_MountOptions vc \<noteq> [] then vc_MountOptions vc else NfsMountOptions (Config d))
               = Inr (l_protocolTypes l, l_exportPolicy l, l_kerberosEnabled l)
           \<and> l_name l = vc_InternalName vc
           \<and> cPools \<noteq> []"
proof -
  obtain r1 w1 where c: "Create_checks d vc sp w = (r1, w1)" by (cases "Create_checks d vc sp w")
  show ?thesis
  proof (cases r1)
    case (Inl e)
    with assms c show ?thesis by (simp add: Create_prepare_def)
  next
    case (Inr pool)
    obtain r2 w2 where s: "Create_size d vc pool w1 = (r2, w2)" by (cases "Create_size d vc pool w1")
    show ?thesis
    proof (cases r2)
      case (Inl e)
      with assms c Inr s show ?thesis by (simp add: Create_prepare_def)
    next
      case sz: (Inr sizeBytes)
      show ?thesis
      proof (cases "Create_attributes d vc pool sizeBytes")
        case (Inl e)
        with assms c Inr s sz show ?thesis by (simp add: Create_prepare_def)
      next
        case a: (Inr p)
        obtain vc1' l' where p: "p = (vc1', l')" by (cases p)
        obtain r3 w3 where 3: "sdkRandomSubnetForStoragePool d pool w2 = (r3, w3)"
          by (metis prod.exhaust)
        from assms c Inr s sz a p 3 have "l' = l \<and> cPools \<noteq> []"
          by (auto simp: Create_prepare_def case_prod_beta split: option.splits if_splits)
        with Create_attributes_Inr [OF a [unfolded p]] c Inr s sz show ?thesis
          by auto
      qed
    qed
  qed
qed

lemma multierr_Combine_Nil: "multierr_Combine [] = None"
  by (simp add: multierr_Combine_def map_filter_def)

lemma combinedError_snoc:
  assumes "length cs = length es"
  shows "multierr_Combine [combinedError t name cs es, Some (Errorf (createErrMessage t c name e) [])]
           = combinedError t name (cs @ [c]) (es @ [e])"
proof (cases cs)
  case Nil
  with assms show ?thesis
    by (simp add: combinedError_def multierr_Combine_def map_filter_def)
next
  case c1: (Cons c1 cs1)
  then obtain e1 es1 where e1: "es = e1 # es1" "length cs1 = length es1"
    using assms by (cases es) auto
  show ?thesis
  proof (cases cs1)
    case Nil
    with c1 e1 show ?thesis
      by (simp add: combinedError_def multierr_Combine_def map_filter_def)
  next
    case (Cons c2 cs2)
    then obtain e2 es2 where e2: "es1 = e2 # es2" "length cs2 = length es2"
      using e1 by (cases es1) auto
    with c1 e1 Cons show ?thesis
      by (simp add: combinedError_def multierr_Combine_def map_filter_def)
  qed
qed

lemma sdkCreateVolume_calls:
  "sdkCreateVolume d r w = (x, w1) \<Longrightarrow> calls w1 = calls w @ [CallCreateVolume r]"
  using sdk_calls(6) [of d r w] by simp

lemma Create_loop_all_fail:
  assumes "failedAttempts d vc l subnet cs w = Some (errs, w')"
      and "length cs0 = length errs0"
  shows "Create_loop d vc l subnet cs (combinedError (errorString (ext d)) (l_name l) cs0 errs0) w
           = ((combinedError (errorString (ext d)) (l_name l) (cs0 @ cs) (errs0 @ errs), vc), w')
         \<and> calls w' = calls w @ map (\<lambda>c. CallCreateVolume (Create_request d vc l subnet c)) cs
         \<and> length errs = length cs"
  using assms
proof (induction cs arbitrary: w errs cs0 errs0)
  case Nil
  then show ?case by simp
next
  case (Cons c cs)
  obtain r w1 where 1: "sdkCreateVolume d (Create_request d vc l subnet c) w = (r, w1)"
    by (metis prod.exhaust)
  note c1 = sdkCreateVolume_calls [OF 1]
  show ?case
  proof (cases r)
    case (Inr v)
    with Cons.prems 1 show ?thesis by simp
  next
    case (Inl e)
    let ?w1 = "logc Error (createErrMessage (errorString (ext d)) c (l_name l) e)
                 [] None w1"
    from Cons.prems(1) 1 Inl obtain errs' where
      f: "failedAttempts d vc l subnet cs ?w1 = Some (errs', w')" and e: "errs = e # errs'"
      by (auto split: option.splits)
    have len: "length (cs0 @ [c]) = length (errs0 @ [e])"
      using Cons.prems(2) by simp
    from Cons.IH [OF f len] 1 Inl e c1 combinedError_snoc [OF Cons.prems(2), of "errorString (ext d)" "l_name l" c e]
    show ?thesis by simp
  qed
qed

lemma Create_loop_success:
  assumes "failedAttempts d vc l subnet pre w = Some (errs, w1)"
      and "sdkCreateVolume d (Create_request d vc l subnet c) w1 = (Inr volume, w2)"
  shows "Create_loop d vc l subnet (pre @ c # post) acc w
           = ((fst (waitForVolumeCreate d volume w2), vc\<lparr>vc_InternalID := fs_ID volume\<rparr>),
              snd (waitForVolumeCreate d volume w2))
         \<and> calls w2 = calls w @ map (\<lambda>c. CallCreateVolume (Create_request d vc l subnet c)) (pre @ [c])"
  using assms
proof (induction pre arbitrary: w errs acc)
  case Nil
  then show ?case
    using sdkCreateVolume_calls [of d "Create_request d vc l subnet c" w "Inr volume" w2]
    by (simp add: case_prod_beta)
next
  case (Cons p pre)
  obtain r w0 where 1: "sdkCreateVolume d (Create_request d vc l subnet p) w = (r, w0)"
    by (metis prod.exhaust)
  note c1 = sdkCreateVolume_calls [OF 1]
  show ?case
  proof (cases r)
    case (Inr v)
    with Cons.prems 1 show ?thesis by simp
  next
    case (Inl e)
    let ?w0 = "logc Error (createErrMessage (errorString (ext d)) p (l_name l) e)
                 [] None w0"
    from Cons.prems(1) 1 Inl obtain errs' where
      f: "failedAttempts d vc l subnet pre ?w0 = Some (errs', w1)"
      by (auto split: option.splits)
    from Cons.IH [OF f Cons.prems(2)] 1 Inl c1 show ?thesis by simp
  qed
qed

lemma Create_loop_createRequests:
  "\<exists>n \<le> length cs. createRequests (calls (snd (Create_loop d vc l subnet cs acc w)))
      = createRequests (calls w) @ map (Create_request d vc l subnet) (take n cs)"
proof (induction cs arbitrary: w acc)
  case Nil
  then show ?case by simp
next
  case (Cons c cs)
  obtain r w1 where 1: "sdkCreateVolume d (Create_request d vc l subnet c) w = (r, w1)"
    by (metis prod.exhaust)
  note c1 = sdkCreateVolume_calls [OF 1]
  show ?case
  proof (cases r)
    case (Inr v)
    have "createRequests (calls (snd (Create_loop d vc l subnet (c # cs) acc w)))
            = createRequests (calls w) @ map (Create_request d vc l subnet) (take 1 (c # cs))"
      using 1 Inr c1 waitForVolumeCreate_createRequests [of d v w1]
      by (simp add: case_prod_beta)
    then show ?thesis
      by (intro exI [of _ 1]) simp
  next
    case (Inl e)
    let ?w1 = "logc Error (createErrMessage (errorString (ext d)) c (l_name l) e)
                 [] None w1"
    let ?acc = "multierr_Combine [acc, Some (Errorf (createErrMessage (errorString (ext d)) c (l_name l) e) [])]"
    from Cons.IH [of ?acc ?w1] obtain n where
      n: "n \<le> length cs"
         "createRequests (calls (snd (Create_loop d vc l subnet cs ?acc ?w1)))
            = createRequests (calls ?w1) @ map (Create_request d vc l subnet) (take n cs)"
      by blast
    have "createRequests (calls (snd (Create_loop d vc l subnet (c # cs) acc w)))
            = createRequests (calls w) @ map (Create_request d vc l subnet) (take (Suc n) (c # cs))"
      using 1 Inl c1 n(2) by (simp add: Let_def)
    with n(1) show ?thesis
      by (intro exI [of _ "Suc n"]) simp
  qed
qed

lemma Create_new_requests:
  assumes "createRequests (calls (snd (Create d vc sp w))) = createRequests (calls w) @ rs"
      and "r \<in> set rs"
  shows "\<exists>vc1 l subnet cPools w4 c.
           Create_prepare d vc sp w = (Inr (vc1, l, subnet, cPools), w4)
           \<and> c \<in> set cPools \<and> r = Create_request d vc1 l subnet c"
proof -
  obtain x w4 where p: "Create_prepare d vc sp w = (x, w4)"
    by (metis prod.exhaust)
  have c4: "createRequests (calls w4) = createRequests (calls w)"
    using Create_prepare_createRequests [of d vc sp w] p by simp
  show ?thesis
  proof (cases x)
    case (Inl e)
    with p c4 assms show ?thesis
      by (simp add: Create_def case_prod_beta)
  next
    case (Inr y)
    obtain vc1 l subnet cPools where y: "y = (vc1, l, subnet, cPools)"
      by (metis prod.exhaust)
    from Create_loop_createRequests [of cPools d vc1 l subnet "multierr_Combine []" w4]
    obtain n where n: "createRequests (calls (snd (Create_loop d vc1 l subnet cPools (multierr_Combine []) w4)))
      = createRequests (calls w4) @ map (Create_request d vc1 l subnet) (take n cPools)"
      by blast
    have "rs = map (Create_request d vc1 l subnet) (take n cPools)"
      using assms(1) n c4 p Inr y by (simp add: Create_def)
    with assms(2) obtain c where "c \<in> set (take n cPools)" "r = Create_request d vc1 l subnet c"
      by auto
    then have "c \<in> set cPools \<and> r = Create_request d vc1 l subnet c"
      by (auto dest: in_set_takeD)
    with p Inr y show ?thesis by blast
  qed
qed

lemma Create_new_requests_pool:
  assumes "createRequests (calls (snd (Create d vc (Some sp) w))) = createRequests (calls w) @ rs"
      and "r \<in> set rs"
      and "pools d (pool_Name sp) = Some pool"
  shows "\<exists>vc1 l subnet c w1 w2.
           r = Create_request d vc1 l subnet c
           \<and> Create_checks d vc (Some sp) w = (Inr pool, w1)
           \<and> Create_size d vc pool w1 = (Inr (l_sizeBytes l), w2)
           \<and> Create_protocol d pool
                 (if vc_MountOptions vc \<noteq> [] then vc_MountOptions vc else NfsMountOptions (Config d))
               = Inr (l_protocolTypes l, l_exportPolicy l, l_kerberosEnabled l)"
proof -
  from Create_new_requests [OF assms(1,2)] obtain vc1 l subnet cPools w4 c where
    p: "Create_prepare d vc (Some sp) w = (Inr (vc1, l, subnet, cPools), w4)"
    and r: "r = Create_request d vc1 l subnet c"
    by blast
  from Create_prepare_Inr [OF p] obtain pool' w1 w2 where
    q: "Create_checks d vc (Some sp) w = (Inr pool', w1)"
       "Create_size d vc pool' w1 = (Inr (l_sizeBytes l), w2)"
       "Create_protocol d pool'
                 (if vc_MountOptions vc \<noteq> [] then vc_MountOptions vc else NfsMountOptions (Config d))
               = Inr (l_protocolTypes l, l_exportPolicy l, l_kerberosEnabled l)"
    by blast
  from Create_checks_Inr [OF q(1)] assms(3) have "pool' = pool" by simp
  with q r show ?thesis by blast
qed

lemma Create_protocol_kerberos:
  assumes "NASType (Config d) \<noteq> SMB"
      and "attr (InternalAttributes pool) Kerberos = kerberos"
      and "kerberos = MountOptionKerberos5 \<or> kerberos = MountOptionKerberos5I
           \<or> kerberos = MountOptionKerberos5P"
      and "Create_protocol d pool mo = Inr (protocolTypes, exportPolicy, kerberosEnabled)"
  shows "protocolTypes = [ProtocolTypeNFSv41] \<and> kerberosEnabled
         \<and> (\<exists>rule. Rules exportPolicy = [rule]
               \<and> \<not> UnixReadOnly rule \<and> \<not> UnixReadWrite rule
               \<and> Kerberos5ReadWrite rule = (kerberos = MountOptionKerberos5)
               \<and> Kerberos5IReadWrite rule = (kerberos = MountOptionKerberos5I)
               \<and> Kerberos5PReadWrite rule = (kerberos = MountOptionKerberos5P)
               \<and> Nfsv41 rule \<and> \<not> Nfsv3 rule \<and> \<not> Cifs rule)"
proof -
  have k: "kerberos \<noteq> []"
    using assms(3)
    by (auto simp: MountOptionKerberos5_def MountOptionKerberos5I_def MountOptionKerberos5P_def)
  have dist: "MountOptionKerberos5 \<noteq> MountOptionKerberos5I" "MountOptionKerberos5 \<noteq> MountOptionKerberos5P"
    "MountOptionKerberos5I \<noteq> MountOptionKerberos5P"
    by (simp_all add: MountOptionKerberos5_def MountOptionKerberos5I_def MountOptionKerberos5P_def)
  obtain v where v: "GetNFSVersionFromMountOptions (nfsVersionInMountOptions (ext d)) mo
                  nfsVersion3 supportedNFSVersions = Inr v"
    using assms k by (auto simp: Create_protocol_def Let_def split: sum.splits if_splits)
  from assms(3) show ?thesis
  proof (elim disjE)
    assume "kerberos = MountOptionKerberos5"
    with assms(1,2,4) k v dist show ?thesis
      by (auto simp: Create_protocol_def Let_def)
  next
    assume "kerberos = MountOptionKerberos5I"
    with assms(1,2,4) k v dist show ?thesis
      by (auto simp: Create_protocol_def Let_def)
  next
    assume "kerberos = MountOptionKerberos5P"
    with assms(1,2,4) k v dist show ?thesis
      by (auto simp: Create_protocol_def Let_def)
  qed
qed

lemma Create_protocol_plain:
  assumes "NASType (Config d) \<noteq> SMB"
      and "attr (InternalAttributes pool) Kerberos = []"
      and "Create_protocol d pool mo = Inr (protocolTypes, exportPolicy, kerberosEnabled)"
  shows "\<exists>version rule.
           version = (case nfsVersionInMountOptions (ext d) mo of None \<Rightarrow> nfsVersion3 | Some v \<Rightarrow> v)
           \<and> version \<in> set supportedNFSVersions
           \<and> protocolTypes = (if version = nfsVersion3 then [ProtocolTypeNFSv3] else [ProtocolTypeNFSv41])
           \<and> \<not> kerberosEnabled
           \<and> Rules exportPolicy = [rule]
           \<and> Nfsv3 rule = (version = nfsVersion3) \<and> Nfsv41 rule = (version \<noteq> nfsVersion3)
           \<and> \<not> Cifs rule \<and> \<not> UnixReadOnly rule \<and> UnixReadWrite rule
           \<and> \<not> Kerberos5ReadWrite rule \<and> \<not> Kerberos5IReadWrite rule \<and> \<not> Kerberos5PReadWrite rule"
  using assms
  by (auto simp: Create_protocol_def GetNFSVersionFromMountOptions_def Let_def supportedNFSVersions_def
        nfsVersion3_def nfsVersion4_def nfsVersion41_def
        split: sum.splits if_splits option.splits)

lemma Create_protocol_unsupported:
  assumes "NASType (Config d) \<noteq> SMB"
      and "(case nfsVersionInMountOptions (ext d) mo of None \<Rightarrow> nfsVersion3 | Some v \<Rightarrow> v)
             \<notin> set supportedNFSVersions"
  shows "\<exists>e. Create_protocol d pool mo = Inl e"
  using assms
  by (auto simp: Create_protocol_def GetNFSVersionFromMountOptions_def Let_def)

lemma combinedError_flatten:
  assumes "length cs = length es" and "cs \<noteq> []"
  shows "\<exists>e. combinedError t name cs es = Some e
             \<and> multierr_flatten e
                 = map2 (\<lambda>cPool createErr. Errorf (createErrMessage t cPool name createErr) []) cs es"
proof -
  obtain c1 cs1 where c1: "cs = c1 # cs1" using assms(2) by (cases cs) auto
  then obtain e1 es1 where e1: "es = e1 # es1" "length cs1 = length es1"
    using assms(1) by (cases es) auto
  show ?thesis
  proof (cases cs1)
    case Nil
    with c1 e1 show ?thesis by (simp add: combinedError_def)
  next
    case (Cons c2 cs2)
    then obtain e2 es2 where "es1 = e2 # es2" using e1 by (cases es1) auto
    with c1 e1 Cons show ?thesis by (simp add: combinedError_def)
  qed
qed

lemma Create_attributes_Inl:
  assumes "Create_protocol d pool
             (if vc_MountOptions vc \<noteq> [] then vc_MountOptions vc else NfsMountOptions (Config d)) = Inl e"
  shows "\<exists>e'. Create_attributes d vc pool sizeBytes = Inl e'"
  using assms by (simp add: Create_attributes_def Let_def split: sum.split split del: if_split)

lemma Create_prepare_Inl:
  assumes "\<And>pool. pools d (pool_Name sp) = Some pool \<Longrightarrow> \<exists>e. Create_protocol d pool
             (if vc_MountOptions vc \<noteq> [] then vc_MountOptions vc else NfsMountOptions (Config d)) = Inl e"
  shows "\<exists>e vc'. fst (Create_prepare d vc (Some sp) w) = Inl (e, vc')"
proof -
  obtain r1 w1 where c: "Create_checks d vc (Some sp) w = (r1, w1)" by (metis prod.exhaust)
  show ?thesis
  proof (cases r1)
    case (Inl e)
    with c show ?thesis by (simp add: Create_prepare_def)
  next
    case (Inr pool)
    with Create_checks_Inr [of d vc "Some sp" w pool w1] c have "pools d (pool_Name sp) = Some pool"
      by simp
    from assms [OF this] obtain e where
      p: "Create_protocol d pool
             (if vc_MountOptions vc \<noteq> [] then vc_MountOptions vc else NfsMountOptions (Config d)) = Inl e"
      by blast
    obtain r2 w2 where s: "Create_size d vc pool w1 = (r2, w2)" by (metis prod.exhaust)
    show ?thesis
    proof (cases r2)
      case (Inl e2)
      with c Inr s show ?thesis by (simp add: Create_prepare_def)
    next
      case sz: (Inr sizeBytes)
      from Create_attributes_Inl [OF p, of sizeBytes] obtain e' where
        "Create_attributes d vc pool sizeBytes = Inl e'" by blast
      with c Inr s sz show ?thesis by (simp add: Create_prepare_def)
    qed
  qed
qed

lemma Create_of_prepare_Inl:
  assumes "fst (Create_prepare d vc sp w) = Inl (e, vc')"
  shows "fst (fst (Create d vc sp w)) = Some e
         \<and> createRequests (calls (snd (Create d vc sp w))) = createRequests (calls w)"
  using assms Create_prepare_createRequests [of d vc sp w]
  by (cases "Create_prepare d vc sp w") (simp add: Create_def)

lemma Create_request_simps [simp]:
  "req_ProtocolTypes (Create_request d vc l subnet c) = l_protocolTypes l"
  "req_QuotaInBytes (Create_request d vc l subnet c) = l_sizeBytes l"
  "req_KerberosEnabled (Create_request d vc l subnet c) = l_kerberosEnabled l"
  "req_ExportPolicy (Create_request d vc l subnet c)
     = (if NASType (Config d) = NFS then l_exportPolicy l else zeroExportPolicy)"
  "req_CapacityPool (Create_request d vc l subnet c) = cp_Name c"
  "req_NetAppAccount (Create_request d vc l subnet c) = cp_NetAppAccount c"
  "req_CreationToken (Create_request d vc l subnet c) = l_name l"
  "req_Name (Create_request d vc l subnet c) = vc_Name vc"
  by (simp_all add: Create_request_def)

lemma NFS_not_SMB: "NFS \<noteq> SMB"
  by (simp add: NFS_def SMB_def)

lemma createRequests_map [simp]: "createRequests (map (\<lambda>c. CallCreateVolume (f c)) cs) = map f cs"
  by (induction cs) simp_all

section \<open>The small backend at work\<close>

lemma toy_valid_names:
  "validateVolumeName ''v'' = None" "validateCreationToken ''trident-v'' = None"
  by (simp_all add: validateVolumeName_def volumeNameRegex_def validateCreationToken_def
        volumeCreationTokenRegex_def isLetter_def isDigit_def)

lemma toy_attr [simp]:
  "attr (InternalAttributes (toyPool k)) Kerberos = k"
  "attr (InternalAttributes (toyPool k)) Size = ''107374182400''"
  "attr (InternalAttributes (toyPool k)) SnapshotDir = ''false''"
  "attr (InternalAttributes (toyPool k)) ExportRuleAttr = ''0.0.0.0/0''"
  "attr (InternalAttributes (toyPool k)) ServiceLevel = ''Premium''"
  "attr (InternalAttributes (toyPool k)) UnixPermissions = []"
  "attr (InternalAttributes (toyPool k)) NetworkFeatures = []"
  "pool_Name (toyPool k) = ''pool''"
  "GetLabelsJSON (toyPool k) = Inr ''{}''"
  by (simp_all add: attr_def toyPool_def Kerberos_def Size_def SnapshotDir_def ExportRuleAttr_def
        ServiceLevel_def UnixPermissions_def NetworkFeatures_def)

lemma toyConfigSL_simps [simp]:
  "vc_Name (toyConfigSL name sz mo sl) = name"
  "vc_InternalName (toyConfigSL name sz mo sl) = ''trident-'' @ name"
  "vc_Size (toyConfigSL name sz mo sl) = sz"
  "vc_ServiceLevel (toyConfigSL name sz mo sl) = sl"
  "vc_SnapshotDir (toyConfigSL name sz mo sl) = []"
  "vc_UnixPermissions (toyConfigSL name sz mo sl) = []"
  "vc_MountOptions (toyConfigSL name sz mo sl) = mo"
  by (simp_all add: toyConfigSL_def toyConfig_def)

lemma toyConfigSL_Nil: "toyConfigSL name sz mo [] = toyConfig name sz mo"
  by (simp add: toyConfigSL_def toyConfig_def)

lemma toyExt_simps [simp]:
  "ConvertSizeToBytes toyExt s = Inr s"
  "CheckVolumeSizeLimits toyExt n =
     (if 1099511627776 < n then Some (Errorf ''requested size is above the limit'' []) else None)"
  "Title toyExt s = s"
  "IsFeatureEnabled toyExt = None"
  by (simp_all add: toyExt_def)

lemma toy_ParseUint:
  "ParseUint ''53687091200'' = Inr 53687091200"
  "ParseUint ''107374182400'' = Inr 107374182400"
  by (simp_all add: ParseUint_def isDigit_def digitsValue_def)

lemma toy_calls:
  "\<exists>w1. sdkRefreshAzureResources (toyDriver n k) w = (None, w1) \<and> backend w1 = backend w"
  "\<exists>w1. sdkVolumeExists (toyDriver n k) vc w = (Inr (toyFind (vc_InternalName vc) (backend w)), w1)
      \<and> backend w1 = backend w"
  "\<exists>w1. sdkRandomSubnetForStoragePool (toyDriver n k) p w = (Some \<lparr> subnet_ID = ''subnet-1'' \<rparr>, w1)
      \<and> backend w1 = backend w"
  "\<exists>w1. sdkCapacityPoolsForStoragePool (toyDriver n k) p sl w = (toyCapacityPools sl, w1)
      \<and> backend w1 = backend w"
proof -
  show "\<exists>w1. sdkRefreshAzureResources (toyDriver n k) w = (None, w1) \<and> backend w1 = backend w"
    by (intro exI [of _ "snd (sdkRefreshAzureResources (toyDriver n k) w)"])
       (simp add: prod_eq_iff sdk_defs)
  show "\<exists>w1. sdkVolumeExists (toyDriver n k) vc w = (Inr (toyFind (vc_InternalName vc) (backend w)), w1)
      \<and> backend w1 = backend w"
    by (intro exI [of _ "snd (sdkVolumeExists (toyDriver n k) vc w)"])
       (simp add: prod_eq_iff sdk_defs)
  show "\<exists>w1. sdkRandomSubnetForStoragePool (toyDriver n k) p w = (Some \<lparr> subnet_ID = ''subnet-1'' \<rparr>, w1)
      \<and> backend w1 = backend w"
    by (intro exI [of _ "snd (sdkRandomSubnetForStoragePool (toyDriver n k) p w)"])
       (simp add: prod_eq_iff sdk_defs)
  show "\<exists>w1. sdkCapacityPoolsForStoragePool (toyDriver n k) p sl w = (toyCapacityPools sl, w1)
      \<and> backend w1 = backend w"
    by (intro exI [of _ "snd (sdkCapacityPoolsForStoragePool (toyDriver n k) p sl w)"])
       (simp add: prod_eq_iff sdk_defs)
qed

lemma toy_Create_checks:
  assumes "toyFind ''trident-v'' s = None"
  shows "\<exists>w1. Create_checks (toyDriver n k) (toyConfigSL ''v'' sz mo sl) (Some (toyPool k)) (toyWorld s)
           = (Inr (toyPool k), w1) \<and> backend w1 = s"
proof -
  let ?d = "toyDriver n k" and ?vc = "toyConfigSL ''v'' sz mo sl"
  from toy_calls(1) [of n k "toyWorld s"] obtain w1 where
    1: "sdkRefreshAzureResources ?d (toyWorld s) = (None, w1)" and b1: "backend w1 = s"
    by auto
  from toy_calls(2) [of n k ?vc w1] assms b1 obtain w2 where
    2: "sdkVolumeExists ?d ?vc w1 = (Inr None, w2)" and b2: "backend w2 = s"
    by auto
  have "Create_checks ?d ?vc (Some (toyPool k)) (toyWorld s) = (Inr (toyPool k), w2)"
    using 1 2 toy_valid_names by (cases "k = []") (simp_all add: Create_checks_def Let_def)
  with b2 show ?thesis by blast
qed

lemma toy_Create_size:
  "fst (Create_size (toyDriver n k) (toyConfigSL ''v'' ''53687091200'' mo sl) (toyPool k) w)
     = Inr 107374182400"
  "fst (Create_size (toyDriver n k) (toyConfigSL ''v'' ''107374182400'' mo sl) (toyPool k) w)
     = Inr 107374182400"
  "backend (snd (Create_size d vc pool w)) = backend w"
  by (simp_all add: Create_size_def Let_def toy_ParseUint CheckMinVolumeSize_def logc_def
        MinimumVolumeSizeBytes_def MinimumANFVolumeSizeBytes_def split: sum.split option.split)

lemma toy_ParseBool: "ParseBool ''false'' = Inr False"
  by (simp add: ParseBool_def)

lemma toy_Create_attributes:
  assumes "Create_protocol (toyDriver n k) (toyPool k) (if mo \<noteq> [] then mo else ''nfsvers=3'')
             = Inr (pt, ep, ke)"
  shows "\<exists>vc1 l. Create_attributes (toyDriver n k) (toyConfigSL ''v'' sz mo sl) (toyPool k) n0
                   = Inr (vc1, l)
           \<and> l_serviceLevel l = (if sl = [] then ''Premium'' else sl)
           \<and> l_protocolTypes l = pt \<and> l_exportPolicy l = ep \<and> l_kerberosEnabled l = ke
           \<and> l_sizeBytes l = n0 \<and> l_name l = ''trident-v'' \<and> vc_Name vc1 = ''v''"
  using assms
  by (cases "mo = []"; cases "sl = []") (simp_all add: Create_attributes_def Let_def toy_ParseBool)

lemma toy_Create_prepare:
  assumes "toyFind ''trident-v'' s = None"
      and "sz = ''53687091200'' \<or> sz = ''107374182400''"
      and "Create_protocol (toyDriver n k) (toyPool k) (if mo \<noteq> [] then mo else ''nfsvers=3'')
             = Inr (pt, ep, ke)"
  shows "\<exists>vc1 l w4.
           Create_prepare (toyDriver n k) (toyConfigSL ''v'' sz mo sl) (Some (toyPool k)) (toyWorld s)
             = (Inr (vc1, l, \<lparr> subnet_ID = ''subnet-1'' \<rparr>,
                     toyCapacityPools (if sl = [] then ''Premium'' else sl)), w4)
           \<and> backend w4 = s
           \<and> l_protocolTypes l = pt \<and> l_exportPolicy l = ep \<and> l_kerberosEnabled l = ke
           \<and> l_sizeBytes l = 107374182400 \<and> l_name l = ''trident-v'' \<and> vc_Name vc1 = ''v''"
proof -
  let ?d = "toyDriver n k" and ?vc = "toyConfigSL ''v'' sz mo sl"
  from toy_Create_checks [OF assms(1), of n k sz mo sl] obtain w1 where
    1: "Create_checks ?d ?vc (Some (toyPool k)) (toyWorld s) = (Inr (toyPool k), w1)"
    and b1: "backend w1 = s"
    by blast
  have "fst (Create_size ?d ?vc (toyPool k) w1) = Inr 107374182400"
    using assms(2) toy_Create_size(1,2) [of n k mo sl w1] by auto
  with toy_Create_size(3) [of ?d ?vc "toyPool k" w1] b1 obtain w2 where
    2: "Create_size ?d ?vc (toyPool k) w1 = (Inr 107374182400, w2)" and b2: "backend w2 = s"
    by (cases "Create_size ?d ?vc (toyPool k) w1") auto
  from toy_Create_attributes [OF assms(3), of sz sl 107374182400] obtain vc1 l where
    3: "Create_attributes ?d ?vc (toyPool k) 107374182400 = Inr (vc1, l)"
    and l: "l_serviceLevel l = (if sl = [] then ''Premium'' else sl)"
      "l_protocolTypes l = pt" "l_exportPolicy l = ep" "l_kerberosEnabled l = ke"
      "l_sizeBytes l = 107374182400" "l_name l = ''trident-v''" "vc_Name vc1 = ''v''"
    by blast
  from toy_calls(3) [of n k "toyPool k" w2] b2 obtain w3 where
    4: "sdkRandomSubnetForStoragePool ?d (toyPool k) w2 = (Some \<lparr> subnet_ID = ''subnet-1'' \<rparr>, w3)"
    and b3: "backend w3 = s"
    by auto
  from toy_calls(4) [of n k "toyPool k" "l_serviceLevel l" w3] b3 l(1) obtain w4 where
    5: "sdkCapacityPoolsForStoragePool ?d (toyPool k) (l_serviceLevel l) w3
             = (toyCapacityPools (if sl = [] then ''Premium'' else sl), w4)"
    and b4: "backend w4 = s"
    by auto
  have ne: "toyCapacityPools x \<noteq> []" for x
    by (simp add: toyCapacityPools_def)
  have "Create_prepare ?d ?vc (Some (toyPool k)) (toyWorld s)
          = (Inr (vc1, l, \<lparr> subnet_ID = ''subnet-1'' \<rparr>,
                  toyCapacityPools (if sl = [] then ''Premium'' else sl)), w4)"
    using 1 2 3 4 5 ne by (simp add: Create_prepare_def del: toyDriver_simps)
  with b4 l show ?thesis by blast
qed

section \<open>Create on the small backend\<close>

text \<open>
  On the small backend \<open>Create\<close> of a new volume \<open>v\<close> finds three Premium
  capacity pools, of which the first is exhausted, and two Ultra ones, both exhausted.
  The volume is created in state Creating and the wait of \<open>volumeCreateTimeout\<close>
  times out, so a run that reaches the wait returns the retryable error.
\<close>

lemma toy_create_exhausted:
  assumes "cp_NetAppAccount c = ''exhausted''"
  shows "\<exists>w1. sdkCreateVolume (toyDriver n k) (Create_request (toyDriver n k) vc l subnet c) w
                 = (Inl (toyNoSpace (cp_Name c)), w1) \<and> backend w1 = backend w"
  using assms
  by (intro exI [of _ "snd (sdkCreateVolume (toyDriver n k) (Create_request (toyDriver n k) vc l subnet c) w)"])
     (simp add: prod_eq_iff sdk_defs toyCreate_def)

lemma toy_create_ok:
  assumes "cp_NetAppAccount c \<noteq> ''exhausted''" and "vc_Name vc \<noteq> ''bad''"
  shows "\<exists>v w1. sdkCreateVolume (toyDriver n k) (Create_request (toyDriver n k) vc l subnet c) w
                   = (Inr v, w1)
           \<and> backend w1 = backend w @ [v] \<and> fs_ProvisioningState v = StateCreating"
  using assms
  by (intro exI [of _ "snd (sdkCreateVolume (toyDriver n k) (Create_request (toyDriver n k) vc l subnet c) w)"]
            exI [of _ "projr (fst (toyCreate (Create_request (toyDriver n k) vc l subnet c) (backend w)))"])
     (simp add: prod_eq_iff sdk_defs toyCreate_def Let_def toyVolume_def)

lemma toy_failedAttempts:
  assumes "\<forall>c \<in> set cs. cp_NetAppAccount c = ''exhausted''"
  shows "\<exists>w1. failedAttempts (toyDriver n k) vc l subnet cs w
                 = Some (map (\<lambda>c. toyNoSpace (cp_Name c)) cs, w1) \<and> backend w1 = backend w"
  using assms
proof (induction cs arbitrary: w)
  case Nil
  then show ?case by simp
next
  case (Cons c cs)
  from toy_create_exhausted [of c n k vc l subnet w] Cons.prems obtain w1 where
    1: "sdkCreateVolume (toyDriver n k) (Create_request (toyDriver n k) vc l subnet c) w
          = (Inl (toyNoSpace (cp_Name c)), w1)" and b1: "backend w1 = backend w"
    by auto
  let ?w1 = "logc Error (createErrMessage (errorString (ext (toyDriver n k))) c (l_name l) (toyNoSpace (cp_Name c)))
               [] None w1"
  from Cons.IH [of ?w1] Cons.prems obtain w2 where
    2: "failedAttempts (toyDriver n k) vc l subnet cs ?w1
          = Some (map (\<lambda>c. toyNoSpace (cp_Name c)) cs, w2)" and b2: "backend w2 = backend ?w1"
    by auto
  from 1 2 b1 b2 show ?case by (simp add: logc_def)
qed

lemma toy_wait_timeout:
  assumes "backend w = [v]" and "fs_ProvisioningState v = StateCreating"
  shows "fst (waitForVolumeCreate (toyDriver n k) v w) = Some (VolumeCreatingError ''%s'' [ArgE toyTimeout])"
proof -
  have "\<exists>w1. sdkWaitForVolumeState (toyDriver n k) v StateAvailable [StateError] 10 w
               = ((StateCreating, Some toyTimeout), w1)"
    using assms
    by (intro exI [of _ "snd (sdkWaitForVolumeState (toyDriver n k) v StateAvailable [StateError] 10 w)"])
       (simp add: prod_eq_iff sdk_defs toyWait_def toyFind_def state_defs)
  then obtain w1 where
    "sdkWaitForVolumeState (toyDriver n k) v StateAvailable [StateError] 10 w
       = ((StateCreating, Some toyTimeout), w1)"
    by blast
  then show ?thesis
    by (simp add: waitForVolumeCreate_def)
qed

lemma toyConfig_simps [simp]:
  "vc_Name (toyConfig name sz mo) = name"
  "vc_InternalName (toyConfig name sz mo) = ''trident-'' @ name"
  by (simp_all add: toyConfig_def)

lemma toyCapacityPools_simps [simp]:
  "toyCapacityPools ''Premium'' = [toyP1, toyP2, toyP3]"
  "toyCapacityPools ''Ultra'' = [toyU1, toyU2]"
  "cp_NetAppAccount toyP1 = ''exhausted''" "cp_NetAppAccount toyP2 = ''account''"
  "cp_NetAppAccount toyU1 = ''exhausted''" "cp_NetAppAccount toyU2 = ''exhausted''"
  "cp_Name toyP1 = ''p1''" "cp_Name toyP2 = ''p2''" "cp_Name toyU1 = ''u1''" "cp_Name toyU2 = ''u2''"
  by (simp_all add: toyCapacityPools_def toyP1_def toyP2_def toyU1_def toyU2_def)

lemma toy_run:
  assumes "sz = ''53687091200'' \<or> sz = ''107374182400''"
      and "Create_protocol (toyDriver n k) (toyPool k) (if mo \<noteq> [] then mo else ''nfsvers=3'')
             = Inr (pt, ep, ke)"
  shows "\<exists>vc1 l subnet.
           createRequests (calls (snd (Create (toyDriver n k) (toyConfigSL ''v'' sz mo [])
                                         (Some (toyPool k)) (toyWorld []))))
             = [Create_request (toyDriver n k) vc1 l subnet toyP1,
                Create_request (toyDriver n k) vc1 l subnet toyP2]
           \<and> l_protocolTypes l = pt \<and> l_exportPolicy l = ep \<and> l_kerberosEnabled l = ke
           \<and> l_sizeBytes l = 107374182400
           \<and> fst (fst (Create (toyDriver n k) (toyConfigSL ''v'' sz mo []) (Some (toyPool k))
                          (toyWorld [])))
               = Some (VolumeCreatingError ''%s'' [ArgE toyTimeout])"
proof -
  let ?d = "toyDriver n k" and ?vc = "toyConfigSL ''v'' sz mo []"
  have f: "toyFind ''trident-v'' [] = None"
    by (simp add: toyFind_def)
  from toy_Create_prepare [OF f assms, of "[]"] obtain vc1 l w4 where
    p: "Create_prepare ?d ?vc (Some (toyPool k)) (toyWorld [])
          = (Inr (vc1, l, \<lparr> subnet_ID = ''subnet-1'' \<rparr>, [toyP1, toyP2, toyP3]), w4)"
    and b4: "backend w4 = []"
    and l: "l_protocolTypes l = pt" "l_exportPolicy l = ep" "l_kerberosEnabled l = ke"
      "l_sizeBytes l = 107374182400" "vc_Name vc1 = ''v''"
    by auto
  let ?sn = "\<lparr> subnet_ID = ''subnet-1'' \<rparr>"
  from toy_failedAttempts [of "[toyP1]" n k vc1 l ?sn w4] b4 obtain w5 where
    fa: "failedAttempts ?d vc1 l ?sn [toyP1] w4 = Some ([toyNoSpace ''p1''], w5)"
    and b5: "backend w5 = []"
    by auto
  from toy_create_ok [of toyP2 vc1 n k l ?sn w5] l(5) b5 obtain v w6 where
    ok: "sdkCreateVolume ?d (Create_request ?d vc1 l ?sn toyP2) w5 = (Inr v, w6)"
    and b6: "backend w6 = [v]" and st: "fs_ProvisioningState v = StateCreating"
    by auto
  have c4: "createRequests (calls w4) = []"
    using Create_prepare_createRequests [of ?d ?vc "Some (toyPool k)" "toyWorld []"] p by simp
  have run: "Create ?d ?vc (Some (toyPool k)) (toyWorld [])
               = Create_loop ?d vc1 l ?sn ([toyP1] @ toyP2 # [toyP3]) (multierr_Combine []) w4"
    using p by (simp add: Create_def)
  note L = Create_loop_success [OF fa ok, of "[toyP3]" "multierr_Combine []"]
  from L run c4 waitForVolumeCreate_createRequests [of ?d v w6] toy_wait_timeout [OF b6 st, of n k] l
  show ?thesis
    by (intro exI [of _ vc1] exI [of _ l] exI [of _ ?sn]) (simp del: toyDriver_simps)
qed

lemma toy_protocols:
  "\<exists>ep. Create_protocol (toyDriver NFS []) (toyPool []) ''nfsvers=3''
          = Inr ([ProtocolTypeNFSv3], ep, False)"
  "\<exists>ep. Create_protocol (toyDriver NFS []) (toyPool []) ''nfsvers=4.1''
          = Inr ([ProtocolTypeNFSv41], ep, False)"
  "\<exists>ep. Create_protocol (toyDriver NFS ''krb5'') (toyPool ''krb5'') ''nfsvers=3''
          = Inr ([ProtocolTypeNFSv41], ep, True)
        \<and> map Nfsv3 (Rules ep) = [False] \<and> map Nfsv41 (Rules ep) = [True]"
  "Create_protocol (toyDriver SMB ''krb5'') (toyPool ''krb5'') ''nfsvers=3''
          = Inr ([ProtocolTypeCIFS], zeroExportPolicy, True)"
  by (simp_all add: Create_protocol_def GetNFSVersionFromMountOptions_def Let_def toyExt_def
        supportedNFSVersions_def nfsVersion3_def nfsVersion4_def nfsVersion41_def
        MountOptionKerberos5_def MountOptionKerberos5I_def MountOptionKerberos5P_def NFS_def SMB_def)

section \<open>Create: a volume that already exists\<close>

text \<open>
  C1. Whenever \<open>Create\<close> reaches its existence check (refresh, name checks, pool
  lookup and kerberos entitlement passed) and the check finds a volume with the
  requested creation token: if that volume is in state Creating, \<open>Create\<close> returns the
  retryable \<open>VolumeCreatingError\<close>, otherwise it returns \<open>VolumeExistsError\<close>; in both
  cases the existence check is the last backend call and no create call is issued.
\<close>

theorem Create_existing_volume:
  assumes "sdkRefreshAzureResources d w = (None, w1)"
      and "validateVolumeName (vc_Name volConfig) = None"
      and "validateCreationToken (vc_InternalName volConfig) = None"
      and "pools d (pool_Name storagePool) = Some pool"
      and "attr (InternalAttributes pool) Kerberos \<noteq> [] \<longrightarrow> IsFeatureEnabled (ext d) = None"
      and "sdkVolumeExists d volConfig w1 = (Inr (Some extantVolume), w2)"
  shows "fst (fst (Create d volConfig (Some storagePool) w))
           = Some (if fs_ProvisioningState extantVolume = StateCreating
                   then VolumeCreatingError ''volume state is still %s, not %s''
                          [ArgS StateCreating, ArgS StateAvailable]
                   else VolumeExistsError (vc_InternalName volConfig))
       \<and> calls (snd (Create d volConfig (Some storagePool) w)) = calls w2
       \<and> createRequests (calls (snd (Create d volConfig (Some storagePool) w)))
           = createRequests (calls w)"
proof -
  have c: "createRequests (calls w2) = createRequests (calls w)"
    using assms(1,6) sdk_calls(1) [of d w] sdk_calls(2) [of d volConfig w1] by simp
  from assms c show ?thesis
    by (simp add: Create_def Create_prepare_def Create_checks_def Let_def)
qed

theorem Create_existing_volume_witness:
  "fst (fst (Create (toyDriver NFS []) (toyConfig ''d'' [] []) (Some (toyPool [])) (toyWorld toyVolumes)))
     = Some (VolumeCreatingError ''volume state is still %s, not %s''
               [ArgS StateCreating, ArgS StateAvailable])
   \<and> createRequests (calls (snd (Create (toyDriver NFS []) (toyConfig ''d'' [] []) (Some (toyPool []))
                                    (toyWorld toyVolumes)))) = []
   \<and> fst (fst (Create (toyDriver NFS []) (toyConfig ''a'' [] []) (Some (toyPool [])) (toyWorld toyVolumes)))
     = Some (VolumeExistsError ''trident-a'')
   \<and> createRequests (calls (snd (Create (toyDriver NFS []) (toyConfig ''a'' [] []) (Some (toyPool []))
                                    (toyWorld toyVolumes)))) = []"
proof -
  let ?d = "toyDriver NFS []" and ?w = "toyWorld toyVolumes"
  from toy_calls(1) [of NFS "[]" ?w] obtain w1 where
    1: "sdkRefreshAzureResources ?d ?w = (None, w1)" and b1: "backend w1 = toyVolumes"
    by auto
  have v: "validateVolumeName (vc_Name (toyConfig ''d'' [] [])) = None"
    "validateCreationToken (vc_InternalName (toyConfig ''d'' [] [])) = None"
    "validateVolumeName (vc_Name (toyConfig ''a'' [] [])) = None"
    "validateCreationToken (vc_InternalName (toyConfig ''a'' [] [])) = None"
    by (simp_all add: validateVolumeName_def volumeNameRegex_def
          validateCreationToken_def volumeCreationTokenRegex_def isLetter_def isDigit_def)
  have p: "pools ?d (pool_Name (toyPool [])) = Some (toyPool [])"
    by simp
  have k: "attr (InternalAttributes (toyPool [])) Kerberos \<noteq> [] \<longrightarrow> IsFeatureEnabled (ext ?d) = None"
    by simp
  from toy_calls(2) [of NFS "[]" "toyConfig ''d'' [] []" w1] b1 obtain w2 where
    d: "sdkVolumeExists ?d (toyConfig ''d'' [] []) w1
          = (Inr (Some (toyVolume ''d'' ''trident-d'' StateCreating)), w2)"
    by (auto simp: toy_data state_defs)
  from toy_calls(2) [of NFS "[]" "toyConfig ''a'' [] []" w1] b1 obtain w3 where
    a: "sdkVolumeExists ?d (toyConfig ''a'' [] []) w1
          = (Inr (Some (toyVolume ''a'' ''trident-a'' StateAvailable)), w3)"
    by (auto simp: toy_data state_defs)
  note D = Create_existing_volume [OF 1 v(1,2) p k d]
  note A = Create_existing_volume [OF 1 v(3,4) p k a]
  have s: "fs_ProvisioningState (toyVolume ''d'' ''trident-d'' StateCreating) = StateCreating"
    "fs_ProvisioningState (toyVolume ''a'' ''trident-a'' StateAvailable) \<noteq> StateCreating"
    by (simp_all add: toyVolume_def state_defs)
  have d1: "fst (fst (Create ?d (toyConfig ''d'' [] []) (Some (toyPool [])) ?w))
              = Some (VolumeCreatingError ''volume state is still %s, not %s''
                        [ArgS StateCreating, ArgS StateAvailable])"
    using D [THEN conjunct1] s(1) by simp
  have d3: "createRequests (calls (snd (Create ?d (toyConfig ''d'' [] []) (Some (toyPool [])) ?w))) = []"
    using D [THEN conjunct2, THEN conjunct2] by simp
  have a1: "fst (fst (Create ?d (toyConfig ''a'' [] []) (Some (toyPool [])) ?w))
              = Some (VolumeExistsError ''trident-a'')"
    using A [THEN conjunct1] s(2) by simp
  have a3: "createRequests (calls (snd (Create ?d (toyConfig ''a'' [] []) (Some (toyPool [])) ?w))) = []"
    using A [THEN conjunct2, THEN conjunct2] by simp
  from d1 d3 a1 a3 show ?thesis
    by blast
qed

section \<open>Create: placement on the capacity pools\<close>

text \<open>
  C2. When \<open>Create\<close> reaches placement, the candidate list \<open>cPools\<close> is not empty and
  the create request is sent to the candidates in listed order. If the create call fails
  for every candidate, each candidate got one request and \<open>Create\<close> returns a combined
  error with one part for each candidate, in order: the error made of the text
  \<open>ANF pool <candidate's name>; error creating volume <creation token>: <text of the
  candidate's own failure>\<close>, which is the format string of \<open>fmt.Errorf\<close>, with no
  arguments. If the candidates \<open>pre\<close> fail and the next one, \<open>cPool\<close>, succeeds, the
  requests sent are those for \<open>pre\<close> and \<open>cPool\<close> and no other, the volume's ID is
  stored in the volume config, and the result of \<open>Create\<close> is the result of
  \<open>waitForVolumeCreate\<close>.
\<close>

theorem Create_placement:
  assumes "Create_prepare d volConfig storagePool w = (Inr (volConfig1, l, subnet, cPools), w4)"
  shows "(failedAttempts d volConfig1 l subnet cPools w4 = Some (errs, w5) \<longrightarrow>
            (\<exists>e. fst (fst (Create d volConfig storagePool w)) = Some e
                 \<and> multierr_flatten e
                     = map2 (\<lambda>cPool createErr.
                               Errorf (''ANF pool '' @ cp_Name cPool @ ''; error creating volume ''
                                         @ vc_InternalName volConfig @ '': ''
                                         @ errorString (ext d) createErr) [])
                         cPools errs)
            \<and> length errs = length cPools
            \<and> snd (Create d volConfig storagePool w) = w5
            \<and> createRequests (calls w5)
                = createRequests (calls w) @ map (Create_request d volConfig1 l subnet) cPools)
       \<and> (cPools = pre @ cPool # post
            \<and> failedAttempts d volConfig1 l subnet pre w4 = Some (errs, w5)
            \<and> sdkCreateVolume d (Create_request d volConfig1 l subnet cPool) w5 = (Inr volume, w6) \<longrightarrow>
            Create d volConfig storagePool w
              = ((fst (waitForVolumeCreate d volume w6), volConfig1\<lparr>vc_InternalID := fs_ID volume\<rparr>),
                 snd (waitForVolumeCreate d volume w6))
            \<and> createRequests (calls (snd (Create d volConfig storagePool w)))
                = createRequests (calls w) @ map (Create_request d volConfig1 l subnet) (pre @ [cPool]))"
proof -
  have c4: "createRequests (calls w4) = createRequests (calls w)"
    using Create_prepare_createRequests [of d volConfig storagePool w] assms by simp
  have ne: "cPools \<noteq> []"
    using Create_prepare_Inr [OF assms] by blast
  have nm: "l_name l = vc_InternalName volConfig"
    using Create_prepare_Inr [OF assms] by blast
  have run: "Create d volConfig storagePool w
               = Create_loop d volConfig1 l subnet cPools
                   (combinedError (errorString (ext d)) (l_name l) [] []) w4"
    using assms by (simp add: Create_def combinedError_def multierr_Combine_Nil)
  have A: "(\<exists>e. fst (fst (Create d volConfig storagePool w)) = Some e
                 \<and> multierr_flatten e
                     = map2 (\<lambda>cPool createErr.
                               Errorf (''ANF pool '' @ cp_Name cPool @ ''; error creating volume ''
                                         @ vc_InternalName volConfig @ '': ''
                                         @ errorString (ext d) createErr) [])
                         cPools errs)
            \<and> length errs = length cPools
            \<and> snd (Create d volConfig storagePool w) = w5
            \<and> createRequests (calls w5)
                = createRequests (calls w) @ map (Create_request d volConfig1 l subnet) cPools"
    if f: "failedAttempts d volConfig1 l subnet cPools w4 = Some (errs, w5)"
  proof -
    note L = Create_loop_all_fail [OF f, of "[]" "[]", simplified]
    from L have len: "length cPools = length errs" by simp
    from combinedError_flatten [OF len ne, of "errorString (ext d)" "l_name l"] L run c4 nm
    show ?thesis
      by (simp add: comp_def createErrMessage_def)
  qed
  have B: "Create d volConfig storagePool w
              = ((fst (waitForVolumeCreate d volume w6), volConfig1\<lparr>vc_InternalID := fs_ID volume\<rparr>),
                 snd (waitForVolumeCreate d volume w6))
            \<and> createRequests (calls (snd (Create d volConfig storagePool w)))
                = createRequests (calls w) @ map (Create_request d volConfig1 l subnet) (pre @ [cPool])"
    if p: "cPools = pre @ cPool # post"
      and f: "failedAttempts d volConfig1 l subnet pre w4 = Some (errs, w5)"
      and s: "sdkCreateVolume d (Create_request d volConfig1 l subnet cPool) w5 = (Inr volume, w6)"
  proof -
    note L = Create_loop_success [OF f s, of post "combinedError (errorString (ext d)) (l_name l) [] []"]
    from L run p c4 waitForVolumeCreate_createRequests [of d volume w6] show ?thesis
      by (simp add: comp_def)
  qed
  from A B show ?thesis by blast
qed

theorem Create_placement_witness:
  "map req_CapacityPool
     (createRequests (calls (snd (Create (toyDriver NFS []) (toyConfigSL ''v'' ''53687091200'' [] [])
                                    (Some (toyPool [])) (toyWorld []))))) = [''p1'', ''p2'']
   \<and> fst (fst (Create (toyDriver NFS []) (toyConfigSL ''v'' ''53687091200'' [] [])
                  (Some (toyPool [])) (toyWorld [])))
       = Some (VolumeCreatingError ''%s'' [ArgE toyTimeout])
   \<and> map req_CapacityPool
       (createRequests (calls (snd (Create (toyDriver NFS []) (toyConfigSL ''v'' ''107374182400'' [] ''Ultra'')
                                      (Some (toyPool [])) (toyWorld []))))) = [''u1'', ''u2'']
   \<and> map_option multierr_flatten
       (fst (fst (Create (toyDriver NFS []) (toyConfigSL ''v'' ''107374182400'' [] ''Ultra'')
                    (Some (toyPool [])) (toyWorld []))))
       = Some [Errorf (''ANF pool u1; error creating volume trident-v: ''
                         @ ''capacity pool u1 has no space left'') [],
               Errorf (''ANF pool u2; error creating volume trident-v: ''
                         @ ''capacity pool u2 has no space left'') []]"
proof -
  let ?d = "toyDriver NFS []"
  let ?vc = "toyConfigSL ''v'' ''53687091200'' [] []"
  let ?vu = "toyConfigSL ''v'' ''107374182400'' [] ''Ultra''"
  let ?sn = "\<lparr> subnet_ID = ''subnet-1'' \<rparr>"
  have f: "toyFind ''trident-v'' [] = None"
    by (simp add: toyFind_def)
  from toy_protocols(1) obtain ep where
    pr: "Create_protocol ?d (toyPool []) (if ([] :: string) \<noteq> [] then [] else ''nfsvers=3'')
           = Inr ([ProtocolTypeNFSv3], ep, False)"
    by auto
  \<comment> \<open>the first candidate fails, the second succeeds\<close>
  from toy_Create_prepare [OF f _ pr, of "''53687091200''" "[]"] obtain vc1 l w4 where
    p: "Create_prepare ?d ?vc (Some (toyPool [])) (toyWorld [])
          = (Inr (vc1, l, ?sn, [toyP1, toyP2, toyP3]), w4)"
    and b4: "backend w4 = []" and n1: "vc_Name vc1 = ''v''"
    by auto
  from toy_failedAttempts [of "[toyP1]" NFS "[]" vc1 l ?sn w4] b4 obtain w5 where
    fa: "failedAttempts ?d vc1 l ?sn [toyP1] w4 = Some ([toyNoSpace ''p1''], w5)"
    and b5: "backend w5 = []"
    by auto
  from toy_create_ok [of toyP2 vc1 NFS "[]" l ?sn w5] n1 b5 obtain v w6 where
    ok: "sdkCreateVolume ?d (Create_request ?d vc1 l ?sn toyP2) w5 = (Inr v, w6)"
    and b6: "backend w6 = [v]" and st: "fs_ProvisioningState v = StateCreating"
    by auto
  have split: "[toyP1, toyP2, toyP3] = [toyP1] @ toyP2 # [toyP3]"
    by simp
  note S = Create_placement [OF p, THEN conjunct2, rule_format, OF conjI [OF split conjI [OF fa ok]]]
  \<comment> \<open>both candidates fail\<close>
  from toy_Create_prepare [OF f _ pr, of "''107374182400''" "''Ultra''"] obtain vc2 l2 w7 where
    p2: "Create_prepare ?d ?vu (Some (toyPool [])) (toyWorld []) = (Inr (vc2, l2, ?sn, [toyU1, toyU2]), w7)"
    and n2: "l_name l2 = ''trident-v''"
    by auto
  from toy_failedAttempts [of "[toyU1, toyU2]" NFS "[]" vc2 l2 ?sn w7] obtain w8 where
    fa2: "failedAttempts ?d vc2 l2 ?sn [toyU1, toyU2] w7 = Some ([toyNoSpace ''u1'', toyNoSpace ''u2''], w8)"
    by auto
  note F = Create_placement [OF p2, THEN conjunct1, rule_format, OF fa2]
  have es: "errorString (ext ?d) (toyNoSpace ''u1'') = ''capacity pool u1 has no space left''"
    "errorString (ext ?d) (toyNoSpace ''u2'') = ''capacity pool u2 has no space left''"
    by (simp_all add: toyExt_def toyNoSpace_def)
  from S F toy_wait_timeout [OF b6 st, of NFS "[]"] n2 es show ?thesis
    by (auto simp del: toyDriver_simps)
qed

section \<open>Create: the export rule of a kerberos pool\<close>

text \<open>
  C5, amended. When the NAS type is NFS, for each kerberos flavour configured on the
  pool (krb5, krb5i or krb5p), every create request that \<open>Create\<close> submits has protocol
  type NFSv4.1 only and one export rule, in which the unix read-only and read-write
  flags are clear and, of the three kerberos read-write flags, exactly the one of the
  configured flavour is set.
\<close>

theorem Create_kerberos_export_rule:
  assumes "NASType (Config d) = NFS"
      and "pools d (pool_Name storagePool) = Some pool"
      and "attr (InternalAttributes pool) Kerberos = kerberos"
      and "kerberos = MountOptionKerberos5 \<or> kerberos = MountOptionKerberos5I
           \<or> kerberos = MountOptionKerberos5P"
      and "createRequests (calls (snd (Create d volConfig (Some storagePool) w)))
             = createRequests (calls w) @ rs"
      and "r \<in> set rs"
  shows "req_ProtocolTypes r = [ProtocolTypeNFSv41]
       \<and> (\<exists>rule. Rules (req_ExportPolicy r) = [rule]
             \<and> \<not> UnixReadOnly rule \<and> \<not> UnixReadWrite rule
             \<and> Kerberos5ReadWrite rule = (kerberos = MountOptionKerberos5)
             \<and> Kerberos5IReadWrite rule = (kerberos = MountOptionKerberos5I)
             \<and> Kerberos5PReadWrite rule = (kerberos = MountOptionKerberos5P))"
proof -
  from Create_new_requests_pool [OF assms(5,6,2)] obtain vc1 l subnet c where
    r: "r = Create_request d vc1 l subnet c"
    and p: "Create_protocol d pool
                 (if vc_MountOptions volConfig \<noteq> [] then vc_MountOptions volConfig
                  else NfsMountOptions (Config d))
               = Inr (l_protocolTypes l, l_exportPolicy l, l_kerberosEnabled l)"
    by blast
  have n: "NASType (Config d) \<noteq> SMB"
    using assms(1) NFS_not_SMB by simp
  from Create_protocol_kerberos [OF n assms(3,4) p] r assms(1) show ?thesis
    by auto
qed

theorem Create_kerberos_export_rule_witness:
  "map req_ProtocolTypes
     (createRequests (calls (snd (Create (toyDriver NFS ''krb5'') (toyConfigSL ''v'' ''107374182400'' [] [])
                                    (Some (toyPool ''krb5'')) (toyWorld [])))))
     = [[ProtocolTypeNFSv41], [ProtocolTypeNFSv41]]
   \<and> map (\<lambda>r. map (\<lambda>rule. (UnixReadOnly rule, UnixReadWrite rule, Kerberos5ReadWrite rule,
                               Kerberos5IReadWrite rule, Kerberos5PReadWrite rule))
                  (Rules (req_ExportPolicy r)))
       (createRequests (calls (snd (Create (toyDriver NFS ''krb5'') (toyConfigSL ''v'' ''107374182400'' [] [])
                                      (Some (toyPool ''krb5'')) (toyWorld [])))))
     = [[(False, False, True, False, False)], [(False, False, True, False, False)]]"
proof -
  let ?d = "toyDriver NFS ''krb5''" and ?vc = "toyConfigSL ''v'' ''107374182400'' [] []"
  let ?run = "Create ?d ?vc (Some (toyPool ''krb5'')) (toyWorld [])"
  from toy_protocols(3) obtain ep where
    pr: "Create_protocol ?d (toyPool ''krb5'') (if ([] :: string) \<noteq> [] then [] else ''nfsvers=3'')
           = Inr ([ProtocolTypeNFSv41], ep, True)"
    by auto
  from toy_run [OF _ pr, of "''107374182400''"] obtain vc1 l subnet where
    rs: "createRequests (calls (snd ?run))
           = [Create_request ?d vc1 l subnet toyP1, Create_request ?d vc1 l subnet toyP2]"
    by auto
  let ?r1 = "Create_request ?d vc1 l subnet toyP1" and ?r2 = "Create_request ?d vc1 l subnet toyP2"
  have n: "NASType (Config ?d) = NFS" by simp
  have p: "pools ?d (pool_Name (toyPool ''krb5'')) = Some (toyPool ''krb5'')" by simp
  have a: "attr (InternalAttributes (toyPool ''krb5'')) Kerberos = ''krb5''" by simp
  have k: "''krb5'' = MountOptionKerberos5 \<or> ''krb5'' = MountOptionKerberos5I
           \<or> ''krb5'' = MountOptionKerberos5P"
    by (simp add: MountOptionKerberos5_def)
  have rs': "createRequests (calls (snd ?run)) = createRequests (calls (toyWorld [])) @ [?r1, ?r2]"
    using rs by simp
  have k5: "(''krb5'' = MountOptionKerberos5) = True" "(''krb5'' = MountOptionKerberos5I) = False"
    "(''krb5'' = MountOptionKerberos5P) = False"
    by (simp_all add: MountOptionKerberos5_def MountOptionKerberos5I_def MountOptionKerberos5P_def)
  note T1 = Create_kerberos_export_rule [OF n p a k rs', of ?r1, unfolded k5]
  note T2 = Create_kerberos_export_rule [OF n p a k rs', of ?r2, unfolded k5]
  from T1 T2 rs show ?thesis
    by (auto simp del: toyDriver_simps Create_request_simps)
qed

text \<open>
  C5 as stated holds for every pool with a kerberos flavour. With NAS type SMB the
  protocol is chosen before the kerberos flavour is looked at: on a pool with \<open>krb5\<close>
  the requests carry protocol type CIFS and no export rule.
\<close>

theorem Create_kerberos_smb_counterexample:
  "attr (InternalAttributes (toyPool ''krb5'')) Kerberos = MountOptionKerberos5
   \<and> map req_ProtocolTypes
       (createRequests (calls (snd (Create (toyDriver SMB ''krb5'') (toyConfigSL ''v'' ''107374182400'' [] [])
                                      (Some (toyPool ''krb5'')) (toyWorld [])))))
       = [[ProtocolTypeCIFS], [ProtocolTypeCIFS]]
   \<and> map (\<lambda>r. Rules (req_ExportPolicy r))
       (createRequests (calls (snd (Create (toyDriver SMB ''krb5'') (toyConfigSL ''v'' ''107374182400'' [] [])
                                      (Some (toyPool ''krb5'')) (toyWorld [])))))
       = [[], []]"
proof -
  let ?d = "toyDriver SMB ''krb5''" and ?vc = "toyConfigSL ''v'' ''107374182400'' [] []"
  have pr: "Create_protocol ?d (toyPool ''krb5'') (if ([] :: string) \<noteq> [] then [] else ''nfsvers=3'')
           = Inr ([ProtocolTypeCIFS], zeroExportPolicy, True)"
    using toy_protocols(4) by simp
  from toy_run [OF _ pr, of "''107374182400''"] obtain vc1 l subnet where
    "createRequests (calls (snd (Create ?d ?vc (Some (toyPool ''krb5'')) (toyWorld []))))
           = [Create_request ?d vc1 l subnet toyP1, Create_request ?d vc1 l subnet toyP2]"
    "l_protocolTypes l = [ProtocolTypeCIFS]"
    by auto
  then show ?thesis
    by (simp add: MountOptionKerberos5_def zeroExportPolicy_def NFS_def SMB_def)
qed

section \<open>Create: the NFS version\<close>

text \<open>
  C10, amended. When the NAS type is NFS, the NFS version is the one found in the
  effective mount options (those of the volume config if it has any, else those of the
  backend config), or 3 if they name none. A version other than 3, 4 and 4.1 makes
  \<open>Create\<close> fail with no create call. On a pool without kerberos, every create request
  submitted has one export rule, and: version 3 gives protocol type NFSv3 and NFSv3
  (not NFSv4.1) access; versions 4 and 4.1 give protocol type NFSv4.1 and NFSv4.1 (not
  NFSv3) access.
\<close>

theorem Create_nfs_version:
  assumes "NASType (Config d) = NFS"
      and "pools d (pool_Name storagePool) = Some pool"
      and "mountOptions = (if vc_MountOptions volConfig \<noteq> [] then vc_MountOptions volConfig
                           else NfsMountOptions (Config d))"
      and "version = (case nfsVersionInMountOptions (ext d) mountOptions of
                        None \<Rightarrow> nfsVersion3 | Some v \<Rightarrow> v)"
  shows "(version \<notin> set supportedNFSVersions \<longrightarrow>
            fst (fst (Create d volConfig (Some storagePool) w)) \<noteq> None
            \<and> createRequests (calls (snd (Create d volConfig (Some storagePool) w)))
                = createRequests (calls w))
       \<and> (attr (InternalAttributes pool) Kerberos = [] \<longrightarrow>
            (\<forall>rs r. createRequests (calls (snd (Create d volConfig (Some storagePool) w)))
                       = createRequests (calls w) @ rs \<and> r \<in> set rs \<longrightarrow>
               (\<exists>rule. Rules (req_ExportPolicy r) = [rule]
                  \<and> (version = nfsVersion3 \<longrightarrow>
                        req_ProtocolTypes r = [ProtocolTypeNFSv3] \<and> Nfsv3 rule \<and> \<not> Nfsv41 rule)
                  \<and> (version = nfsVersion4 \<or> version = nfsVersion41 \<longrightarrow>
                        req_ProtocolTypes r = [ProtocolTypeNFSv41] \<and> Nfsv41 rule \<and> \<not> Nfsv3 rule))))"
proof -
  have n: "NASType (Config d) \<noteq> SMB"
    using assms(1) NFS_not_SMB by simp
  have A: "fst (fst (Create d volConfig (Some storagePool) w)) \<noteq> None
            \<and> createRequests (calls (snd (Create d volConfig (Some storagePool) w)))
                = createRequests (calls w)"
    if u: "version \<notin> set supportedNFSVersions"
  proof -
    have "\<exists>e. Create_protocol d pool' mountOptions = Inl e" for pool'
      using Create_protocol_unsupported [OF n, of mountOptions pool'] u assms(4) by simp
    then obtain e vc' where "fst (Create_prepare d volConfig (Some storagePool) w) = Inl (e, vc')"
      using Create_prepare_Inl [of d storagePool volConfig w] assms(3) by blast
    from Create_of_prepare_Inl [OF this] show ?thesis by simp
  qed
  have B: "\<exists>rule. Rules (req_ExportPolicy r) = [rule]
                  \<and> (version = nfsVersion3 \<longrightarrow>
                        req_ProtocolTypes r = [ProtocolTypeNFSv3] \<and> Nfsv3 rule \<and> \<not> Nfsv41 rule)
                  \<and> (version = nfsVersion4 \<or> version = nfsVersion41 \<longrightarrow>
                        req_ProtocolTypes r = [ProtocolTypeNFSv41] \<and> Nfsv41 rule \<and> \<not> Nfsv3 rule)"
    if k: "attr (InternalAttributes pool) Kerberos = []"
      and rs: "createRequests (calls (snd (Create d volConfig (Some storagePool) w)))
                 = createRequests (calls w) @ rs"
      and r: "r \<in> set rs" for rs r
  proof -
    from Create_new_requests_pool [OF rs r assms(2)] obtain vc1 l subnet c where
      req: "r = Create_request d vc1 l subnet c"
      and p: "Create_protocol d pool mountOptions
                = Inr (l_protocolTypes l, l_exportPolicy l, l_kerberosEnabled l)"
      using assms(3) by auto
    from Create_protocol_plain [OF n k p] req assms(1,4) show ?thesis
      by (auto simp: nfsVersion3_def nfsVersion4_def nfsVersion41_def)
  qed
  from A B show ?thesis by blast
qed

theorem Create_nfs_version_witness:
  "map req_ProtocolTypes
     (createRequests (calls (snd (Create (toyDriver NFS []) (toyConfigSL ''v'' ''107374182400'' [] [])
                                    (Some (toyPool [])) (toyWorld [])))))
     = [[ProtocolTypeNFSv3], [ProtocolTypeNFSv3]]
   \<and> map req_ProtocolTypes
     (createRequests (calls (snd (Create (toyDriver NFS []) (toyConfigSL ''v'' ''107374182400'' ''nfsvers=4.1'' [])
                                    (Some (toyPool [])) (toyWorld [])))))
     = [[ProtocolTypeNFSv41], [ProtocolTypeNFSv41]]
   \<and> fst (fst (Create (toyDriver NFS []) (toyConfigSL ''v'' ''107374182400'' ''nfsvers=2'' [])
                  (Some (toyPool [])) (toyWorld []))) \<noteq> None
   \<and> createRequests (calls (snd (Create (toyDriver NFS []) (toyConfigSL ''v'' ''107374182400'' ''nfsvers=2'' [])
                                    (Some (toyPool [])) (toyWorld [])))) = []"
proof -
  let ?d = "toyDriver NFS []"
  let ?v3 = "toyConfigSL ''v'' ''107374182400'' [] []"
  let ?v41 = "toyConfigSL ''v'' ''107374182400'' ''nfsvers=4.1'' []"
  let ?v2 = "toyConfigSL ''v'' ''107374182400'' ''nfsvers=2'' []"
  let ?p = "toyPool []"
  have n: "NASType (Config ?d) = NFS" by simp
  have p: "pools ?d (pool_Name ?p) = Some ?p" by simp
  have k: "attr (InternalAttributes ?p) Kerberos = []" by simp
  have m3: "''nfsvers=3'' = (if vc_MountOptions ?v3 \<noteq> [] then vc_MountOptions ?v3
                             else NfsMountOptions (Config ?d))"
    and m41: "''nfsvers=4.1'' = (if vc_MountOptions ?v41 \<noteq> [] then vc_MountOptions ?v41
                             else NfsMountOptions (Config ?d))"
    and m2: "''nfsvers=2'' = (if vc_MountOptions ?v2 \<noteq> [] then vc_MountOptions ?v2
                             else NfsMountOptions (Config ?d))"
    by simp_all
  have e3: "nfsVersion3 = (case nfsVersionInMountOptions (ext ?d) ''nfsvers=3'' of
                             None \<Rightarrow> nfsVersion3 | Some v \<Rightarrow> v)"
    and e41: "nfsVersion41 = (case nfsVersionInMountOptions (ext ?d) ''nfsvers=4.1'' of
                             None \<Rightarrow> nfsVersion3 | Some v \<Rightarrow> v)"
    and e2: "''2'' = (case nfsVersionInMountOptions (ext ?d) ''nfsvers=2'' of
                             None \<Rightarrow> nfsVersion3 | Some v \<Rightarrow> v)"
    by (simp_all add: toyExt_def nfsVersion3_def nfsVersion41_def)
  have u: "''2'' \<notin> set supportedNFSVersions"
    by (simp add: supportedNFSVersions_def nfsVersion3_def nfsVersion4_def nfsVersion41_def)
  from toy_protocols(1) obtain ep3 where
    pr3: "Create_protocol ?d ?p (if ([] :: string) \<noteq> [] then [] else ''nfsvers=3'')
           = Inr ([ProtocolTypeNFSv3], ep3, False)"
    by auto
  from toy_protocols(2) obtain ep41 where
    pr41: "Create_protocol ?d ?p (if ''nfsvers=4.1'' \<noteq> [] then ''nfsvers=4.1'' else ''nfsvers=3'')
           = Inr ([ProtocolTypeNFSv41], ep41, False)"
    by auto
  from toy_run [OF _ pr3, of "''107374182400''"] obtain vc1 l subnet where
    rs3: "createRequests (calls (snd (Create ?d ?v3 (Some ?p) (toyWorld []))))
           = [Create_request ?d vc1 l subnet toyP1, Create_request ?d vc1 l subnet toyP2]"
    by auto
  from toy_run [OF _ pr41, of "''107374182400''"] obtain vc2 l2 subnet2 where
    rs41: "createRequests (calls (snd (Create ?d ?v41 (Some ?p) (toyWorld []))))
           = [Create_request ?d vc2 l2 subnet2 toyP1, Create_request ?d vc2 l2 subnet2 toyP2]"
    by auto
  note T3 = Create_nfs_version [OF n p m3 e3, of "toyWorld []", THEN conjunct2, rule_format, OF k]
  note T41 = Create_nfs_version [OF n p m41 e41, of "toyWorld []", THEN conjunct2, rule_format, OF k]
  note T2 = Create_nfs_version [OF n p m2 e2, of "toyWorld []", THEN conjunct1, rule_format, OF u]
  have a3: "req_ProtocolTypes r = [ProtocolTypeNFSv3]"
    if "r \<in> set [Create_request ?d vc1 l subnet toyP1, Create_request ?d vc1 l subnet toyP2]" for r
    using T3 [of "[Create_request ?d vc1 l subnet toyP1, Create_request ?d vc1 l subnet toyP2]" r] rs3 that
    by (auto simp del: toyDriver_simps Create_request_simps)
  have a41: "req_ProtocolTypes r = [ProtocolTypeNFSv41]"
    if "r \<in> set [Create_request ?d vc2 l2 subnet2 toyP1, Create_request ?d vc2 l2 subnet2 toyP2]" for r
    using T41 [of "[Create_request ?d vc2 l2 subnet2 toyP1, Create_request ?d vc2 l2 subnet2 toyP2]" r]
      rs41 that
    by (auto simp del: toyDriver_simps Create_request_simps)
  from a3 a41 rs3 rs41 T2 show ?thesis
    by (simp del: toyDriver_simps Create_request_simps)
qed

text \<open>
  C10 as stated holds for every NFS pool. On a pool with a kerberos flavour, version
  3 does not give NFSv3: the requests carry protocol type NFSv4.1 and their export rule
  has no NFSv3 access.
\<close>

theorem Create_nfs_version_kerberos_counterexample:
  "NASType (Config (toyDriver NFS ''krb5'')) = NFS
   \<and> nfsVersionInMountOptions (ext (toyDriver NFS ''krb5'')) ''nfsvers=3'' = Some nfsVersion3
   \<and> map req_ProtocolTypes
       (createRequests (calls (snd (Create (toyDriver NFS ''krb5'')
                                      (toyConfigSL ''v'' ''107374182400'' ''nfsvers=3'' [])
                                      (Some (toyPool ''krb5'')) (toyWorld [])))))
       = [[ProtocolTypeNFSv41], [ProtocolTypeNFSv41]]
   \<and> map (\<lambda>r. map Nfsv3 (Rules (req_ExportPolicy r)))
       (createRequests (calls (snd (Create (toyDriver NFS ''krb5'')
                                      (toyConfigSL ''v'' ''107374182400'' ''nfsvers=3'' [])
                                      (Some (toyPool ''krb5'')) (toyWorld [])))))
       = [[False], [False]]"
proof -
  let ?d = "toyDriver NFS ''krb5''" and ?vc = "toyConfigSL ''v'' ''107374182400'' ''nfsvers=3'' []"
  from toy_protocols(3) obtain ep where
    pr: "Create_protocol ?d (toyPool ''krb5'') (if ''nfsvers=3'' \<noteq> [] then ''nfsvers=3'' else ''nfsvers=3'')
           = Inr ([ProtocolTypeNFSv41], ep, True)"
    and ep: "map Nfsv3 (Rules ep) = [False]"
    by auto
  from toy_run [OF _ pr, of "''107374182400''"] obtain vc1 l subnet where
    "createRequests (calls (snd (Create ?d ?vc (Some (toyPool ''krb5'')) (toyWorld []))))
           = [Create_request ?d vc1 l subnet toyP1, Create_request ?d vc1 l subnet toyP2]"
    "l_protocolTypes l = [ProtocolTypeNFSv41]" "l_exportPolicy l = ep"
    by auto
  with ep show ?thesis
    by (simp add: toyExt_def nfsVersion3_def)
qed

section \<open>Create: a size below the floor of the service\<close>

text \<open>
  C4, amended. A \<open>Create\<close> for 50 GiB (53687091200 bytes) is not rejected by the size
  checks when the configured limits admit 100 GiB: the size is raised to 107374182400
  bytes and every create request submitted carries that quota. On an NFS pool without
  kerberos the request has protocol type NFSv3 when the effective mount options give
  version 3 or none, and NFSv4.1 when they give 4 or 4.1, and its one export rule has no
  kerberos flag set.
\<close>

theorem Create_size_raised:
  assumes "Create_checks d volConfig (Some storagePool) w = (Inr pool, w1)"
      and "ConvertSizeToBytes (ext d) (vc_Size volConfig) = Inr requestedSize"
      and "ParseUint requestedSize = Inr 53687091200"
      and "CheckVolumeSizeLimits (ext d) 107374182400 = None"
      and "version = (case nfsVersionInMountOptions (ext d)
                             (if vc_MountOptions volConfig \<noteq> [] then vc_MountOptions volConfig
                              else NfsMountOptions (Config d)) of
                        None \<Rightarrow> nfsVersion3 | Some v \<Rightarrow> v)"
  shows "fst (Create_size d volConfig pool w1) = Inr 107374182400
       \<and> (\<forall>rs r. createRequests (calls (snd (Create d volConfig (Some storagePool) w)))
                    = createRequests (calls w) @ rs \<and> r \<in> set rs \<longrightarrow>
            req_QuotaInBytes r = 107374182400
            \<and> (NASType (Config d) = NFS \<and> attr (InternalAttributes pool) Kerberos = [] \<longrightarrow>
                 req_ProtocolTypes r
                   = (if version = nfsVersion3 then [ProtocolTypeNFSv3] else [ProtocolTypeNFSv41])
                 \<and> (\<exists>rule. Rules (req_ExportPolicy r) = [rule]
                       \<and> \<not> Kerberos5ReadWrite rule \<and> \<not> Kerberos5IReadWrite rule
                       \<and> \<not> Kerberos5PReadWrite rule)))"
proof -
  have S: "fst (Create_size d volConfig pool w1) = Inr 107374182400"
    using assms(2,3,4)
    by (simp add: Create_size_def Let_def CheckMinVolumeSize_def MinimumVolumeSizeBytes_def
          MinimumANFVolumeSizeBytes_def)
  have P: "pools d (pool_Name storagePool) = Some pool"
    using Create_checks_Inr [OF assms(1)] by simp
  have B: "req_QuotaInBytes r = 107374182400
            \<and> (NASType (Config d) = NFS \<and> attr (InternalAttributes pool) Kerberos = [] \<longrightarrow>
                 req_ProtocolTypes r
                   = (if version = nfsVersion3 then [ProtocolTypeNFSv3] else [ProtocolTypeNFSv41])
                 \<and> (\<exists>rule. Rules (req_ExportPolicy r) = [rule]
                       \<and> \<not> Kerberos5ReadWrite rule \<and> \<not> Kerberos5IReadWrite rule
                       \<and> \<not> Kerberos5PReadWrite rule))"
    if rs: "createRequests (calls (snd (Create d volConfig (Some storagePool) w)))
                 = createRequests (calls w) @ rs"
      and r: "r \<in> set rs" for rs r
  proof -
    from Create_new_requests_pool [OF rs r P] obtain vc1 l subnet c w1' w2 where
      req: "r = Create_request d vc1 l subnet c"
      and c: "Create_checks d volConfig (Some storagePool) w = (Inr pool, w1')"
      and s: "Create_size d volConfig pool w1' = (Inr (l_sizeBytes l), w2)"
      and p: "Create_protocol d pool
                 (if vc_MountOptions volConfig \<noteq> [] then vc_MountOptions volConfig
                  else NfsMountOptions (Config d))
                = Inr (l_protocolTypes l, l_exportPolicy l, l_kerberosEnabled l)"
      by blast
    from c assms(1) have "w1' = w1" by simp
    with s S have q: "l_sizeBytes l = 107374182400" by simp
    have "req_ProtocolTypes r
                   = (if version = nfsVersion3 then [ProtocolTypeNFSv3] else [ProtocolTypeNFSv41])
                 \<and> (\<exists>rule. Rules (req_ExportPolicy r) = [rule]
                       \<and> \<not> Kerberos5ReadWrite rule \<and> \<not> Kerberos5IReadWrite rule
                       \<and> \<not> Kerberos5PReadWrite rule)"
      if n: "NASType (Config d) = NFS" and k: "attr (InternalAttributes pool) Kerberos = []"
    proof -
      have n': "NASType (Config d) \<noteq> SMB" using n NFS_not_SMB by simp
      from Create_protocol_plain [OF n' k p] req n assms(5) show ?thesis by auto
    qed
    with q req show ?thesis by simp
  qed
  from S B show ?thesis by blast
qed

theorem Create_size_raised_witness:
  "map req_QuotaInBytes
     (createRequests (calls (snd (Create (toyDriver NFS []) (toyConfigSL ''v'' ''53687091200'' ''nfsvers=4.1'' [])
                                    (Some (toyPool [])) (toyWorld [])))))
     = [107374182400, 107374182400]
   \<and> map req_ProtocolTypes
     (createRequests (calls (snd (Create (toyDriver NFS []) (toyConfigSL ''v'' ''53687091200'' ''nfsvers=4.1'' [])
                                    (Some (toyPool [])) (toyWorld [])))))
     = [[ProtocolTypeNFSv41], [ProtocolTypeNFSv41]]"
proof -
  let ?d = "toyDriver NFS []"
  let ?vc = "toyConfigSL ''v'' ''53687091200'' ''nfsvers=4.1'' []"
  let ?p = "toyPool []"
  have f: "toyFind ''trident-v'' [] = None"
    by (simp add: toyFind_def)
  from toy_Create_checks [OF f, of NFS "[]" "''53687091200''" "''nfsvers=4.1''" "[]"] obtain w1 where
    c: "Create_checks ?d ?vc (Some ?p) (toyWorld []) = (Inr ?p, w1)"
    by auto
  have s: "ConvertSizeToBytes (ext ?d) (vc_Size ?vc) = Inr ''53687091200''" by simp
  have l: "CheckVolumeSizeLimits (ext ?d) 107374182400 = None" by simp
  have e: "nfsVersion41 = (case nfsVersionInMountOptions (ext ?d)
                             (if vc_MountOptions ?vc \<noteq> [] then vc_MountOptions ?vc
                              else NfsMountOptions (Config ?d)) of
                        None \<Rightarrow> nfsVersion3 | Some v \<Rightarrow> v)"
    by (simp add: toyExt_def nfsVersion41_def)
  from toy_protocols(2) obtain ep41 where
    pr41: "Create_protocol ?d ?p (if ''nfsvers=4.1'' \<noteq> [] then ''nfsvers=4.1'' else ''nfsvers=3'')
           = Inr ([ProtocolTypeNFSv41], ep41, False)"
    by auto
  from toy_run [OF _ pr41, of "''53687091200''"] obtain vc1 l subnet where
    rs: "createRequests (calls (snd (Create ?d ?vc (Some ?p) (toyWorld []))))
           = [Create_request ?d vc1 l subnet toyP1, Create_request ?d vc1 l subnet toyP2]"
    by auto
  have nk: "NASType (Config ?d) = NFS \<and> attr (InternalAttributes ?p) Kerberos = []" by simp
  have v: "nfsVersion41 \<noteq> nfsVersion3"
    by (simp add: nfsVersion3_def nfsVersion41_def)
  note T = Create_size_raised [OF c s toy_ParseUint(1) l e, THEN conjunct2, rule_format]
  have a: "req_QuotaInBytes r = 107374182400 \<and> req_ProtocolTypes r = [ProtocolTypeNFSv41]"
    if "r \<in> set [Create_request ?d vc1 l subnet toyP1, Create_request ?d vc1 l subnet toyP2]" for r
    using T [of "[Create_request ?d vc1 l subnet toyP1, Create_request ?d vc1 l subnet toyP2]" r]
      rs that nk v
    by (auto simp del: toyDriver_simps Create_request_simps)
  from a rs show ?thesis
    by (simp del: toyDriver_simps Create_request_simps)
qed

text \<open>
  C4 as stated has protocol type NFSv4.1 on an NFS pool. With the default mount
  options, \<open>nfsvers=3\<close>, the requests for 50 GiB carry the raised quota and protocol
  type NFSv3.
\<close>

theorem Create_size_default_protocol_counterexample:
  "vc_Size (toyConfigSL ''v'' ''53687091200'' [] []) = ''53687091200''
   \<and> NASType (Config (toyDriver NFS [])) = NFS
   \<and> map req_QuotaInBytes
       (createRequests (calls (snd (Create (toyDriver NFS []) (toyConfigSL ''v'' ''53687091200'' [] [])
                                      (Some (toyPool [])) (toyWorld [])))))
       = [107374182400, 107374182400]
   \<and> map req_ProtocolTypes
       (createRequests (calls (snd (Create (toyDriver NFS []) (toyConfigSL ''v'' ''53687091200'' [] [])
                                      (Some (toyPool [])) (toyWorld [])))))
       = [[ProtocolTypeNFSv3], [ProtocolTypeNFSv3]]"
proof -
  let ?d = "toyDriver NFS []" and ?vc = "toyConfigSL ''v'' ''53687091200'' [] []"
  from toy_protocols(1) obtain ep where
    pr: "Create_protocol ?d (toyPool []) (if ([] :: string) \<noteq> [] then [] else ''nfsvers=3'')
           = Inr ([ProtocolTypeNFSv3], ep, False)"
    by auto
  from toy_run [OF _ pr, of "''53687091200''"] obtain vc1 l subnet where
    "createRequests (calls (snd (Create ?d ?vc (Some (toyPool [])) (toyWorld []))))
           = [Create_request ?d vc1 l subnet toyP1, Create_request ?d vc1 l subnet toyP2]"
    "l_protocolTypes l = [ProtocolTypeNFSv3]" "l_sizeBytes l = 107374182400"
    by auto
  then show ?thesis
    by simp
qed

end
